theory Spec2Isabelle
  imports Main "HOL-Library.Word"
begin

section \<open>Go values shared by the handlers\<close>

subsection \<open>Errors and panics\<close>

text \<open>
  A Go \<open>error\<close> is a value; \<open>nil\<close> is \<open>None\<close> of \<open>error option\<close>.
  \<open>SdkError\<close> is an error produced outside the provider (by a cloud SDK call or by a
  parser of a resource ID). \<open>Errorf fmt args\<close> is \<open>fmt.Errorf(fmt, args...)\<close>: the format
  string is kept as the source writes it and the arguments are kept as values, so an error
  that was passed to \<open>fmt.Errorf\<close> can be found again inside the result.
  \<open>ImportAsExistsError\<close> and \<open>ResourceRequiresImport\<close> are the errors built by
  \<open>tf.ImportAsExistsError(resourceName, id)\<close> and
  \<open>metadata.ResourceRequiresImport(resourceType, id)\<close>.
\<close>

datatype error =
    SdkError string
  | Errorf string "arg list"
  | ImportAsExistsError string string
  | ResourceRequiresImport string "string list"
and arg =
    ArgString string
  | ArgId "string list"
  | ArgError "error option"

text \<open>A run-time panic is not a returned error: a handler either returns or panics.\<close>

datatype panic = IndexOutOfRange | NilPointerDereference

datatype ret = Return "error option" | Panic panic

text \<open>\<open>wraps e' e\<close>: the error \<open>e'\<close> is a \<open>fmt.Errorf\<close> that was given \<open>e\<close> as an argument.\<close>

fun wraps :: "error \<Rightarrow> error \<Rightarrow> bool" where
  "wraps (Errorf f args) e = (ArgError (Some e) \<in> set args)"
| "wraps _ _ = False"

subsection \<open>Package \<open>strings\<close> and \<open>pointer.From\<close>\<close>

definition HasPrefix :: "string \<Rightarrow> string \<Rightarrow> bool" where
  "HasPrefix s prefix \<longleftrightarrow> length prefix \<le> length s \<and> take (length prefix) s = prefix"

definition HasSuffix :: "string \<Rightarrow> string \<Rightarrow> bool" where
  "HasSuffix s suffix \<longleftrightarrow>
     length suffix \<le> length s \<and> drop (length s - length suffix) s = suffix"

definition TrimPrefix :: "string \<Rightarrow> string \<Rightarrow> string" where
  "TrimPrefix s prefix = (if HasPrefix s prefix then drop (length prefix) s else s)"

definition TrimSuffix :: "string \<Rightarrow> string \<Rightarrow> string" where
  "TrimSuffix s suffix = (if HasSuffix s suffix then take (length s - length suffix) s else s)"

text \<open>\<open>pointer.From\<close> at type \<open>*string\<close>: the pointee, or the zero value for \<open>nil\<close>.\<close>

definition pointer_From :: "string option \<Rightarrow> string" where
  "pointer_From p = (case p of None \<Rightarrow> [] | Some v \<Rightarrow> v)"

section \<open>The containerized Linux Function App: model object and app settings\<close>

text \<open>\<open>helpers.Registry\<close> and \<open>helpers.SiteConfigLinuxFunctionAppOnContainer\<close>.\<close>

record Registry =
  Server :: string
  UserName :: string
  Password :: string
  Identity :: string

record SiteConfigLinuxFunctionAppOnContainer =
  AppInsightsConnectionString :: string
  Use32BitWorker :: bool
  FtpsState :: string

text \<open>
  \<open>LinuxFunctionAppOnContainerModel\<close>. A Go \<open>map[string]string\<close> is a partial function;
  the \<open>nil\<close> map and the empty map are both \<open>Map.empty\<close> (the code only reads the
  difference to avoid writing into a \<open>nil\<close> map).
\<close>

record LinuxFunctionAppOnContainerModel =
  Name :: string
  ResourceGroup :: string
  ManagedEnvironmentId :: string
  StorageAccountName :: string
  StorageAccountKey :: string
  StorageKeyVaultSecretID :: string
  BuiltinLogging :: bool
  AppSettings :: "string \<rightharpoonup> string"
  FunctionExtensionsVersion :: string
  Registries :: "Registry list"
  ContainerImage :: string
  SiteConfig :: "SiteConfigLinuxFunctionAppOnContainer list"
  Tags :: "string \<rightharpoonup> string"

text \<open>
  \<open>web.StringDictionary\<close>: \<open>Properties\<close> is a \<open>map[string]*string\<close>, \<open>None\<close> when
  \<open>nil\<close>. The entries are listed in the order in which \<open>range\<close> visits them; Go fixes no
  order, so a statement about the loop is made for every such list. A Go map holds a key
  once, which is \<open>distinct (map fst kvs)\<close>.
\<close>

record StringDictionary =
  Properties :: "(string \<times> string option) list option"

text \<open>The zero value of \<open>helpers.Registry\<close> (\<open>var dockerSettings helpers.Registry\<close>).\<close>

definition zeroRegistry :: Registry where
  "zeroRegistry = \<lparr>Server = [], UserName = [], Password = [], Identity = []\<rparr>"

text \<open>
  The state of the loop of \<open>unpackLinuxFunctionAppOnContainerAppSettings\<close>: the local map
  \<open>appSettings\<close>, the local \<open>dockerSettings\<close> and the receiver \<open>m\<close>.
\<close>

type_synonym unpack_state =
  "(string \<rightharpoonup> string) \<times> Registry \<times> LinuxFunctionAppOnContainerModel"

text \<open>
  One iteration: the \<open>switch k\<close>. \<open>NormalizeNilableString\<close> (package \<open>utils\<close>) and
  \<open>ParseWebJobsStorageString\<close> (package \<open>helpers\<close>) are not among the sources and are
  parameters. \<open>m.SiteConfig[0]\<close> panics on an empty slice.
\<close>

definition unpackEntry ::
  "(string option \<Rightarrow> string) \<Rightarrow> (string option \<Rightarrow> string \<times> string) \<Rightarrow>
   string \<times> string option \<Rightarrow> unpack_state \<Rightarrow> panic + unpack_state" where
  "unpackEntry NormalizeNilableString ParseWebJobsStorageString kv st =
    (case (kv, st) of ((k, v), (appSettings, dockerSettings, m)) \<Rightarrow>
      if k = ''FUNCTIONS_EXTENSION_VERSION'' then
        Inr (appSettings, dockerSettings, m\<lparr>FunctionExtensionsVersion := pointer_From v\<rparr>)
      else if k = ''DOCKER_REGISTRY_SERVER_URL'' then
        Inr (appSettings, dockerSettings\<lparr>Server := pointer_From v\<rparr>, m)
      else if k = ''DOCKER_REGISTRY_SERVER_USERNAME'' then
        Inr (appSettings, dockerSettings\<lparr>UserName := NormalizeNilableString v\<rparr>, m)
      else if k = ''DOCKER_REGISTRY_SERVER_PASSWORD'' then
        Inr (appSettings, dockerSettings\<lparr>Password := NormalizeNilableString v\<rparr>, m)
      else if k = ''APPLICATIONINSIGHTS_CONNECTION_STRING'' then
        (case SiteConfig m of
           [] \<Rightarrow> Inl IndexOutOfRange
         | sc # rest \<Rightarrow>
             Inr (appSettings, dockerSettings,
                  m\<lparr>SiteConfig :=
                      sc\<lparr>AppInsightsConnectionString := NormalizeNilableString v\<rparr> # rest\<rparr>))
      else if k = ''AzureWebJobsStorage'' then
        (if v \<noteq> None \<and> HasPrefix (the v) ''@Microsoft.KeyVault'' then
           let trimmed = TrimPrefix (TrimSuffix (the v) '')'') ''@Microsoft.KeyVault(SecretUri=''
           in Inr (appSettings, dockerSettings, m\<lparr>StorageKeyVaultSecretID := trimmed\<rparr>)
         else
           let (name, key) = ParseWebJobsStorageString v
           in Inr (appSettings, dockerSettings,
                   m\<lparr>StorageAccountName := name, StorageAccountKey := key\<rparr>))
      else
        Inr (appSettings(k \<mapsto> NormalizeNilableString v), dockerSettings, m))"

text \<open>The \<open>for k, v := range input.Properties\<close> loop; a panic ends it.\<close>

fun unpackLoop ::
  "(string option \<Rightarrow> string) \<Rightarrow> (string option \<Rightarrow> string \<times> string) \<Rightarrow>
   (string \<times> string option) list \<Rightarrow> unpack_state \<Rightarrow> panic + unpack_state" where
  "unpackLoop nn pw [] st = Inr st"
| "unpackLoop nn pw (kv # kvs) st =
     (case unpackEntry nn pw kv st of
        Inl p \<Rightarrow> Inl p
      | Inr st' \<Rightarrow> unpackLoop nn pw kvs st')"

text \<open>
  \<open>unpackLinuxFunctionAppOnContainerAppSettings\<close>: the receiver is passed in and the
  updated receiver is returned. \<open>dockerSettings\<close> is a local that the source fills and
  never reads.
\<close>

definition unpackLinuxFunctionAppOnContainerAppSettings ::
  "(string option \<Rightarrow> string) \<Rightarrow> (string option \<Rightarrow> string \<times> string) \<Rightarrow>
   LinuxFunctionAppOnContainerModel \<Rightarrow> StringDictionary \<Rightarrow>
   panic + LinuxFunctionAppOnContainerModel" where
  "unpackLinuxFunctionAppOnContainerAppSettings nn pw m input =
    (case Properties input of
       None \<Rightarrow> Inr m
     | Some kvs \<Rightarrow>
         (case unpackLoop nn pw kvs (Map.empty, zeroRegistry, m\<lparr>BuiltinLogging := False\<rparr>) of
            Inl p \<Rightarrow> Inl p
          | Inr (appSettings, dockerSettings, m') \<Rightarrow> Inr (m'\<lparr>AppSettings := appSettings\<rparr>)))"

text \<open>The keys that the \<open>switch\<close> names.\<close>

definition reservedKeys :: "string list" where
  "reservedKeys =
    [''FUNCTIONS_EXTENSION_VERSION'', ''DOCKER_REGISTRY_SERVER_URL'',
     ''DOCKER_REGISTRY_SERVER_USERNAME'', ''DOCKER_REGISTRY_SERVER_PASSWORD'',
     ''APPLICATIONINSIGHTS_CONNECTION_STRING'', ''AzureWebJobsStorage'']"

text \<open>
  \<open>parse.FunctionAppId\<close>, the typed ID of a Function App.
\<close>

record FunctionAppId =
  SubscriptionId :: string
  ResourceGroup :: string
  SiteName :: string

text \<open>
  The composite literal with which \<open>Read\<close> starts its \<open>state\<close>: the four fields it
  names, every other field at its zero value.
\<close>

definition newReadState ::
  "string \<Rightarrow> string \<Rightarrow> string \<Rightarrow> (string \<rightharpoonup> string) \<Rightarrow> LinuxFunctionAppOnContainerModel" where
  "newReadState name resourceGroup managedEnvironmentId tags =
    \<lparr>Name = name, ResourceGroup = resourceGroup, ManagedEnvironmentId = managedEnvironmentId,
     StorageAccountName = [], StorageAccountKey = [], StorageKeyVaultSecretID = [],
     BuiltinLogging = False, AppSettings = Map.empty, FunctionExtensionsVersion = [],
     Registries = [], ContainerImage = [], SiteConfig = [], Tags = tags\<rparr>"

section \<open>Resource data, the cloud SDK and resource definitions\<close>

subsection \<open>\<open>pluginsdk.ResourceData\<close>\<close>

text \<open>
  The values that the handlers pass to \<open>d.Set\<close>: strings, booleans and integers,
  pointers to them (\<open>None\<close> for \<open>nil\<close>) and lists.
\<close>

datatype tfvalue =
    VString string
  | VStringPtr "string option"
  | VBool bool
  | VBoolPtr "bool option"
  | VInt int
  | VList "tfvalue list"

text \<open>
  \<open>ResourceData\<close>: the resource ID of the state (\<open>d.Id()\<close>, \<open>d.SetId\<close>), the answer of
  \<open>d.IsNewResource()\<close>, the attributes (\<open>d.Get\<close>, \<open>d.Set\<close>), the configured timeouts
  (\<open>d.Timeout(key)\<close>, in nanoseconds), the answer of \<open>d.HasChange(key)\<close> and the flag
  that \<open>d.Partial\<close> sets. The schema types every attribute, so the type
  assertion on the result of \<open>d.Get\<close> cannot fail; an attribute that is not set reads as
  the zero value of its type.
\<close>

record ResourceData =
  Id :: string
  IsNewResource :: bool
  attrs :: "string \<rightharpoonup> tfvalue"
  Timeout :: "string \<Rightarrow> int"
  HasChange :: "string \<Rightarrow> bool"
  Partial :: bool

definition SetId :: "ResourceData \<Rightarrow> string \<Rightarrow> ResourceData" where
  "SetId d v = d\<lparr>Id := v\<rparr>"

definition d_Set :: "ResourceData \<Rightarrow> string \<Rightarrow> tfvalue \<Rightarrow> ResourceData" where
  "d_Set d key v = d\<lparr>attrs := (attrs d)(key \<mapsto> v)\<rparr>"

definition GetString :: "ResourceData \<Rightarrow> string \<Rightarrow> string" where
  "GetString d key =
    (case attrs d key of
       Some (VString s) \<Rightarrow> s
     | Some (VStringPtr (Some s)) \<Rightarrow> s
     | _ \<Rightarrow> [])"

definition GetBool :: "ResourceData \<Rightarrow> string \<Rightarrow> bool" where
  "GetBool d key =
    (case attrs d key of
       Some (VBool b) \<Rightarrow> b
     | Some (VBoolPtr (Some b)) \<Rightarrow> b
     | _ \<Rightarrow> False)"

definition GetInt :: "ResourceData \<Rightarrow> string \<Rightarrow> int" where
  "GetInt d key = (case attrs d key of Some (VInt i) \<Rightarrow> i | _ \<Rightarrow> 0)"

subsection \<open>Calls to the cloud SDK\<close>

text \<open>
  The SDK is a boundary: a call takes the state of the remote side (of any type \<open>'r\<close>) and
  gives a response, an error or \<open>nil\<close>, and the next state of the remote side. Of the
  response the handlers read the body and what \<open>utils.ResponseWasNotFound\<close> answers on it;
  that helper is not among the sources, so its answer is a field of the response.
\<close>

record 'a response =
  ResponseWasNotFound :: bool
  Body :: 'a

type_synonym ('a, 'r) sdk_op = "'r \<Rightarrow> ('a response \<times> error option) \<times> 'r"

text \<open>The calls that the handlers make, by client and method.\<close>

datatype sdk_call =
    SubscriptionsClient_Get
  | SubscriptionsClient_CreateOrUpdate
  | SubscriptionsClient_Delete
  | NamespacesClient_GetAuthorizationRule
  | NamespacesClient_CreateOrUpdateAuthorizationRule
  | NamespacesClient_ListKeys
  | NamespacesClient_DeleteAuthorizationRule
  | TopicsClient_GetAuthorizationRule
  | TopicsClient_CreateOrUpdateAuthorizationRule
  | TopicsClient_ListKeys
  | TopicsClient_DeleteAuthorizationRule
  | WaitForPairedNamespaceReplication
  | KubernetesClustersClient_Get
  | KubernetesClustersClient_GetAccessProfile string
  | WebAppsClient_Get
  | WebAppsClient_CheckNameAvailability
  | WebAppsClient_CreateOrUpdate
  | Future_WaitForCompletionRef
  | WebAppsClient_UpdateConfiguration
  | WebAppsClient_Delete
  | WebAppsClient_ListApplicationSettings
  | WebAppsClient_GetConfiguration
  | ManagedEnvironmentClient_Get

text \<open>
  A handler run is observed through the list of the calls it made, each with the error it
  returned and with the answer of \<open>utils.ResponseWasNotFound\<close> on its response.
\<close>

datatype event = Event sdk_call "error option" bool

record 'r world =
  remote :: 'r
  trace :: "event list"

definition perform ::
  "sdk_call \<Rightarrow> ('a, 'r) sdk_op \<Rightarrow> 'r world \<Rightarrow> ('a response \<times> error option) \<times> 'r world" where
  "perform c op w =
    (case op (remote w) of
       ((resp, err), r') \<Rightarrow>
         ((resp, err),
          \<lparr>remote = r', trace = trace w @ [Event c err (ResponseWasNotFound resp)]\<rparr>))"

text \<open>A call that returns only an error (a wait, a poller).\<close>

definition performWait ::
  "sdk_call \<Rightarrow> ('r \<Rightarrow> error option \<times> 'r) \<Rightarrow> 'r world \<Rightarrow> error option \<times> 'r world" where
  "performWait c op w =
    (case op (remote w) of
       (err, r') \<Rightarrow> (err, \<lparr>remote = r', trace = trace w @ [Event c err False]\<rparr>))"

text \<open>What a handler returns: its result, the resource data and the world after it.\<close>

type_synonym 'r handler = "ResourceData \<Rightarrow> 'r world \<Rightarrow> ret \<times> ResourceData \<times> 'r world"

subsection \<open>\<open>pluginsdk.Resource\<close> and its timeouts\<close>

text \<open>\<open>time.Duration\<close> counts nanoseconds.\<close>

definition Minute :: int where
  "Minute = 60 * 1000000000"

text \<open>
  \<open>pluginsdk.ResourceTimeout\<close>: a \<open>*time.Duration\<close> per operation.
  \<open>pluginsdk.DefaultTimeout\<close> gives the pointer to its argument.
\<close>

record ResourceTimeout =
  Create :: "int option"
  Read :: "int option"
  Update :: "int option"
  Delete :: "int option"

definition DefaultTimeout :: "int \<Rightarrow> int option" where
  "DefaultTimeout duration = Some duration"

text \<open>
  \<open>pluginsdk.Resource\<close>, with the fields that the statements below are about: the four
  handlers, the validation function that \<open>pluginsdk.ImporterValidatingResourceId\<close> is given
  (it returns an error for an ID it rejects) and the timeouts. \<open>Schema\<close> and
  \<open>CustomizeDiff\<close> are left out.
\<close>

record 'r Resource =
  Create :: "'r handler option"
  Read :: "'r handler option"
  Update :: "'r handler option"
  Delete :: "'r handler option"
  Importer :: "(string \<Rightarrow> error option) option"
  Timeouts :: ResourceTimeout

text \<open>\<open>sdk.ResourceFunc\<close> of the typed resources: a timeout and a function.\<close>

record 'r ResourceFunc =
  Timeout :: int
  Func :: "'r handler"

section \<open>ServiceBus: resource IDs, SDK types and clients\<close>

subsection \<open>Package \<open>servicebus/parse\<close>\<close>

text \<open>The ID structs, with the fields that the handlers read.\<close>

record NamespaceId =
  SubscriptionId :: string
  ResourceGroup :: string
  Name :: string

record TopicId =
  SubscriptionId :: string
  ResourceGroup :: string
  NamespaceName :: string
  Name :: string

record SubscriptionId =
  SubscriptionId :: string
  ResourceGroup :: string
  NamespaceName :: string
  TopicName :: string
  Name :: string

record NamespaceAuthorizationRuleId =
  SubscriptionId :: string
  ResourceGroup :: string
  NamespaceName :: string
  AuthorizationRuleName :: string

record TopicAuthorizationRuleId =
  SubscriptionId :: string
  ResourceGroup :: string
  NamespaceName :: string
  TopicName :: string
  AuthorizationRuleName :: string

text \<open>
  The functions of the package are not among the sources; the handlers take them as
  parameters: the parsers (an error, or the ID), the constructors \<open>New...ID\<close> and the
  formatters \<open>.ID()\<close>.
\<close>

record parse_pkg =
  parse_NamespaceID :: "string \<Rightarrow> error + NamespaceId"
  parse_TopicID :: "string \<Rightarrow> error + TopicId"
  parse_SubscriptionID :: "string \<Rightarrow> error + SubscriptionId"
  parse_NamespaceAuthorizationRuleID :: "string \<Rightarrow> error + NamespaceAuthorizationRuleId"
  parse_TopicAuthorizationRuleID :: "string \<Rightarrow> error + TopicAuthorizationRuleId"
  NewNamespaceID :: "string \<Rightarrow> string \<Rightarrow> string \<Rightarrow> NamespaceId"
  NewTopicID :: "string \<Rightarrow> string \<Rightarrow> string \<Rightarrow> string \<Rightarrow> TopicId"
  NewSubscriptionID :: "string \<Rightarrow> string \<Rightarrow> string \<Rightarrow> string \<Rightarrow> string \<Rightarrow> SubscriptionId"
  NewNamespaceAuthorizationRuleID ::
    "string \<Rightarrow> string \<Rightarrow> string \<Rightarrow> string \<Rightarrow> NamespaceAuthorizationRuleId"
  NewTopicAuthorizationRuleID ::
    "string \<Rightarrow> string \<Rightarrow> string \<Rightarrow> string \<Rightarrow> string \<Rightarrow> TopicAuthorizationRuleId"
  NamespaceId_ID :: "NamespaceId \<Rightarrow> string"
  TopicId_ID :: "TopicId \<Rightarrow> string"
  SubscriptionId_ID :: "SubscriptionId \<Rightarrow> string"
  NamespaceAuthorizationRuleId_ID :: "NamespaceAuthorizationRuleId \<Rightarrow> string"
  TopicAuthorizationRuleId_ID :: "TopicAuthorizationRuleId \<Rightarrow> string"

text \<open>The zero values (\<open>var resourceId parse.SubscriptionId\<close>).\<close>

definition zeroSubscriptionId :: SubscriptionId where
  "zeroSubscriptionId =
    \<lparr>SubscriptionId.SubscriptionId = [], SubscriptionId.ResourceGroup = [],
     SubscriptionId.NamespaceName = [], SubscriptionId.TopicName = [], SubscriptionId.Name = []\<rparr>"

definition zeroNamespaceAuthorizationRuleId :: NamespaceAuthorizationRuleId where
  "zeroNamespaceAuthorizationRuleId =
    \<lparr>NamespaceAuthorizationRuleId.SubscriptionId = [],
     NamespaceAuthorizationRuleId.ResourceGroup = [],
     NamespaceAuthorizationRuleId.NamespaceName = [],
     NamespaceAuthorizationRuleId.AuthorizationRuleName = []\<rparr>"

definition zeroTopicAuthorizationRuleId :: TopicAuthorizationRuleId where
  "zeroTopicAuthorizationRuleId =
    \<lparr>TopicAuthorizationRuleId.SubscriptionId = [], TopicAuthorizationRuleId.ResourceGroup = [],
     TopicAuthorizationRuleId.NamespaceName = [], TopicAuthorizationRuleId.TopicName = [],
     TopicAuthorizationRuleId.AuthorizationRuleName = []\<rparr>"

text \<open>An ID as an argument of \<open>fmt.Errorf\<close>: its components.\<close>

definition argSubscriptionId :: "SubscriptionId \<Rightarrow> arg" where
  "argSubscriptionId i =
    ArgId [SubscriptionId.SubscriptionId i, SubscriptionId.ResourceGroup i,
           SubscriptionId.NamespaceName i, SubscriptionId.TopicName i, SubscriptionId.Name i]"

definition argNamespaceAuthorizationRuleId :: "NamespaceAuthorizationRuleId \<Rightarrow> arg" where
  "argNamespaceAuthorizationRuleId i =
    ArgId [NamespaceAuthorizationRuleId.SubscriptionId i,
           NamespaceAuthorizationRuleId.ResourceGroup i,
           NamespaceAuthorizationRuleId.NamespaceName i,
           NamespaceAuthorizationRuleId.AuthorizationRuleName i]"

definition argTopicAuthorizationRuleId :: "TopicAuthorizationRuleId \<Rightarrow> arg" where
  "argTopicAuthorizationRuleId i =
    ArgId [TopicAuthorizationRuleId.SubscriptionId i, TopicAuthorizationRuleId.ResourceGroup i,
           TopicAuthorizationRuleId.NamespaceName i, TopicAuthorizationRuleId.TopicName i,
           TopicAuthorizationRuleId.AuthorizationRuleName i]"

subsection \<open>Types of the ServiceBus SDK\<close>

record SBSubscriptionProperties =
  AutoDeleteOnIdle :: "string option"
  DefaultMessageTimeToLive :: "string option"
  LockDuration :: "string option"
  DeadLetteringOnMessageExpiration :: "bool option"
  DeadLetteringOnFilterEvaluationExceptions :: "bool option"
  EnableBatchedOperations :: "bool option"
  MaxDeliveryCount :: "32 word option"
  RequiresSession :: "bool option"
  ForwardTo :: "string option"
  ForwardDeadLetteredMessagesTo :: "string option"
  Status :: string

record SBSubscription =
  SBSubscriptionProperties :: "SBSubscriptionProperties option"

record SBAuthorizationRuleProperties =
  Rights :: "string list option"

record SBAuthorizationRule =
  Name :: "string option"
  SBAuthorizationRuleProperties :: "SBAuthorizationRuleProperties option"

record AccessKeys =
  PrimaryKey :: "string option"
  PrimaryConnectionString :: "string option"
  SecondaryKey :: "string option"
  SecondaryConnectionString :: "string option"
  AliasPrimaryConnectionString :: "string option"
  AliasSecondaryConnectionString :: "string option"

subsection \<open>The clients\<close>

record 'r SubscriptionsClient =
  Get :: "string \<Rightarrow> string \<Rightarrow> string \<Rightarrow> string \<Rightarrow> (SBSubscription, 'r) sdk_op"
  CreateOrUpdate ::
    "string \<Rightarrow> string \<Rightarrow> string \<Rightarrow> string \<Rightarrow> SBSubscription \<Rightarrow> (SBSubscription, 'r) sdk_op"
  Delete :: "string \<Rightarrow> string \<Rightarrow> string \<Rightarrow> string \<Rightarrow> (unit, 'r) sdk_op"

record 'r NamespacesClient =
  GetAuthorizationRule :: "string \<Rightarrow> string \<Rightarrow> string \<Rightarrow> (SBAuthorizationRule, 'r) sdk_op"
  CreateOrUpdateAuthorizationRule ::
    "string \<Rightarrow> string \<Rightarrow> string \<Rightarrow> SBAuthorizationRule \<Rightarrow> (SBAuthorizationRule, 'r) sdk_op"
  ListKeys :: "string \<Rightarrow> string \<Rightarrow> string \<Rightarrow> (AccessKeys, 'r) sdk_op"
  DeleteAuthorizationRule :: "string \<Rightarrow> string \<Rightarrow> string \<Rightarrow> (unit, 'r) sdk_op"

record 'r TopicsClient =
  GetAuthorizationRule ::
    "string \<Rightarrow> string \<Rightarrow> string \<Rightarrow> string \<Rightarrow> (SBAuthorizationRule, 'r) sdk_op"
  CreateOrUpdateAuthorizationRule ::
    "string \<Rightarrow> string \<Rightarrow> string \<Rightarrow> string \<Rightarrow> SBAuthorizationRule \<Rightarrow>
     (SBAuthorizationRule, 'r) sdk_op"
  ListKeys :: "string \<Rightarrow> string \<Rightarrow> string \<Rightarrow> string \<Rightarrow> (AccessKeys, 'r) sdk_op"
  DeleteAuthorizationRule :: "string \<Rightarrow> string \<Rightarrow> string \<Rightarrow> string \<Rightarrow> (unit, 'r) sdk_op"

text \<open>
  What the handlers of the package read from \<open>meta\<close> and from the rest of the package:
  the subscription of the account, \<open>features.ThreePointOhBeta()\<close>, the \<open>parse\<close> package, the
  three clients, and three functions of the package that are not among the sources:
  \<open>waitForPairedNamespaceReplication\<close> (resource group, namespace, timeout),
  \<open>expandAuthorizationRuleRights\<close> and \<open>flattenAuthorizationRuleRights\<close> (which gives
  \<open>listen\<close>, \<open>send\<close>, \<open>manage\<close>).
\<close>

record 'r servicebus_meta =
  Account_SubscriptionId :: string
  ThreePointOhBeta :: bool
  Parse :: parse_pkg
  Subscriptions :: "'r SubscriptionsClient"
  Namespaces :: "'r NamespacesClient"
  Topics :: "'r TopicsClient"
  waitForPairedNamespaceReplication :: "string \<Rightarrow> string \<Rightarrow> int \<Rightarrow> 'r \<Rightarrow> error option \<times> 'r"
  expandAuthorizationRuleRights :: "ResourceData \<Rightarrow> string list option"
  flattenAuthorizationRuleRights :: "string list option \<Rightarrow> bool \<times> bool \<times> bool"

text \<open>A sequence of \<open>d.Set\<close> calls, in order.\<close>

definition d_SetAll :: "ResourceData \<Rightarrow> (string \<times> tfvalue) list \<Rightarrow> ResourceData" where
  "d_SetAll d kvs = foldl (\<lambda>d' (key, v). d_Set d' key v) d kvs"

section \<open>\<open>azurerm_servicebus_subscription\<close>\<close>

text \<open>
  \<open>resourceServiceBusSubscriptionRead\<close>. The ID of the state is parsed first; a \<open>GET\<close>
  error with a not-found response clears the ID and returns \<open>nil\<close>; any other \<open>GET\<close>
  error is returned inside a \<open>fmt.Errorf\<close>.
\<close>

definition resourceServiceBusSubscriptionRead :: "'r servicebus_meta \<Rightarrow> 'r handler" where
  "resourceServiceBusSubscriptionRead meta d w =
    (case parse_SubscriptionID (Parse meta) (Id d) of
       Inl err \<Rightarrow> (Return (Some err), d, w)
     | Inr rid \<Rightarrow>
        (case perform SubscriptionsClient_Get
                (SubscriptionsClient.Get (Subscriptions meta) (SubscriptionId.ResourceGroup rid)
                   (SubscriptionId.NamespaceName rid) (SubscriptionId.TopicName rid)
                   (SubscriptionId.Name rid)) w of
           ((resp, Some err), w1) \<Rightarrow>
             if ResponseWasNotFound resp then (Return None, SetId d [], w1)
             else (Return (Some (Errorf ''retrieving %s: %+v''
                                   [argSubscriptionId rid, ArgError (Some err)])), d, w1)
         | ((resp, None), w1) \<Rightarrow>
             let d1 = (if \<not> ThreePointOhBeta meta then
                         d_SetAll d
                           [(''topic_name'', VString (SubscriptionId.TopicName rid)),
                            (''namespace_name'', VString (SubscriptionId.NamespaceName rid)),
                            (''resource_group_name'', VString (SubscriptionId.ResourceGroup rid))]
                       else d);
                 d2 = d_SetAll d1
                        [(''name'', VString (SubscriptionId.Name rid)),
                         (''topic_id'',
                          VString (TopicId_ID (Parse meta)
                            (NewTopicID (Parse meta) (SubscriptionId.SubscriptionId rid)
                               (SubscriptionId.ResourceGroup rid) (SubscriptionId.NamespaceName rid)
                               (SubscriptionId.TopicName rid))))];
                 d3 = (case SBSubscriptionProperties (Body resp) of
                         None \<Rightarrow> d2
                       | Some props \<Rightarrow>
                           let d' = d_SetAll d2
                             [(''auto_delete_on_idle'', VStringPtr (AutoDeleteOnIdle props)),
                              (''default_message_ttl'', VStringPtr (DefaultMessageTimeToLive props)),
                              (''lock_duration'', VStringPtr (LockDuration props)),
                              (''dead_lettering_on_message_expiration'',
                               VBoolPtr (DeadLetteringOnMessageExpiration props)),
                              (''dead_lettering_on_filter_evaluation_error'',
                               VBoolPtr (DeadLetteringOnFilterEvaluationExceptions props)),
                              (''enable_batched_operations'', VBoolPtr (EnableBatchedOperations props)),
                              (''requires_session'', VBoolPtr (RequiresSession props)),
                              (''forward_to'', VStringPtr (ForwardTo props)),
                              (''forward_dead_lettered_messages_to'',
                               VStringPtr (ForwardDeadLetteredMessagesTo props)),
                              (''status'', VStringPtr (Some (Status props)))]
                           in (case MaxDeliveryCount props of
                                 None \<Rightarrow> d'
                               | Some count \<Rightarrow> d_Set d' ''max_delivery_count'' (VInt (sint count))))
             in (Return None, d3, w1)))"

text \<open>
  \<open>resourceServiceBusSubscriptionCreateUpdate\<close>, lines 179 to 185: the ID of the resource.
  The error of \<open>parse.TopicID\<close> is dropped, so a \<open>topic_id\<close> that does not parse leaves a
  \<open>nil\<close> pointer that is dereferenced.
\<close>

definition resourceServiceBusSubscription_resourceId ::
  "'r servicebus_meta \<Rightarrow> ResourceData \<Rightarrow> panic + SubscriptionId" where
  "resourceServiceBusSubscription_resourceId meta d =
    (let topicIdLit = GetString d ''topic_id'' in
     if topicIdLit \<noteq> [] then
       (case parse_TopicID (Parse meta) topicIdLit of
          Inl err \<Rightarrow> Inl NilPointerDereference
        | Inr topicId \<Rightarrow>
            Inr (NewSubscriptionID (Parse meta) (TopicId.SubscriptionId topicId)
                   (TopicId.ResourceGroup topicId) (TopicId.NamespaceName topicId)
                   (TopicId.Name topicId) (GetString d ''name'')))
     else if \<not> ThreePointOhBeta meta then
       Inr (NewSubscriptionID (Parse meta) (Account_SubscriptionId meta)
              (GetString d ''resource_group_name'') (GetString d ''namespace_name'')
              (GetString d ''topic_name'') (GetString d ''name''))
     else Inr zeroSubscriptionId)"

text \<open>
  Lines 187 to 198, the body of \<open>if d.IsNewResource()\<close>: the error to return, or \<open>nil\<close>
  to go on.
\<close>

definition resourceServiceBusSubscription_checkExisting ::
  "'r servicebus_meta \<Rightarrow> SubscriptionId \<Rightarrow> 'r world \<Rightarrow> error option \<times> 'r world" where
  "resourceServiceBusSubscription_checkExisting meta resourceId w =
    (case perform SubscriptionsClient_Get
            (SubscriptionsClient.Get (Subscriptions meta) (SubscriptionId.ResourceGroup resourceId)
               (SubscriptionId.NamespaceName resourceId) (SubscriptionId.TopicName resourceId)
               (SubscriptionId.Name resourceId)) w of
       ((existing, err), w1) \<Rightarrow>
         if err \<noteq> None \<and> \<not> ResponseWasNotFound existing then
           (Some (Errorf ''checking for presence of existing %s: %+v''
                    [argSubscriptionId resourceId, ArgError err]), w1)
         else if \<not> ResponseWasNotFound existing then
           (Some (ImportAsExistsError ''azurerm_servicebus_subscription''
                    (SubscriptionId_ID (Parse meta) resourceId)), w1)
         else (None, w1))"

text \<open>Lines 200 to 229: the request body.\<close>

definition ptrIfNonEmpty :: "string \<Rightarrow> string option" where
  "ptrIfNonEmpty s = (if s \<noteq> [] then Some s else None)"

definition resourceServiceBusSubscription_parameters :: "ResourceData \<Rightarrow> SBSubscription" where
  "resourceServiceBusSubscription_parameters d =
    \<lparr>SBSubscriptionProperties = Some
      \<lparr>AutoDeleteOnIdle = ptrIfNonEmpty (GetString d ''auto_delete_on_idle''),
       DefaultMessageTimeToLive = ptrIfNonEmpty (GetString d ''default_message_ttl''),
       LockDuration = ptrIfNonEmpty (GetString d ''lock_duration''),
       DeadLetteringOnMessageExpiration = Some (GetBool d ''dead_lettering_on_message_expiration''),
       DeadLetteringOnFilterEvaluationExceptions =
         Some (GetBool d ''dead_lettering_on_filter_evaluation_error''),
       EnableBatchedOperations = Some (GetBool d ''enable_batched_operations''),
       MaxDeliveryCount = Some (word_of_int (GetInt d ''max_delivery_count'')),
       RequiresSession = Some (GetBool d ''requires_session''),
       ForwardTo = ptrIfNonEmpty (GetString d ''forward_to''),
       ForwardDeadLetteredMessagesTo = ptrIfNonEmpty (GetString d ''forward_dead_lettered_messages_to''),
       Status = GetString d ''status''\<rparr>\<rparr>"

text \<open>\<open>resourceServiceBusSubscriptionCreateUpdate\<close>, registered for create and for update.\<close>

definition resourceServiceBusSubscriptionCreateUpdate :: "'r servicebus_meta \<Rightarrow> 'r handler" where
  "resourceServiceBusSubscriptionCreateUpdate meta d w =
    (case resourceServiceBusSubscription_resourceId meta d of
       Inl p \<Rightarrow> (Panic p, d, w)
     | Inr resourceId \<Rightarrow>
        (case (if IsNewResource d
               then resourceServiceBusSubscription_checkExisting meta resourceId w
               else (None, w)) of
           (Some err, w1) \<Rightarrow> (Return (Some err), d, w1)
         | (None, w1) \<Rightarrow>
            (case perform SubscriptionsClient_CreateOrUpdate
                    (SubscriptionsClient.CreateOrUpdate (Subscriptions meta)
                       (SubscriptionId.ResourceGroup resourceId)
                       (SubscriptionId.NamespaceName resourceId)
                       (SubscriptionId.TopicName resourceId) (SubscriptionId.Name resourceId)
                       (resourceServiceBusSubscription_parameters d)) w1 of
               ((resp, Some err), w2) \<Rightarrow>
                 (Return (Some (Errorf ''creating/updating %s: %v''
                                  [argSubscriptionId resourceId, ArgError (Some err)])), d, w2)
             | ((resp, None), w2) \<Rightarrow>
                 resourceServiceBusSubscriptionRead meta
                   (SetId d (SubscriptionId_ID (Parse meta) resourceId)) w2)))"

text \<open>\<open>resourceServiceBusSubscriptionDelete\<close>.\<close>

definition resourceServiceBusSubscriptionDelete :: "'r servicebus_meta \<Rightarrow> 'r handler" where
  "resourceServiceBusSubscriptionDelete meta d w =
    (case parse_SubscriptionID (Parse meta) (Id d) of
       Inl err \<Rightarrow> (Return (Some err), d, w)
     | Inr rid \<Rightarrow>
        (case perform SubscriptionsClient_Delete
                (SubscriptionsClient.Delete (Subscriptions meta) (SubscriptionId.ResourceGroup rid)
                   (SubscriptionId.NamespaceName rid) (SubscriptionId.TopicName rid)
                   (SubscriptionId.Name rid)) w of
           ((resp, Some err), w1) \<Rightarrow>
             (Return (Some (Errorf ''deleting %s: %+v''
                              [argSubscriptionId rid, ArgError (Some err)])), d, w1)
         | ((resp, None), w1) \<Rightarrow> (Return None, d, w1)))"

text \<open>
  \<open>resourceServiceBusSubscription\<close>: the registration. The importer validates with
  \<open>parse.SubscriptionID\<close> and returns its error.
\<close>

definition resourceServiceBusSubscription :: "'r servicebus_meta \<Rightarrow> 'r Resource" where
  "resourceServiceBusSubscription meta =
    \<lparr>Resource.Create = Some (resourceServiceBusSubscriptionCreateUpdate meta),
     Resource.Read = Some (resourceServiceBusSubscriptionRead meta),
     Resource.Update = Some (resourceServiceBusSubscriptionCreateUpdate meta),
     Resource.Delete = Some (resourceServiceBusSubscriptionDelete meta),
     Resource.Importer = Some (\<lambda>v.
        case parse_SubscriptionID (Parse meta) v of Inl err \<Rightarrow> Some err | Inr _ \<Rightarrow> None),
     Resource.Timeouts =
       \<lparr>ResourceTimeout.Create = DefaultTimeout (30 * Minute),
        ResourceTimeout.Read = DefaultTimeout (5 * Minute),
        ResourceTimeout.Update = DefaultTimeout (30 * Minute),
        ResourceTimeout.Delete = DefaultTimeout (30 * Minute)\<rparr>\<rparr>"

section \<open>\<open>azurerm_servicebus_namespace_authorization_rule\<close>\<close>

text \<open>
  \<open>resourceServiceBusNamespaceAuthorizationRuleRead\<close>. The keys are listed before any
  attribute is set.
\<close>

definition resourceServiceBusNamespaceAuthorizationRuleRead ::
  "'r servicebus_meta \<Rightarrow> 'r handler" where
  "resourceServiceBusNamespaceAuthorizationRuleRead meta d w =
    (case parse_NamespaceAuthorizationRuleID (Parse meta) (Id d) of
       Inl err \<Rightarrow> (Return (Some err), d, w)
     | Inr rid \<Rightarrow>
        (case perform NamespacesClient_GetAuthorizationRule
                (NamespacesClient.GetAuthorizationRule (Namespaces meta)
                   (NamespaceAuthorizationRuleId.ResourceGroup rid)
                   (NamespaceAuthorizationRuleId.NamespaceName rid)
                   (NamespaceAuthorizationRuleId.AuthorizationRuleName rid)) w of
           ((resp, Some err), w1) \<Rightarrow>
             if ResponseWasNotFound resp then (Return None, SetId d [], w1)
             else (Return (Some (Errorf ''retrieving %s: %+v''
                                   [argNamespaceAuthorizationRuleId rid, ArgError (Some err)])),
                   d, w1)
         | ((resp, None), w1) \<Rightarrow>
            (case perform NamespacesClient_ListKeys
                    (NamespacesClient.ListKeys (Namespaces meta)
                       (NamespaceAuthorizationRuleId.ResourceGroup rid)
                       (NamespaceAuthorizationRuleId.NamespaceName rid)
                       (NamespaceAuthorizationRuleId.AuthorizationRuleName rid)) w1 of
               ((keysResp, Some err), w2) \<Rightarrow>
                 (Return (Some (Errorf ''listing keys for %s: %+v''
                                  [argNamespaceAuthorizationRuleId rid, ArgError (Some err)])),
                  d, w2)
             | ((keysResp, None), w2) \<Rightarrow>
                 let d1 = d_Set d ''name''
                            (VString (NamespaceAuthorizationRuleId.AuthorizationRuleName rid));
                     d2 = (if \<not> ThreePointOhBeta meta then
                             d_SetAll d1
                               [(''namespace_name'',
                                 VString (NamespaceAuthorizationRuleId.NamespaceName rid)),
                                (''resource_group_name'',
                                 VString (NamespaceAuthorizationRuleId.ResourceGroup rid))]
                           else d1);
                     d3 = d_Set d2 ''namespace_id''
                            (VString (NamespaceId_ID (Parse meta)
                               (NewNamespaceID (Parse meta)
                                  (NamespaceAuthorizationRuleId.SubscriptionId rid)
                                  (NamespaceAuthorizationRuleId.ResourceGroup rid)
                                  (NamespaceAuthorizationRuleId.NamespaceName rid))));
                     d4 = (case SBAuthorizationRuleProperties (Body resp) of
                             None \<Rightarrow> d3
                           | Some properties \<Rightarrow>
                               (case flattenAuthorizationRuleRights meta (Rights properties) of
                                  (listen, send, manage) \<Rightarrow>
                                    d_SetAll d3
                                      [(''manage'', VBool manage), (''listen'', VBool listen),
                                       (''send'', VBool send)]));
                     keys = Body keysResp;
                     d5 = d_SetAll d4
                            [(''primary_key'', VStringPtr (PrimaryKey keys)),
                             (''primary_connection_string'',
                              VStringPtr (PrimaryConnectionString keys)),
                             (''secondary_key'', VStringPtr (SecondaryKey keys)),
                             (''secondary_connection_string'',
                              VStringPtr (SecondaryConnectionString keys)),
                             (''primary_connection_string_alias'',
                              VStringPtr (AliasPrimaryConnectionString keys)),
                             (''secondary_connection_string_alias'',
                              VStringPtr (AliasSecondaryConnectionString keys))]
                 in (Return None, d5, w2))))"

text \<open>
  \<open>resourceServiceBusNamespaceAuthorizationRuleCreateUpdate\<close>, lines 104 to 110: the ID
  of the resource.
\<close>

definition resourceServiceBusNamespaceAuthorizationRule_resourceId ::
  "'r servicebus_meta \<Rightarrow> ResourceData \<Rightarrow> panic + NamespaceAuthorizationRuleId" where
  "resourceServiceBusNamespaceAuthorizationRule_resourceId meta d =
    (let namespaceIdLit = GetString d ''namespace_id'' in
     if namespaceIdLit \<noteq> [] then
       (case parse_NamespaceID (Parse meta) namespaceIdLit of
          Inl err \<Rightarrow> Inl NilPointerDereference
        | Inr namespaceId \<Rightarrow>
            Inr (NewNamespaceAuthorizationRuleID (Parse meta)
                   (NamespaceId.SubscriptionId namespaceId) (NamespaceId.ResourceGroup namespaceId)
                   (NamespaceId.Name namespaceId) (GetString d ''name'')))
     else if \<not> ThreePointOhBeta meta then
       Inr (NewNamespaceAuthorizationRuleID (Parse meta) (Account_SubscriptionId meta)
              (GetString d ''resource_group_name'') (GetString d ''namespace_name'')
              (GetString d ''name''))
     else Inr zeroNamespaceAuthorizationRuleId)"

text \<open>Lines 112 to 123, the body of \<open>if d.IsNewResource()\<close>.\<close>

definition resourceServiceBusNamespaceAuthorizationRule_checkExisting ::
  "'r servicebus_meta \<Rightarrow> NamespaceAuthorizationRuleId \<Rightarrow> 'r world \<Rightarrow> error option \<times> 'r world" where
  "resourceServiceBusNamespaceAuthorizationRule_checkExisting meta resourceId w =
    (case perform NamespacesClient_GetAuthorizationRule
            (NamespacesClient.GetAuthorizationRule (Namespaces meta)
               (NamespaceAuthorizationRuleId.ResourceGroup resourceId)
               (NamespaceAuthorizationRuleId.NamespaceName resourceId)
               (NamespaceAuthorizationRuleId.AuthorizationRuleName resourceId)) w of
       ((existing, err), w1) \<Rightarrow>
         if err \<noteq> None \<and> \<not> ResponseWasNotFound existing then
           (Some (Errorf ''checking for presence of existing %s: %+v''
                    [argNamespaceAuthorizationRuleId resourceId, ArgError err]), w1)
         else if \<not> ResponseWasNotFound existing then
           (Some (ImportAsExistsError ''azurerm_servicebus_namespace_authorization_rule''
                    (NamespaceAuthorizationRuleId_ID (Parse meta) resourceId)), w1)
         else (None, w1))"

text \<open>
  The handler. The ID is stored in the state before the wait for the replication to the
  paired namespace; the wait is given \<open>d.Timeout(pluginsdk.TimeoutUpdate)\<close>.
\<close>

definition resourceServiceBusNamespaceAuthorizationRuleCreateUpdate ::
  "'r servicebus_meta \<Rightarrow> 'r handler" where
  "resourceServiceBusNamespaceAuthorizationRuleCreateUpdate meta d w =
    (case resourceServiceBusNamespaceAuthorizationRule_resourceId meta d of
       Inl p \<Rightarrow> (Panic p, d, w)
     | Inr resourceId \<Rightarrow>
        (case (if IsNewResource d
               then resourceServiceBusNamespaceAuthorizationRule_checkExisting meta resourceId w
               else (None, w)) of
           (Some err, w1) \<Rightarrow> (Return (Some err), d, w1)
         | (None, w1) \<Rightarrow>
            (case perform NamespacesClient_CreateOrUpdateAuthorizationRule
                    (NamespacesClient.CreateOrUpdateAuthorizationRule (Namespaces meta)
                       (NamespaceAuthorizationRuleId.ResourceGroup resourceId)
                       (NamespaceAuthorizationRuleId.NamespaceName resourceId)
                       (NamespaceAuthorizationRuleId.AuthorizationRuleName resourceId)
                       \<lparr>SBAuthorizationRule.Name =
                          Some (NamespaceAuthorizationRuleId.AuthorizationRuleName resourceId),
                        SBAuthorizationRule.SBAuthorizationRuleProperties =
                          Some \<lparr>Rights = expandAuthorizationRuleRights meta d\<rparr>\<rparr>) w1 of
               ((resp, Some err), w2) \<Rightarrow>
                 (Return (Some (Errorf ''creating/updating %s: %+v''
                                  [argNamespaceAuthorizationRuleId resourceId,
                                   ArgError (Some err)])), d, w2)
             | ((resp, None), w2) \<Rightarrow>
                 let d1 = SetId d (NamespaceAuthorizationRuleId_ID (Parse meta) resourceId) in
                 (case performWait WaitForPairedNamespaceReplication
                         (waitForPairedNamespaceReplication meta
                            (NamespaceAuthorizationRuleId.ResourceGroup resourceId)
                            (NamespaceAuthorizationRuleId.NamespaceName resourceId)
                            (ResourceData.Timeout d1 ''update'')) w2 of
                    (Some err, w3) \<Rightarrow>
                      (Return (Some (Errorf
                         ''waiting for replication to complete for Service Bus Namespace Disaster Recovery Configs (Namespace %q / Resource Group %q): %s''
                         [ArgString (NamespaceAuthorizationRuleId.NamespaceName resourceId),
                          ArgString (NamespaceAuthorizationRuleId.ResourceGroup resourceId),
                          ArgError (Some err)])), d1, w3)
                  | (None, w3) \<Rightarrow>
                      resourceServiceBusNamespaceAuthorizationRuleRead meta d1 w3))))"

text \<open>\<open>resourceServiceBusNamespaceAuthorizationRuleDelete\<close>.\<close>

definition resourceServiceBusNamespaceAuthorizationRuleDelete ::
  "'r servicebus_meta \<Rightarrow> 'r handler" where
  "resourceServiceBusNamespaceAuthorizationRuleDelete meta d w =
    (case parse_NamespaceAuthorizationRuleID (Parse meta) (Id d) of
       Inl err \<Rightarrow> (Return (Some err), d, w)
     | Inr rid \<Rightarrow>
        (case perform NamespacesClient_DeleteAuthorizationRule
                (NamespacesClient.DeleteAuthorizationRule (Namespaces meta)
                   (NamespaceAuthorizationRuleId.ResourceGroup rid)
                   (NamespaceAuthorizationRuleId.NamespaceName rid)
                   (NamespaceAuthorizationRuleId.AuthorizationRuleName rid)) w of
           ((resp, Some err), w1) \<Rightarrow>
             (Return (Some (Errorf ''deleting %s: %+v''
                              [argNamespaceAuthorizationRuleId rid, ArgError (Some err)])), d, w1)
         | ((resp, None), w1) \<Rightarrow>
            (case performWait WaitForPairedNamespaceReplication
                    (waitForPairedNamespaceReplication meta
                       (NamespaceAuthorizationRuleId.ResourceGroup rid)
                       (NamespaceAuthorizationRuleId.NamespaceName rid)
                       (ResourceData.Timeout d ''update'')) w1 of
               (Some err, w2) \<Rightarrow>
                 (Return (Some (Errorf
                    ''waiting for replication to complete for Service Bus Namespace Disaster Recovery Configs (Namespace %q / Resource Group %q): %s''
                    [ArgString (NamespaceAuthorizationRuleId.NamespaceName rid),
                     ArgString (NamespaceAuthorizationRuleId.ResourceGroup rid),
                     ArgError (Some err)])), d, w2)
             | (None, w2) \<Rightarrow> (Return None, d, w2))))"

text \<open>
  \<open>resourceServiceBusNamespaceAuthorizationRule\<close>: the registration; the importer
  validates with \<open>parse.NamespaceAuthorizationRuleID\<close>.
\<close>

definition resourceServiceBusNamespaceAuthorizationRule :: "'r servicebus_meta \<Rightarrow> 'r Resource" where
  "resourceServiceBusNamespaceAuthorizationRule meta =
    \<lparr>Resource.Create = Some (resourceServiceBusNamespaceAuthorizationRuleCreateUpdate meta),
     Resource.Read = Some (resourceServiceBusNamespaceAuthorizationRuleRead meta),
     Resource.Update = Some (resourceServiceBusNamespaceAuthorizationRuleCreateUpdate meta),
     Resource.Delete = Some (resourceServiceBusNamespaceAuthorizationRuleDelete meta),
     Resource.Importer = Some (\<lambda>v.
        case parse_NamespaceAuthorizationRuleID (Parse meta) v of
          Inl err \<Rightarrow> Some err | Inr _ \<Rightarrow> None),
     Resource.Timeouts =
       \<lparr>ResourceTimeout.Create = DefaultTimeout (30 * Minute),
        ResourceTimeout.Read = DefaultTimeout (5 * Minute),
        ResourceTimeout.Update = DefaultTimeout (30 * Minute),
        ResourceTimeout.Delete = DefaultTimeout (30 * Minute)\<rparr>\<rparr>"

section \<open>\<open>azurerm_servicebus_topic_authorization_rule\<close>\<close>

text \<open>
  \<open>resourceServiceBusTopicAuthorizationRuleRead\<close>. Here the keys are listed after the
  first attributes are set, so an error of \<open>ListKeys\<close> is returned with those attributes
  already written.
\<close>

definition resourceServiceBusTopicAuthorizationRuleRead ::
  "'r servicebus_meta \<Rightarrow> 'r handler" where
  "resourceServiceBusTopicAuthorizationRuleRead meta d w =
    (case parse_TopicAuthorizationRuleID (Parse meta) (Id d) of
       Inl err \<Rightarrow> (Return (Some err), d, w)
     | Inr rid \<Rightarrow>
        (case perform TopicsClient_GetAuthorizationRule
                (TopicsClient.GetAuthorizationRule (Topics meta)
                   (TopicAuthorizationRuleId.ResourceGroup rid)
                   (TopicAuthorizationRuleId.NamespaceName rid)
                   (TopicAuthorizationRuleId.TopicName rid)
                   (TopicAuthorizationRuleId.AuthorizationRuleName rid)) w of
           ((resp, Some err), w1) \<Rightarrow>
             if ResponseWasNotFound resp then (Return None, SetId d [], w1)
             else (Return (Some (Errorf ''retrieving %s: %+v''
                                   [argTopicAuthorizationRuleId rid, ArgError (Some err)])),
                   d, w1)
         | ((resp, None), w1) \<Rightarrow>
            let d1 = (if \<not> ThreePointOhBeta meta then
                        d_SetAll d
                          [(''topic_name'', VString (TopicAuthorizationRuleId.TopicName rid)),
                           (''namespace_name'',
                            VString (TopicAuthorizationRuleId.NamespaceName rid)),
                           (''resource_group_name'',
                            VString (TopicAuthorizationRuleId.ResourceGroup rid))]
                      else d);
                d2 = d_SetAll d1
                       [(''name'', VString (TopicAuthorizationRuleId.AuthorizationRuleName rid)),
                        (''topic_id'',
                         VString (TopicId_ID (Parse meta)
                           (NewTopicID (Parse meta) (TopicAuthorizationRuleId.SubscriptionId rid)
                              (TopicAuthorizationRuleId.ResourceGroup rid)
                              (TopicAuthorizationRuleId.NamespaceName rid)
                              (TopicAuthorizationRuleId.TopicName rid))))];
                d3 = (case SBAuthorizationRuleProperties (Body resp) of
                        None \<Rightarrow> d2
                      | Some properties \<Rightarrow>
                          (case flattenAuthorizationRuleRights meta (Rights properties) of
                             (listen, send, manage) \<Rightarrow>
                               d_SetAll d2
                                 [(''listen'', VBool listen), (''send'', VBool send),
                                  (''manage'', VBool manage)]))
            in
            (case perform TopicsClient_ListKeys
                    (TopicsClient.ListKeys (Topics meta)
                       (TopicAuthorizationRuleId.ResourceGroup rid)
                       (TopicAuthorizationRuleId.NamespaceName rid)
                       (TopicAuthorizationRuleId.TopicName rid)
                       (TopicAuthorizationRuleId.AuthorizationRuleName rid)) w1 of
               ((keysResp, Some err), w2) \<Rightarrow>
                 (Return (Some (Errorf ''listing keys for %s: %+v''
                                  [argTopicAuthorizationRuleId rid, ArgError (Some err)])),
                  d3, w2)
             | ((keysResp, None), w2) \<Rightarrow>
                 let keys = Body keysResp;
                     d4 = d_SetAll d3
                            [(''primary_key'', VStringPtr (PrimaryKey keys)),
                             (''primary_connection_string'',
                              VStringPtr (PrimaryConnectionString keys)),
                             (''secondary_key'', VStringPtr (SecondaryKey keys)),
                             (''secondary_connection_string'',
                              VStringPtr (SecondaryConnectionString keys)),
                             (''primary_connection_string_alias'',
                              VStringPtr (AliasPrimaryConnectionString keys)),
                             (''secondary_connection_string_alias'',
                              VStringPtr (AliasSecondaryConnectionString keys))]
                 in (Return None, d4, w2))))"

text \<open>
  \<open>resourceServiceBusTopicAuthorizationRuleCreateUpdate\<close>, lines 113 to 119: the ID of
  the resource.
\<close>

definition resourceServiceBusTopicAuthorizationRule_resourceId ::
  "'r servicebus_meta \<Rightarrow> ResourceData \<Rightarrow> panic + TopicAuthorizationRuleId" where
  "resourceServiceBusTopicAuthorizationRule_resourceId meta d =
    (let topicIdLit = GetString d ''topic_id'' in
     if topicIdLit \<noteq> [] then
       (case parse_TopicID (Parse meta) topicIdLit of
          Inl err \<Rightarrow> Inl NilPointerDereference
        | Inr topicId \<Rightarrow>
            Inr (NewTopicAuthorizationRuleID (Parse meta) (TopicId.SubscriptionId topicId)
                   (TopicId.ResourceGroup topicId) (TopicId.NamespaceName topicId)
                   (TopicId.Name topicId) (GetString d ''name'')))
     else if \<not> ThreePointOhBeta meta then
       Inr (NewTopicAuthorizationRuleID (Parse meta) (Account_SubscriptionId meta)
              (GetString d ''resource_group_name'') (GetString d ''namespace_name'')
              (GetString d ''topic_name'') (GetString d ''name''))
     else Inr zeroTopicAuthorizationRuleId)"

text \<open>Lines 121 to 132, the body of \<open>if d.IsNewResource()\<close>.\<close>

definition resourceServiceBusTopicAuthorizationRule_checkExisting ::
  "'r servicebus_meta \<Rightarrow> TopicAuthorizationRuleId \<Rightarrow> 'r world \<Rightarrow> error option \<times> 'r world" where
  "resourceServiceBusTopicAuthorizationRule_checkExisting meta resourceId w =
    (case perform TopicsClient_GetAuthorizationRule
            (TopicsClient.GetAuthorizationRule (Topics meta)
               (TopicAuthorizationRuleId.ResourceGroup resourceId)
               (TopicAuthorizationRuleId.NamespaceName resourceId)
               (TopicAuthorizationRuleId.TopicName resourceId)
               (TopicAuthorizationRuleId.AuthorizationRuleName resourceId)) w of
       ((existing, err), w1) \<Rightarrow>
         if err \<noteq> None \<and> \<not> ResponseWasNotFound existing then
           (Some (Errorf ''checking for presence of existing %s: %+v''
                    [argTopicAuthorizationRuleId resourceId, ArgError err]), w1)
         else if \<not> ResponseWasNotFound existing then
           (Some (ImportAsExistsError ''azurerm_servicebus_topic_authorization_rule''
                    (TopicAuthorizationRuleId_ID (Parse meta) resourceId)), w1)
         else (None, w1))"

text \<open>The handler; as for the namespace rule, the ID is stored before the wait.\<close>

definition resourceServiceBusTopicAuthorizationRuleCreateUpdate ::
  "'r servicebus_meta \<Rightarrow> 'r handler" where
  "resourceServiceBusTopicAuthorizationRuleCreateUpdate meta d w =
    (case resourceServiceBusTopicAuthorizationRule_resourceId meta d of
       Inl p \<Rightarrow> (Panic p, d, w)
     | Inr resourceId \<Rightarrow>
        (case (if IsNewResource d
               then resourceServiceBusTopicAuthorizationRule_checkExisting meta resourceId w
               else (None, w)) of
           (Some err, w1) \<Rightarrow> (Return (Some err), d, w1)
         | (None, w1) \<Rightarrow>
            (case perform TopicsClient_CreateOrUpdateAuthorizationRule
                    (TopicsClient.CreateOrUpdateAuthorizationRule (Topics meta)
                       (TopicAuthorizationRuleId.ResourceGroup resourceId)
                       (TopicAuthorizationRuleId.NamespaceName resourceId)
                       (TopicAuthorizationRuleId.TopicName resourceId)
                       (TopicAuthorizationRuleId.AuthorizationRuleName resourceId)
                       \<lparr>SBAuthorizationRule.Name =
                          Some (TopicAuthorizationRuleId.AuthorizationRuleName resourceId),
                        SBAuthorizationRule.SBAuthorizationRuleProperties =
                          Some \<lparr>Rights = expandAuthorizationRuleRights meta d\<rparr>\<rparr>) w1 of
               ((resp, Some err), w2) \<Rightarrow>
                 (Return (Some (Errorf ''creating/updating %s: %+v''
                                  [argTopicAuthorizationRuleId resourceId,
                                   ArgError (Some err)])), d, w2)
             | ((resp, None), w2) \<Rightarrow>
                 let d1 = SetId d (TopicAuthorizationRuleId_ID (Parse meta) resourceId) in
                 (case performWait WaitForPairedNamespaceReplication
                         (waitForPairedNamespaceReplication meta
                            (TopicAuthorizationRuleId.ResourceGroup resourceId)
                            (TopicAuthorizationRuleId.NamespaceName resourceId)
                            (ResourceData.Timeout d1 ''update'')) w2 of
                    (Some err, w3) \<Rightarrow>
                      (Return (Some (Errorf
                         ''waiting for replication to complete for Service Bus Namespace Disaster Recovery Configs (Namespace %q / Resource Group %q): %s''
                         [ArgString (TopicAuthorizationRuleId.NamespaceName resourceId),
                          ArgString (TopicAuthorizationRuleId.ResourceGroup resourceId),
                          ArgError (Some err)])), d1, w3)
                  | (None, w3) \<Rightarrow>
                      resourceServiceBusTopicAuthorizationRuleRead meta d1 w3))))"

text \<open>\<open>resourceServiceBusTopicAuthorizationRuleDelete\<close>.\<close>

definition resourceServiceBusTopicAuthorizationRuleDelete ::
  "'r servicebus_meta \<Rightarrow> 'r handler" where
  "resourceServiceBusTopicAuthorizationRuleDelete meta d w =
    (case parse_TopicAuthorizationRuleID (Parse meta) (Id d) of
       Inl err \<Rightarrow> (Return (Some err), d, w)
     | Inr rid \<Rightarrow>
        (case perform TopicsClient_DeleteAuthorizationRule
                (TopicsClient.DeleteAuthorizationRule (Topics meta)
                   (TopicAuthorizationRuleId.ResourceGroup rid)
                   (TopicAuthorizationRuleId.NamespaceName rid)
                   (TopicAuthorizationRuleId.TopicName rid)
                   (TopicAuthorizationRuleId.AuthorizationRuleName rid)) w of
           ((resp, Some err), w1) \<Rightarrow>
             (Return (Some (Errorf ''deleting %s: %+v''
                              [argTopicAuthorizationRuleId rid, ArgError (Some err)])), d, w1)
         | ((resp, None), w1) \<Rightarrow>
            (case performWait WaitForPairedNamespaceReplication
                    (waitForPairedNamespaceReplication meta
                       (TopicAuthorizationRuleId.ResourceGroup rid)
                       (TopicAuthorizationRuleId.NamespaceName rid)
                       (ResourceData.Timeout d ''update'')) w1 of
               (Some err, w2) \<Rightarrow>
                 (Return (Some (Errorf
                    ''waiting for replication to complete for Service Bus Namespace Disaster Recovery Configs (Namespace %q / Resource Group %q): %s''
                    [ArgString (TopicAuthorizationRuleId.NamespaceName rid),
                     ArgString (TopicAuthorizationRuleId.ResourceGroup rid),
                     ArgError (Some err)])), d, w2)
             | (None, w2) \<Rightarrow> (Return None, d, w2))))"

text \<open>
  \<open>resourceServiceBusTopicAuthorizationRule\<close>: the registration; the importer validates
  with \<open>parse.TopicAuthorizationRuleID\<close>.
\<close>

definition resourceServiceBusTopicAuthorizationRule :: "'r servicebus_meta \<Rightarrow> 'r Resource" where
  "resourceServiceBusTopicAuthorizationRule meta =
    \<lparr>Resource.Create = Some (resourceServiceBusTopicAuthorizationRuleCreateUpdate meta),
     Resource.Read = Some (resourceServiceBusTopicAuthorizationRuleRead meta),
     Resource.Update = Some (resourceServiceBusTopicAuthorizationRuleCreateUpdate meta),
     Resource.Delete = Some (resourceServiceBusTopicAuthorizationRuleDelete meta),
     Resource.Importer = Some (\<lambda>v.
        case parse_TopicAuthorizationRuleID (Parse meta) v of
          Inl err \<Rightarrow> Some err | Inr _ \<Rightarrow> None),
     Resource.Timeouts =
       \<lparr>ResourceTimeout.Create = DefaultTimeout (30 * Minute),
        ResourceTimeout.Read = DefaultTimeout (5 * Minute),
        ResourceTimeout.Update = DefaultTimeout (30 * Minute),
        ResourceTimeout.Delete = DefaultTimeout (30 * Minute)\<rparr>\<rparr>"

section \<open>The data source \<open>azurerm_kubernetes_cluster\<close>\<close>

text \<open>\<open>parse.ClusterId\<close> of package \<open>containers/parse\<close>.\<close>

record ClusterId =
  SubscriptionId :: string
  ResourceGroup :: string
  ManagedClusterName :: string

definition argClusterId :: "ClusterId \<Rightarrow> arg" where
  "argClusterId i =
    ArgId [ClusterId.SubscriptionId i, ClusterId.ResourceGroup i, ClusterId.ManagedClusterName i]"

text \<open>
  \<open>containerservice.ManagedCluster\<close> and its properties. Of the properties the handler
  itself reads whether \<open>AadProfile\<close> is \<open>nil\<close> and \<open>DisableLocalAccounts\<close>; every other
  field is read by the flatten functions only and stays in the extension of the record.
\<close>

record 'aad ManagedClusterProperties =
  AadProfile :: "'aad option"
  DisableLocalAccounts :: "bool option"

record ('props, 'ident) ManagedCluster =
  Name :: "string option"
  Location :: "string option"
  ManagedClusterProperties :: "'props option"
  Identity :: "'ident option"
  Tags :: "string \<rightharpoonup> string option"

text \<open>
  What \<open>dataSourceKubernetesClusterRead\<close> uses. The two SDK methods are \<open>Get\<close> and
  \<open>GetAccessProfile\<close> (resource group, cluster, role). Between and after the calls the
  handler only flattens the responses into the resource data with \<open>d.Set\<close>; those
  stretches make no SDK call and are parameters that give the resource data after them
  and the error on which the handler returns, if any:
  \<open>setProperties\<close> is lines 892 to 980 (inside \<open>if props != nil\<close>, up to
  \<open>service_principal\<close>), \<open>setKubeAdminConfig\<close> is lines 988 to 992,
  \<open>setIdentity\<close> is lines 999 to 1006, \<open>setKubeConfig\<close> is lines 1008 to 1012 and
  \<open>tags_FlattenAndSet\<close> is the call of line 1014. \<open>parse.NewClusterID\<close>, \<open>.ID()\<close> and
  \<open>azure.NormalizeLocation\<close> are not among the sources.
\<close>

record ('props, 'ident, 'profile, 'r) containers_meta =
  Account_SubscriptionId :: string
  NewClusterID :: "string \<Rightarrow> string \<Rightarrow> string \<Rightarrow> ClusterId"
  ClusterId_ID :: "ClusterId \<Rightarrow> string"
  NormalizeLocation :: "string \<Rightarrow> string"
  KubernetesClusters_Get ::
    "string \<Rightarrow> string \<Rightarrow> (('props, 'ident) ManagedCluster, 'r) sdk_op"
  KubernetesClusters_GetAccessProfile ::
    "string \<Rightarrow> string \<Rightarrow> string \<Rightarrow> ('profile, 'r) sdk_op"
  setProperties :: "ResourceData \<Rightarrow> 'props \<Rightarrow> error option \<times> ResourceData"
  setKubeAdminConfig :: "ResourceData \<Rightarrow> 'profile \<Rightarrow> error option \<times> ResourceData"
  setIdentity :: "ResourceData \<Rightarrow> 'ident option \<Rightarrow> error option \<times> ResourceData"
  setKubeConfig :: "ResourceData \<Rightarrow> 'profile \<Rightarrow> error option \<times> ResourceData"
  tags_FlattenAndSet ::
    "ResourceData \<Rightarrow> (string \<rightharpoonup> string option) \<Rightarrow> error option \<times> ResourceData"

text \<open>Lines 997 to 1014: identity, kube config and tags, after the properties.\<close>

definition dataSourceKubernetesClusterRead_finish ::
  "('props, 'ident, 'profile, 'r) containers_meta \<Rightarrow> ('props, 'ident) ManagedCluster \<Rightarrow>
   'profile \<Rightarrow> 'r handler" where
  "dataSourceKubernetesClusterRead_finish meta resp profile d w =
    (case setIdentity meta d (ManagedCluster.Identity resp) of
       (Some err, d1) \<Rightarrow> (Return (Some err), d1, w)
     | (None, d1) \<Rightarrow>
        (case setKubeConfig meta d1 profile of
           (Some err, d2) \<Rightarrow> (Return (Some err), d2, w)
         | (None, d2) \<Rightarrow>
            (case tags_FlattenAndSet meta d2 (ManagedCluster.Tags resp) of
               (err, d3) \<Rightarrow> (Return err, d3, w))))"

text \<open>
  \<open>dataSourceKubernetesClusterRead\<close>. A \<open>GET\<close> error is returned as an error in both
  cases: with a not-found response as a new \<open>"%s was not found"\<close> that does not hold the
  SDK's error, otherwise inside \<open>"retrieving %s: %+v"\<close>. The ID is set only after both
  lookups have succeeded.
\<close>

definition dataSourceKubernetesClusterRead ::
  "(('aad, 'z) ManagedClusterProperties_scheme, 'ident, 'profile, 'r) containers_meta \<Rightarrow>
   'r handler" where
  "dataSourceKubernetesClusterRead meta d w =
    (let rid = NewClusterID meta (Account_SubscriptionId meta)
                 (GetString d ''resource_group_name'') (GetString d ''name'') in
     case perform KubernetesClustersClient_Get
            (KubernetesClusters_Get meta (ClusterId.ResourceGroup rid)
               (ClusterId.ManagedClusterName rid)) w of
       ((resp, Some err), w1) \<Rightarrow>
         if ResponseWasNotFound resp
         then (Return (Some (Errorf ''%s was not found'' [argClusterId rid])), d, w1)
         else (Return (Some (Errorf ''retrieving %s: %+v''
                               [argClusterId rid, ArgError (Some err)])), d, w1)
     | ((resp, None), w1) \<Rightarrow>
        (case perform (KubernetesClustersClient_GetAccessProfile ''clusterUser'')
                (KubernetesClusters_GetAccessProfile meta (ClusterId.ResourceGroup rid)
                   (ClusterId.ManagedClusterName rid) ''clusterUser'') w1 of
           ((profile, Some err), w2) \<Rightarrow>
             (Return (Some (Errorf ''retrieving Access Profile for %s: %+v''
                              [argClusterId rid, ArgError (Some err)])), d, w2)
         | ((profile, None), w2) \<Rightarrow>
            let cluster = Body resp;
                d1 = SetId d (ClusterId_ID meta rid);
                d2 = d_SetAll d1
                       [(''name'', VStringPtr (ManagedCluster.Name cluster)),
                        (''resource_group_name'', VString (ClusterId.ResourceGroup rid))];
                d3 = (case ManagedCluster.Location cluster of
                        None \<Rightarrow> d2
                      | Some location \<Rightarrow>
                          d_Set d2 ''location'' (VString (NormalizeLocation meta location)))
            in
            (case ManagedClusterProperties cluster of
               None \<Rightarrow> dataSourceKubernetesClusterRead_finish meta cluster (Body profile) d3 w2
             | Some props \<Rightarrow>
                (case setProperties meta d3 props of
                   (Some err, d4) \<Rightarrow> (Return (Some err), d4, w2)
                 | (None, d4) \<Rightarrow>
                    if AadProfile props \<noteq> None \<and>
                       (DisableLocalAccounts props = None \<or> \<not> the (DisableLocalAccounts props))
                    then
                      (case perform (KubernetesClustersClient_GetAccessProfile ''clusterAdmin'')
                              (KubernetesClusters_GetAccessProfile meta
                                 (ClusterId.ResourceGroup rid)
                                 (ClusterId.ManagedClusterName rid) ''clusterAdmin'') w2 of
                         ((adminProfile, Some err), w3) \<Rightarrow>
                           (Return (Some (Errorf ''retrieving Admin Access Profile for %s: %+v''
                                            [argClusterId rid, ArgError (Some err)])), d4, w3)
                       | ((adminProfile, None), w3) \<Rightarrow>
                          (case setKubeAdminConfig meta d4 (Body adminProfile) of
                             (Some err, d5) \<Rightarrow> (Return (Some err), d5, w3)
                           | (None, d5) \<Rightarrow>
                               dataSourceKubernetesClusterRead_finish meta cluster
                                 (Body profile) d5 w3))
                    else
                      dataSourceKubernetesClusterRead_finish meta cluster (Body profile)
                        (d_SetAll d4 [(''kube_admin_config_raw'', VString []),
                                      (''kube_admin_config'', VList [])]) w2))))"

text \<open>
  \<open>dataSourceKubernetesCluster\<close>: a data source registers \<open>Read\<close> only, with a read
  timeout only.
\<close>

definition dataSourceKubernetesCluster ::
  "(('aad, 'z) ManagedClusterProperties_scheme, 'ident, 'profile, 'r) containers_meta \<Rightarrow>
   'r Resource" where
  "dataSourceKubernetesCluster meta =
    \<lparr>Resource.Create = None,
     Resource.Read = Some (dataSourceKubernetesClusterRead meta),
     Resource.Update = None,
     Resource.Delete = None,
     Resource.Importer = None,
     Resource.Timeouts =
       \<lparr>ResourceTimeout.Create = None,
        ResourceTimeout.Read = DefaultTimeout (5 * Minute),
        ResourceTimeout.Update = None,
        ResourceTimeout.Delete = None\<rparr>\<rparr>"

section \<open>The containerized Linux Function App: helpers, SDK types and clients\<close>

subsection \<open>Types of the web SDK\<close>

record NameValuePair =
  Name :: "string option"
  Value :: "string option"

record web_SiteConfig =
  AppSettings :: "NameValuePair list option"
  LinuxFxVersion :: "string option"
  FtpsState :: "string option"
  Use32BitWorkerProcess :: "bool option"

record SiteProperties =
  SiteConfig :: "web_SiteConfig option"
  ManagedEnvironmentID :: "string option"

record Site =
  Tags :: "string \<rightharpoonup> string option"
  Location :: "string option"
  Kind :: "string option"
  SiteProperties :: "SiteProperties option"

record ResourceNameAvailabilityRequest =
  Name :: "string option"
  Type :: string

record ResourceNameAvailability =
  NameAvailable :: "bool option"
  Message :: "string option"

text \<open>\<open>managedenvironments.ManagedEnvironmentId\<close> and the model of a managed environment.\<close>

record ManagedEnvironmentId =
  SubscriptionId :: string
  ResourceGroupName :: string
  ManagedEnvironmentName :: string

record ManagedEnvironment =
  Location :: string

definition argFunctionAppId :: "FunctionAppId \<Rightarrow> arg" where
  "argFunctionAppId i =
    ArgId [FunctionAppId.SubscriptionId i, FunctionAppId.ResourceGroup i, FunctionAppId.SiteName i]"

definition argManagedEnvironmentId :: "ManagedEnvironmentId \<Rightarrow> arg" where
  "argManagedEnvironmentId i =
    ArgId [ManagedEnvironmentId.SubscriptionId i, ManagedEnvironmentId.ResourceGroupName i,
           ManagedEnvironmentId.ManagedEnvironmentName i]"

subsection \<open>Package \<open>helpers\<close>\<close>

definition zeroSiteConfig :: web_SiteConfig where
  "zeroSiteConfig =
    \<lparr>web_SiteConfig.AppSettings = None, web_SiteConfig.LinuxFxVersion = None,
     web_SiteConfig.FtpsState = None, web_SiteConfig.Use32BitWorkerProcess = None\<rparr>"

text \<open>
  \<open>ExpandSiteConfigLinuxFunctionAppOnContainer\<close>. \<open>updateOrAppendAppSettings\<close> is not
  among the sources and is a parameter. With an \<open>existing\<close> that is not \<open>nil\<close> the function
  writes into the object that \<open>existing\<close> points to and returns that pointer; the result
  here is the object after the writes. Its error is always \<open>nil\<close>.
\<close>

definition ExpandSiteConfigLinuxFunctionAppOnContainer ::
  "(NameValuePair list \<Rightarrow> string \<Rightarrow> string \<Rightarrow> bool \<Rightarrow> NameValuePair list) \<Rightarrow>
   ResourceData \<Rightarrow> SiteConfigLinuxFunctionAppOnContainer list \<Rightarrow> web_SiteConfig option \<Rightarrow>
   Registry \<Rightarrow> string \<Rightarrow> string \<Rightarrow> web_SiteConfig option \<times> error option" where
  "ExpandSiteConfigLinuxFunctionAppOnContainer updateOrAppendAppSettings d siteConfig existing
     registry version storageString =
    (case siteConfig of
       [] \<Rightarrow> (None, None)
     | linuxFunctionOnContainerSiteConfig # _ \<Rightarrow>
        let expanded = (case existing of
                          None \<Rightarrow> zeroSiteConfig
                        | Some e \<Rightarrow> e\<lparr>web_SiteConfig.LinuxFxVersion := Some []\<rparr>);
            a0 = (case existing of
                    None \<Rightarrow> []
                  | Some e \<Rightarrow> (case web_SiteConfig.AppSettings e of None \<Rightarrow> [] | Some as \<Rightarrow> as));
            a1 = updateOrAppendAppSettings a0 ''FUNCTIONS_EXTENSION_VERSION'' version False;
            a2 = updateOrAppendAppSettings a1 ''AzureWebJobsStorage'' storageString False;
            a3 = (if AppInsightsConnectionString linuxFunctionOnContainerSiteConfig = []
                  then updateOrAppendAppSettings a2 ''APPLICATIONINSIGHTS_CONNECTION_STRING''
                         (AppInsightsConnectionString linuxFunctionOnContainerSiteConfig) True
                  else updateOrAppendAppSettings a2 ''APPLICATIONINSIGHTS_CONNECTION_STRING''
                         (AppInsightsConnectionString linuxFunctionOnContainerSiteConfig) False);
            a4 = updateOrAppendAppSettings a3 ''DOCKER_REGISTRY_SERVER_URL'' (Server registry) False;
            a5 = (if UserName registry \<noteq> []
                  then updateOrAppendAppSettings a4 ''DOCKER_REGISTRY_SERVER_USERNAME''
                         (UserName registry) False
                  else a4);
            a6 = (if Password registry \<noteq> []
                  then updateOrAppendAppSettings a5 ''DOCKER_REGISTRY_SERVER_PASSWORD''
                         (Password registry) False
                  else a5);
            e1 = expanded\<lparr>web_SiteConfig.AppSettings := Some a6\<rparr>;
            e2 = (if HasChange d ''site_config.0.ftps_state''
                  then e1\<lparr>web_SiteConfig.FtpsState :=
                            Some (SiteConfigLinuxFunctionAppOnContainer.FtpsState
                                    linuxFunctionOnContainerSiteConfig)\<rparr>
                  else e1)
        in (Some (e2\<lparr>web_SiteConfig.Use32BitWorkerProcess :=
                       Some (Use32BitWorker linuxFunctionOnContainerSiteConfig)\<rparr>), None))"

text \<open>
  \<open>FlattenSiteConfigLinuxFunctionAppOnContainer\<close>: it reads through its argument, so a
  \<open>nil\<close> argument panics; its error is always \<open>nil\<close>.
\<close>

definition FlattenSiteConfigLinuxFunctionAppOnContainer ::
  "web_SiteConfig option \<Rightarrow> panic + SiteConfigLinuxFunctionAppOnContainer" where
  "FlattenSiteConfigLinuxFunctionAppOnContainer functionAppOnContainer =
    (case functionAppOnContainer of
       None \<Rightarrow> Inl NilPointerDereference
     | Some c \<Rightarrow>
         Inr \<lparr>AppInsightsConnectionString = [],
              Use32BitWorker = (case Use32BitWorkerProcess c of None \<Rightarrow> False | Some b \<Rightarrow> b),
              SiteConfigLinuxFunctionAppOnContainer.FtpsState =
                pointer_From (web_SiteConfig.FtpsState c)\<rparr>)"

text \<open>\<open>EncodeLinuxFunctionAppOnContainerLinuxFxVersion\<close>.\<close>

definition EncodeLinuxFunctionAppOnContainerLinuxFxVersion ::
  "Registry list \<Rightarrow> string \<Rightarrow> string option" where
  "EncodeLinuxFunctionAppOnContainerLinuxFxVersion input containerImage =
    (case input of
       [] \<Rightarrow> Some []
     | r # _ \<Rightarrow>
         let dockerUrl = TrimPrefix (TrimPrefix (Server r) ''https://'') ''http://''
         in Some (''DOCKER|'' @ dockerUrl @ ''/'' @ containerImage))"

text \<open>\<open>strings.Split\<close> with a separator of one character.\<close>

fun Split :: "string \<Rightarrow> char \<Rightarrow> string list" where
  "Split [] sep = [[]]"
| "Split (c # cs) sep =
     (if c = sep then [] # Split cs sep
      else (case Split cs sep of
              [] \<Rightarrow> [[c]]
            | p # ps \<Rightarrow> (c # p) # ps))"

text \<open>\<open>value[strings.Index(value, "/")+1:]\<close>: the index is \<open>-1\<close> when there is no slash.\<close>

definition afterFirstSlash :: "string \<Rightarrow> string" where
  "afterFirstSlash v =
    (case dropWhile (\<lambda>c. c \<noteq> CHR ''/'') v of [] \<Rightarrow> v | _ # rest \<Rightarrow> rest)"

text \<open>
  \<open>DecodeLinuxFunctionAppOnContainerLinuxFxVersion\<close>: \<open>parts[1]\<close> is read before the length
  of \<open>parts\<close> is checked.
\<close>

definition DecodeLinuxFunctionAppOnContainerLinuxFxVersion ::
  "string option \<Rightarrow> panic + (string \<times> error option)" where
  "DecodeLinuxFunctionAppOnContainerLinuxFxVersion input =
    (case input of
       None \<Rightarrow> Inr ([], None)
     | Some s \<Rightarrow>
        (case Split s CHR ''|'' of
           p0 # p1 # rest \<Rightarrow>
             if rest \<noteq> [] \<or> p0 \<noteq> ''DOCKER''
             then Inr ([], Some (Errorf ''unrecognised LinuxFxVersion format received, got %s''
                                   [ArgString s]))
             else Inr (afterFirstSlash p1, None)
         | _ \<Rightarrow> Inl IndexOutOfRange))"

subsection \<open>The clients and the rest of \<open>metadata\<close>\<close>

record ('fut, 'r) WebAppsClient =
  Get :: "string \<Rightarrow> string \<Rightarrow> (Site, 'r) sdk_op"
  CheckNameAvailability ::
    "ResourceNameAvailabilityRequest \<Rightarrow> (ResourceNameAvailability, 'r) sdk_op"
  CreateOrUpdate :: "string \<Rightarrow> string \<Rightarrow> Site \<Rightarrow> ('fut, 'r) sdk_op"
  WaitForCompletionRef :: "'fut \<Rightarrow> 'r \<Rightarrow> error option \<times> 'r"
  UpdateConfiguration :: "string \<Rightarrow> string \<Rightarrow> web_SiteConfig option \<Rightarrow> (unit, 'r) sdk_op"
  Delete :: "string \<Rightarrow> string \<Rightarrow> bool option \<Rightarrow> bool option \<Rightarrow> (unit, 'r) sdk_op"
  ListApplicationSettings :: "string \<Rightarrow> string \<Rightarrow> (StringDictionary, 'r) sdk_op"
  GetConfiguration :: "string \<Rightarrow> string \<Rightarrow> (web_SiteConfig option, 'r) sdk_op"

text \<open>
  What the four functions of the resource read from \<open>metadata\<close> and from packages that
  are not among the sources: the account (subscription, name of the environment, storage
  domain suffix, \<open>None\<close> when it cannot be determined), \<open>metadata.Decode\<close>,
  \<open>metadata.MarkAsGone\<close>, the \<open>parse\<close> package of the service,
  \<open>managedenvironments.ParseManagedEnvironmentID\<close>, the two clients, the two
  \<open>fmt.Sprintf\<close> of the storage strings (their formats are constants of \<open>helpers\<close>),
  \<open>helpers.updateOrAppendAppSettings\<close>, \<open>helpers.MergeUserAppSettings\<close>, the \<open>tags\<close>
  functions, \<open>location.Normalize\<close>, and the two parameters of the unpacking of the app
  settings.
\<close>

record ('fut, 'r) appservice_meta =
  Account_SubscriptionId :: string
  Environment_Name :: string
  Storage_DomainSuffix :: "string option"
  Decode :: "ResourceData \<Rightarrow> error + LinuxFunctionAppOnContainerModel"
  MarkAsGone :: "FunctionAppId \<Rightarrow> ResourceData \<Rightarrow> error option \<times> ResourceData"
  parse_FunctionAppID :: "string \<Rightarrow> error + FunctionAppId"
  NewFunctionAppID :: "string \<Rightarrow> string \<Rightarrow> string \<Rightarrow> FunctionAppId"
  FunctionAppId_ID :: "FunctionAppId \<Rightarrow> string"
  ParseManagedEnvironmentID :: "string \<Rightarrow> error + ManagedEnvironmentId"
  WebApps :: "('fut, 'r) WebAppsClient"
  ManagedEnvironments_Get :: "ManagedEnvironmentId \<Rightarrow> (ManagedEnvironment option, 'r) sdk_op"
  Sprintf_StorageStringFmtKV :: "string \<Rightarrow> string"
  Sprintf_StorageStringFmt :: "string \<Rightarrow> string \<Rightarrow> string \<Rightarrow> string"
  updateOrAppendAppSettings ::
    "NameValuePair list \<Rightarrow> string \<Rightarrow> string \<Rightarrow> bool \<Rightarrow> NameValuePair list"
  MergeUserAppSettings ::
    "NameValuePair list option \<Rightarrow> (string \<rightharpoonup> string) \<Rightarrow> NameValuePair list option"
  tags_FromTypedObject :: "(string \<rightharpoonup> string) \<Rightarrow> (string \<rightharpoonup> string option)"
  tags_ToTypedObject :: "(string \<rightharpoonup> string option) \<Rightarrow> (string \<rightharpoonup> string)"
  location_Normalize :: "string \<Rightarrow> string"
  NormalizeNilableString :: "string option \<Rightarrow> string"
  ParseWebJobsStorageString :: "string option \<Rightarrow> string \<times> string"

text \<open>Lines 226 to 231 and 380 to 385: the storage string.\<close>

definition storageStringOf ::
  "('fut, 'r) appservice_meta \<Rightarrow> string \<Rightarrow> LinuxFunctionAppOnContainerModel \<Rightarrow> string" where
  "storageStringOf meta storageDomainSuffix m =
    (if LinuxFunctionAppOnContainerModel.StorageKeyVaultSecretID m \<noteq> []
     then Sprintf_StorageStringFmtKV meta (LinuxFunctionAppOnContainerModel.StorageKeyVaultSecretID m)
     else Sprintf_StorageStringFmt meta (LinuxFunctionAppOnContainerModel.StorageAccountName m)
            (LinuxFunctionAppOnContainerModel.StorageAccountKey m) storageDomainSuffix)"

section \<open>\<open>azurerm_linux_function_app_on_container\<close>: the four functions\<close>

definition ResourceType :: string where
  "ResourceType = ''azurerm_linux_function_app_on_container''"

text \<open>
  \<open>Create\<close>, lines 225 to 267: from the storage string to the end. \<open>Registries[0]\<close> panics
  on an empty list; \<open>ExpandSiteConfigLinuxFunctionAppOnContainer\<close> gives \<open>nil\<close> for an empty
  \<open>site_config\<close> and the next line writes through that pointer; \<open>env.Model\<close> is read
  through without a check. The function returns \<open>nil\<close> only after
  \<open>future.WaitForCompletionRef\<close> has returned \<open>nil\<close>, and then sets the ID.
\<close>

definition Create_submit ::
  "('fut, 'r) appservice_meta \<Rightarrow> string \<Rightarrow> LinuxFunctionAppOnContainerModel \<Rightarrow> FunctionAppId \<Rightarrow>
   ManagedEnvironment option \<Rightarrow> 'r handler" where
  "Create_submit meta storageDomainSuffix model rid env d w =
    (let storageString = storageStringOf meta storageDomainSuffix model;
         model1 = (if LinuxFunctionAppOnContainerModel.BuiltinLogging model
                   then model\<lparr>LinuxFunctionAppOnContainerModel.AppSettings :=
                          (LinuxFunctionAppOnContainerModel.AppSettings model)
                            (''AzureWebJobsDashboard'' \<mapsto> storageString)\<rparr>
                   else model)
     in
     case LinuxFunctionAppOnContainerModel.Registries model1 of
       [] \<Rightarrow> (Panic IndexOutOfRange, d, w)
     | registry # _ \<Rightarrow>
        (case fst (ExpandSiteConfigLinuxFunctionAppOnContainer (updateOrAppendAppSettings meta) d
                     (LinuxFunctionAppOnContainerModel.SiteConfig model1) None registry
                     (LinuxFunctionAppOnContainerModel.FunctionExtensionsVersion model1)
                     storageString) of
           None \<Rightarrow> (Panic NilPointerDereference, d, w)
         | Some siteConfig0 \<Rightarrow>
            (case env of
               None \<Rightarrow> (Panic NilPointerDereference, d, w)
             | Some envModel \<Rightarrow>
                let siteConfig1 = siteConfig0\<lparr>web_SiteConfig.LinuxFxVersion :=
                      EncodeLinuxFunctionAppOnContainerLinuxFxVersion
                        (LinuxFunctionAppOnContainerModel.Registries model1)
                        (LinuxFunctionAppOnContainerModel.ContainerImage model1)\<rparr>;
                    siteConfig2 = siteConfig1\<lparr>web_SiteConfig.AppSettings :=
                      MergeUserAppSettings meta (web_SiteConfig.AppSettings siteConfig1)
                        (LinuxFunctionAppOnContainerModel.AppSettings model1)\<rparr>;
                    siteEnvelope =
                      \<lparr>Site.Tags = tags_FromTypedObject meta
                                     (LinuxFunctionAppOnContainerModel.Tags model1),
                       Site.Location = Some (location_Normalize meta
                                               (ManagedEnvironment.Location envModel)),
                       Site.Kind = Some ''functionapp,linux,container,azurecontainerapps'',
                       Site.SiteProperties = Some
                         \<lparr>SiteProperties.SiteConfig = Some siteConfig2,
                          SiteProperties.ManagedEnvironmentID =
                            Some (LinuxFunctionAppOnContainerModel.ManagedEnvironmentId model1)\<rparr>\<rparr>
                in
                (case perform WebAppsClient_CreateOrUpdate
                        (WebAppsClient.CreateOrUpdate (WebApps meta)
                           (FunctionAppId.ResourceGroup rid) (FunctionAppId.SiteName rid)
                           siteEnvelope) w of
                   ((future, Some err), w1) \<Rightarrow>
                     (Return (Some (Errorf ''creating Linux %s: %+v''
                                      [argFunctionAppId rid, ArgError (Some err)])), d, w1)
                 | ((future, None), w1) \<Rightarrow>
                    (case performWait Future_WaitForCompletionRef
                            (WaitForCompletionRef (WebApps meta) (Body future)) w1 of
                       (Some err, w2) \<Rightarrow>
                         (Return (Some (Errorf ''waiting for creation of Linux %s: %+v''
                                          [argFunctionAppId rid, ArgError (Some err)])), d, w2)
                     | (None, w2) \<Rightarrow>
                         (Return None, SetId d (FunctionAppId_ID meta rid), w2))))))"

text \<open>
  \<open>Create\<close>, lines 202 to 223: the managed environment and the availability of the name.
  The environment is read before the storage string is built, and used after it.
\<close>

definition Create_afterCheck ::
  "('fut, 'r) appservice_meta \<Rightarrow> string \<Rightarrow> LinuxFunctionAppOnContainerModel \<Rightarrow> FunctionAppId \<Rightarrow>
   'r handler" where
  "Create_afterCheck meta storageDomainSuffix model rid d w =
    (case ParseManagedEnvironmentID meta
            (LinuxFunctionAppOnContainerModel.ManagedEnvironmentId model) of
       Inl err \<Rightarrow>
         (Return (Some (Errorf ''parsing Container App Environment ID for %s: %+v''
                          [argFunctionAppId rid, ArgError (Some err)])), d, w)
     | Inr envId \<Rightarrow>
        (case perform ManagedEnvironmentClient_Get (ManagedEnvironments_Get meta envId) w of
           ((env, Some err), w1) \<Rightarrow>
             (Return (Some (Errorf ''reading %s for %s: %+v''
                              [argManagedEnvironmentId envId, argFunctionAppId rid,
                               ArgError (Some err)])), d, w1)
         | ((env, None), w1) \<Rightarrow>
            (case perform WebAppsClient_CheckNameAvailability
                    (CheckNameAvailability (WebApps meta)
                       \<lparr>ResourceNameAvailabilityRequest.Name =
                          Some (LinuxFunctionAppOnContainerModel.Name model),
                        ResourceNameAvailabilityRequest.Type = ''Microsoft.Web/sites''\<rparr>) w1 of
               ((checkName, Some err), w2) \<Rightarrow>
                 (Return (Some (Errorf ''checking name availability for Linux %s: %+v''
                                  [argFunctionAppId rid, ArgError (Some err)])), d, w2)
             | ((checkName, None), w2) \<Rightarrow>
                 if NameAvailable (Body checkName) = Some False then
                   (case Message (Body checkName) of
                      None \<Rightarrow> (Panic NilPointerDereference, d, w2)
                    | Some msg \<Rightarrow>
                        (Return (Some (Errorf
                           ''the Site Name %q failed the availability check: %+v''
                           [ArgString (FunctionAppId.SiteName rid), ArgString msg])), d, w2))
                 else Create_submit meta storageDomainSuffix model rid (Body env) d w2)))"

text \<open>
  \<open>Create\<close>. Before anything is sent the resource is looked up: an error that is not a
  not-found ends the function, and so does a response that is not a not-found, with
  \<open>metadata.ResourceRequiresImport\<close>.
\<close>

definition Create_Func :: "('fut, 'r) appservice_meta \<Rightarrow> 'r handler" where
  "Create_Func meta d w =
    (case Storage_DomainSuffix meta of
       None \<Rightarrow>
         (Return (Some (Errorf ''could not determine Storage domain suffix for environment %q''
                          [ArgString (Environment_Name meta)])), d, w)
     | Some storageDomainSuffix \<Rightarrow>
        (case Decode meta d of
           Inl err \<Rightarrow> (Return (Some err), d, w)
         | Inr model \<Rightarrow>
            let rid = NewFunctionAppID meta (appservice_meta.Account_SubscriptionId meta)
                        (LinuxFunctionAppOnContainerModel.ResourceGroup model)
                        (LinuxFunctionAppOnContainerModel.Name model)
            in
            (case perform WebAppsClient_Get
                    (WebAppsClient.Get (WebApps meta) (FunctionAppId.ResourceGroup rid)
                       (FunctionAppId.SiteName rid)) w of
               ((existing, err), w1) \<Rightarrow>
                 if err \<noteq> None \<and> \<not> ResponseWasNotFound existing then
                   (Return (Some (Errorf ''checking for presence of existing Linux %s: %+v''
                                    [argFunctionAppId rid, ArgError err])), d, w1)
                 else if \<not> ResponseWasNotFound existing then
                   (Return (Some (ResourceRequiresImport ResourceType
                                    [FunctionAppId.SubscriptionId rid,
                                     FunctionAppId.ResourceGroup rid,
                                     FunctionAppId.SiteName rid])), d, w1)
                 else Create_afterCheck meta storageDomainSuffix model rid d w1)))"

text \<open>
  \<open>Read\<close>. The state that it builds is handed to
  \<open>unpackLinuxFunctionAppOnContainerAppSettings\<close> and is not written back to the resource
  data, so the resource data leaves the function as it came in, except through
  \<open>metadata.MarkAsGone\<close>.
\<close>

definition Read_Func :: "('fut, 'r) appservice_meta \<Rightarrow> 'r handler" where
  "Read_Func meta d w =
    (case parse_FunctionAppID meta (Id d) of
       Inl err \<Rightarrow> (Return (Some err), d, w)
     | Inr rid \<Rightarrow>
        (case perform WebAppsClient_Get
                (WebAppsClient.Get (WebApps meta) (FunctionAppId.ResourceGroup rid)
                   (FunctionAppId.SiteName rid)) w of
           ((functionAppOnContainer, Some err), w1) \<Rightarrow>
             if ResponseWasNotFound functionAppOnContainer then
               (case MarkAsGone meta rid d of (e, d') \<Rightarrow> (Return e, d', w1))
             else (Return (Some (Errorf ''reading Linux %s: %+v''
                                   [argFunctionAppId rid, ArgError (Some err)])), d, w1)
         | ((functionAppOnContainer, None), w1) \<Rightarrow>
            (case Site.SiteProperties (Body functionAppOnContainer) of
               None \<Rightarrow>
                 (Return (Some (Errorf ''reading properties of Linux %s: %+v''
                                  [argFunctionAppId rid, ArgError None])), d, w1)
             | Some props \<Rightarrow>
                (case perform WebAppsClient_ListApplicationSettings
                        (ListApplicationSettings (WebApps meta) (FunctionAppId.ResourceGroup rid)
                           (FunctionAppId.SiteName rid)) w1 of
                   ((appSettingsResp, Some err), w2) \<Rightarrow>
                     (Return (Some (Errorf ''reading App Settings for Linux %s: %+v''
                                      [argFunctionAppId rid, ArgError (Some err)])), d, w2)
                 | ((appSettingsResp, None), w2) \<Rightarrow>
                    let state = newReadState (FunctionAppId.SiteName rid)
                                  (FunctionAppId.ResourceGroup rid)
                                  (pointer_From (ManagedEnvironmentID props))
                                  (tags_ToTypedObject meta (Site.Tags (Body functionAppOnContainer)))
                    in
                    (case perform WebAppsClient_GetConfiguration
                            (GetConfiguration (WebApps meta) (FunctionAppId.ResourceGroup rid)
                               (FunctionAppId.SiteName rid)) w2 of
                       ((configResp, Some err), w3) \<Rightarrow>
                         (Return (Some (Errorf
                            ''making Read request on AzureRM Function App Configuration %q: %+v''
                            [ArgString (FunctionAppId.SiteName rid), ArgError (Some err)])), d, w3)
                     | ((configResp, None), w3) \<Rightarrow>
                        (case FlattenSiteConfigLinuxFunctionAppOnContainer (Body configResp) of
                           Inl p \<Rightarrow> (Panic p, d, w3)
                         | Inr siteConfig \<Rightarrow>
                            let state1 = state\<lparr>LinuxFunctionAppOnContainerModel.SiteConfig :=
                                                 [siteConfig]\<rparr>
                            in
                            (case DecodeLinuxFunctionAppOnContainerLinuxFxVersion
                                    (web_SiteConfig.LinuxFxVersion (the (Body configResp))) of
                               Inl p \<Rightarrow> (Panic p, d, w3)
                             | Inr (containerImage, Some err) \<Rightarrow>
                                 (Return (Some (Errorf ''flattening linuxFxVersion: %s''
                                                  [ArgError (Some err)])), d, w3)
                             | Inr (containerImage, None) \<Rightarrow>
                                 (case unpackLinuxFunctionAppOnContainerAppSettings
                                         (NormalizeNilableString meta)
                                         (ParseWebJobsStorageString meta)
                                         (state1\<lparr>LinuxFunctionAppOnContainerModel.ContainerImage :=
                                                   containerImage\<rparr>)
                                         (Body appSettingsResp) of
                                    Inl p \<Rightarrow> (Panic p, d, w3)
                                  | Inr state2 \<Rightarrow> (Return None, d, w3)))))))))"

text \<open>\<open>Delete\<close>: \<open>deleteMetrics\<close> is true and \<open>deleteEmptyServerFarm\<close> is false.\<close>

definition Delete_Func :: "('fut, 'r) appservice_meta \<Rightarrow> 'r handler" where
  "Delete_Func meta d w =
    (case parse_FunctionAppID meta (Id d) of
       Inl err \<Rightarrow> (Return (Some err), d, w)
     | Inr rid \<Rightarrow>
        (case perform WebAppsClient_Delete
                (WebAppsClient.Delete (WebApps meta) (FunctionAppId.ResourceGroup rid)
                   (FunctionAppId.SiteName rid) (Some True) (Some False)) w of
           ((resp, Some err), w1) \<Rightarrow>
             (Return (Some (Errorf ''deleting Linux %s: %+v''
                              [argFunctionAppId rid, ArgError (Some err)])), d, w1)
         | ((resp, None), w1) \<Rightarrow> (Return None, d, w1)))"

text \<open>
  \<open>Update\<close>, lines 380 to 412. \<open>existing.SiteConfig\<close> reads through
  \<open>existing.SiteProperties\<close>. For a \<open>site_config\<close> that is not empty,
  \<open>ExpandSiteConfigLinuxFunctionAppOnContainer\<close> returns the pointer \<open>existing.SiteConfig\<close>
  itself when that is not \<open>nil\<close>, and a new object otherwise, which becomes
  \<open>existing.SiteConfig\<close> only if \<open>site_config\<close> has changed; in the remaining case, and for
  an empty \<open>site_config\<close>, a \<open>nil\<close> pointer is written through on line 393 or 396. The
  function returns \<open>nil\<close> only after \<open>updateFuture.WaitForCompletionRef\<close> and then
  \<open>UpdateConfiguration\<close> have returned \<open>nil\<close>.
\<close>

definition Update_apply ::
  "('fut, 'r) appservice_meta \<Rightarrow> string \<Rightarrow> LinuxFunctionAppOnContainerModel \<Rightarrow> FunctionAppId \<Rightarrow>
   Site \<Rightarrow> 'r handler" where
  "Update_apply meta storageDomainSuffix state rid existing d w =
    (let storageString = storageStringOf meta storageDomainSuffix state in
     case Site.SiteProperties existing of
       None \<Rightarrow> (Panic NilPointerDereference, d, w)
     | Some props \<Rightarrow>
        (case LinuxFunctionAppOnContainerModel.Registries state of
           [] \<Rightarrow> (Panic IndexOutOfRange, d, w)
         | registry # _ \<Rightarrow>
            (case fst (ExpandSiteConfigLinuxFunctionAppOnContainer (updateOrAppendAppSettings meta) d
                         (LinuxFunctionAppOnContainerModel.SiteConfig state)
                         (SiteProperties.SiteConfig props) registry
                         (LinuxFunctionAppOnContainerModel.FunctionExtensionsVersion state)
                         storageString) of
               None \<Rightarrow> (Panic NilPointerDereference, d, w)
             | Some siteConfig \<Rightarrow>
                if SiteProperties.SiteConfig props = None \<and> \<not> HasChange d ''site_config''
                then (Panic NilPointerDereference, d, w)
                else
                  let c1 = (if HasChange d ''registry'' \<or> HasChange d ''container_image''
                            then siteConfig\<lparr>web_SiteConfig.LinuxFxVersion :=
                                   EncodeLinuxFunctionAppOnContainerLinuxFxVersion
                                     (LinuxFunctionAppOnContainerModel.Registries state)
                                     (LinuxFunctionAppOnContainerModel.ContainerImage state)\<rparr>
                            else siteConfig);
                      c2 = c1\<lparr>web_SiteConfig.AppSettings :=
                              MergeUserAppSettings meta (web_SiteConfig.AppSettings c1)
                                (LinuxFunctionAppOnContainerModel.AppSettings state)\<rparr>;
                      existing1 = existing\<lparr>Site.SiteProperties :=
                                    Some (props\<lparr>SiteProperties.SiteConfig := Some c2\<rparr>)\<rparr>;
                      existing2 = (if HasChange d ''tags''
                                   then existing1\<lparr>Site.Tags := tags_FromTypedObject meta
                                          (LinuxFunctionAppOnContainerModel.Tags state)\<rparr>
                                   else existing1)
                  in
                  (case perform WebAppsClient_CreateOrUpdate
                          (WebAppsClient.CreateOrUpdate (WebApps meta)
                             (FunctionAppId.ResourceGroup rid) (FunctionAppId.SiteName rid)
                             existing2) w of
                     ((updateFuture, Some err), w1) \<Rightarrow>
                       (Return (Some (Errorf ''updating Linux %s: %+v''
                                        [argFunctionAppId rid, ArgError (Some err)])), d, w1)
                   | ((updateFuture, None), w1) \<Rightarrow>
                      (case performWait Future_WaitForCompletionRef
                              (WaitForCompletionRef (WebApps meta) (Body updateFuture)) w1 of
                         (Some err, w2) \<Rightarrow>
                           (Return (Some (Errorf ''waiting to update %s: %+v''
                                            [argFunctionAppId rid, ArgError (Some err)])), d, w2)
                       | (None, w2) \<Rightarrow>
                          (case perform WebAppsClient_UpdateConfiguration
                                  (UpdateConfiguration (WebApps meta)
                                     (FunctionAppId.ResourceGroup rid)
                                     (FunctionAppId.SiteName rid) (Some c2)) w2 of
                             ((resp, Some err), w3) \<Rightarrow>
                               (Return (Some (Errorf ''updating Site Config for Linux %s: %s''
                                                [argFunctionAppId rid, ArgError (Some err)])),
                                d, w3)
                           | ((resp, None), w3) \<Rightarrow> (Return None, d, w3)))))))"

text \<open>\<open>Update\<close>, lines 356 to 378.\<close>

definition Update_Func :: "('fut, 'r) appservice_meta \<Rightarrow> 'r handler" where
  "Update_Func meta d w =
    (case Storage_DomainSuffix meta of
       None \<Rightarrow>
         (Return (Some (Errorf ''could not determine Storage domain suffix for environment %q''
                          [ArgString (Environment_Name meta)])), d, w)
     | Some storageDomainSuffix \<Rightarrow>
        (case parse_FunctionAppID meta (Id d) of
           Inl err \<Rightarrow> (Return (Some err), d, w)
         | Inr rid \<Rightarrow>
            let d1 = d\<lparr>Partial := True\<rparr> in
            (case Decode meta d1 of
               Inl err \<Rightarrow> (Return (Some (Errorf ''decoding: %+v'' [ArgError (Some err)])), d1, w)
             | Inr state \<Rightarrow>
                (case perform WebAppsClient_Get
                        (WebAppsClient.Get (WebApps meta) (FunctionAppId.ResourceGroup rid)
                           (FunctionAppId.SiteName rid)) w of
                   ((existing, Some err), w1) \<Rightarrow>
                     (Return (Some (Errorf ''reading Linux %s: %v''
                                      [argFunctionAppId rid, ArgError (Some err)])), d1, w1)
                 | ((existing, None), w1) \<Rightarrow>
                     Update_apply meta storageDomainSuffix state rid (Body existing) d1 w1))))"

text \<open>The four \<open>sdk.ResourceFunc\<close> of \<open>LinuxFunctionAppOnContainerResource\<close>.\<close>

definition LinuxFunctionAppOnContainerResource_Create ::
  "('fut, 'r) appservice_meta \<Rightarrow> 'r ResourceFunc" where
  "LinuxFunctionAppOnContainerResource_Create meta =
    \<lparr>ResourceFunc.Timeout = 30 * Minute, ResourceFunc.Func = Create_Func meta\<rparr>"

definition LinuxFunctionAppOnContainerResource_Read ::
  "('fut, 'r) appservice_meta \<Rightarrow> 'r ResourceFunc" where
  "LinuxFunctionAppOnContainerResource_Read meta =
    \<lparr>ResourceFunc.Timeout = 5 * Minute, ResourceFunc.Func = Read_Func meta\<rparr>"

definition LinuxFunctionAppOnContainerResource_Delete ::
  "('fut, 'r) appservice_meta \<Rightarrow> 'r ResourceFunc" where
  "LinuxFunctionAppOnContainerResource_Delete meta =
    \<lparr>ResourceFunc.Timeout = 30 * Minute, ResourceFunc.Func = Delete_Func meta\<rparr>"

definition LinuxFunctionAppOnContainerResource_Update ::
  "('fut, 'r) appservice_meta \<Rightarrow> 'r ResourceFunc" where
  "LinuxFunctionAppOnContainerResource_Update meta =
    \<lparr>ResourceFunc.Timeout = 30 * Minute, ResourceFunc.Func = Update_Func meta\<rparr>"

text \<open>
  The section \<open>Timeouts\<close> of the documentation of the resource
  (\<open>linux_function_app_container.html.markdown\<close>, lines 193 to 196): the defaults for
  \<open>create\<close>, \<open>read\<close>, \<open>update\<close> and \<open>delete\<close>, in minutes.
\<close>

definition documentedTimeoutMinutes :: "string \<Rightarrow> int option" where
  "documentedTimeoutMinutes =
    [''create'' \<mapsto> 30, ''read'' \<mapsto> 5, ''update'' \<mapsto> 30, ''delete'' \<mapsto> 30]"

section \<open>The cache of storage accounts (package \<open>storage/client\<close>)\<close>

subsection \<open>Types\<close>

text \<open>
  \<open>storage.Account\<close> of the SDK, with the fields that the cache reads, and
  \<open>accountDetails\<close>. \<open>Sku\<close> and the account properties are only carried along.
\<close>

record ('sku, 'props) storage_Account =
  ID :: "string option"
  Name :: "string option"
  Kind :: string
  Sku :: "'sku option"
  AccountProperties :: "'props option"

record ('sku, 'props) accountDetails =
  ID :: string
  Kind :: string
  Sku :: "'sku option"
  ResourceGroup :: string
  Properties :: "'props option"
  accountKey :: "string option"
  name :: string

record storage_AccountKey =
  Value :: "string option"

record AccountListKeysResult =
  Keys :: "storage_AccountKey list option"

text \<open>
  The result page of \<open>AccountsClient.List\<close>: \<open>NotDone\<close> holds while the current page has
  values, \<open>NextWithContext\<close> moves to the next page or fails. A listing is a finite chain
  of pages: \<open>Exhausted\<close> is the empty page after the last one, \<open>Broken\<close> a page whose
  successor cannot be fetched.
\<close>

datatype 'a pager =
    Exhausted
  | Page "'a list" "'a pager"
  | Broken "'a list" error

text \<open>
  The client: the two SDK methods that the cache calls, and
  \<open>commonids.ParseStorageAccountID\<close>, of which the cache reads the resource group.
\<close>

record ('sku, 'props) storage_Client =
  AccountsClient_List :: "error + ('sku, 'props) storage_Account pager"
  AccountsClient_ListKeys :: "string \<Rightarrow> string \<Rightarrow> error + AccountListKeysResult"
  ParseStorageAccountID :: "string \<Rightarrow> error + string"

type_synonym ('sku, 'props) storageAccountsCache = "string \<rightharpoonup> ('sku, 'props) accountDetails"

subsection \<open>What an operation does, in order\<close>

text \<open>
  The two package-level locks, and the steps of an operation that matter for the cache:
  taking and releasing a lock, reading, writing and deleting a key of the map
  \<open>storageAccountsCache\<close>, and a call to the SDK.
\<close>

datatype mutex = accountsLock | credentialsLock

datatype storage_call = List_call | NextWithContext_call | ListKeys_call

datatype action =
    Lock mutex
  | Unlock mutex
  | CacheRead string
  | CacheWrite string
  | CacheDelete string
  | Remote storage_call

subsection \<open>The operations\<close>

text \<open>\<open>populateAccountDetails\<close>.\<close>

definition populateAccountDetails ::
  "('sku, 'props) storage_Client \<Rightarrow> string \<Rightarrow> ('sku, 'props) storage_Account \<Rightarrow>
   error + ('sku, 'props) accountDetails" where
  "populateAccountDetails c accountName props =
    (case storage_Account.ID props of
       None \<Rightarrow> Inl (Errorf ''`id` was nil for Account %q'' [ArgString accountName])
     | Some accountId \<Rightarrow>
        (case ParseStorageAccountID c accountId of
           Inl err \<Rightarrow>
             Inl (Errorf ''parsing %q as a Resource ID: %+v''
                    [ArgString accountId, ArgError (Some err)])
         | Inr resourceGroupName \<Rightarrow>
             Inr \<lparr>accountDetails.ID = accountId,
                  accountDetails.Kind = storage_Account.Kind props,
                  accountDetails.Sku = storage_Account.Sku props,
                  accountDetails.ResourceGroup = resourceGroupName,
                  accountDetails.Properties = AccountProperties props,
                  accountDetails.accountKey = None,
                  accountDetails.name = accountName\<rparr>))"

text \<open>
  \<open>AccountKey\<close>, with the receiver passed in and returned. It takes \<open>credentialsLock\<close>
  and, after a lookup, writes the receiver into \<open>storageAccountsCache\<close>.
\<close>

definition AccountKey ::
  "('sku, 'props) storage_Client \<Rightarrow> ('sku, 'props) storageAccountsCache \<Rightarrow>
   ('sku, 'props) accountDetails \<Rightarrow>
   (error + string) \<times> ('sku, 'props) accountDetails \<times> ('sku, 'props) storageAccountsCache \<times>
   action list" where
  "AccountKey c cache ad =
    (case accountKey ad of
       Some k \<Rightarrow> (Inr k, ad, cache, [Lock credentialsLock, Unlock credentialsLock])
     | None \<Rightarrow>
        (case AccountsClient_ListKeys c (accountDetails.ResourceGroup ad) (name ad) of
           Inl err \<Rightarrow>
             (Inl (Errorf ''listing Keys for Storage Account %q (Resource Group %q): %+v''
                     [ArgString (name ad), ArgString (accountDetails.ResourceGroup ad),
                      ArgError (Some err)]),
              ad, cache, [Lock credentialsLock, Remote ListKeys_call, Unlock credentialsLock])
         | Inr props \<Rightarrow>
            (case (case Keys props of
                     None \<Rightarrow> None
                   | Some [] \<Rightarrow> None
                   | Some (k # _) \<Rightarrow> Value k) of
               None \<Rightarrow>
                 (Inl (Errorf ''keys were nil for Storage Account %q (Resource Group %q): %+v''
                         [ArgString (name ad), ArgString (accountDetails.ResourceGroup ad),
                          ArgError None]),
                  ad, cache, [Lock credentialsLock, Remote ListKeys_call, Unlock credentialsLock])
             | Some v \<Rightarrow>
                 let ad' = ad\<lparr>accountKey := Some v\<rparr>
                 in (Inr v, ad', cache(name ad \<mapsto> ad'),
                     [Lock credentialsLock, Remote ListKeys_call, CacheWrite (name ad),
                      Unlock credentialsLock]))))"

text \<open>\<open>AddToCache\<close>.\<close>

definition AddToCache ::
  "('sku, 'props) storage_Client \<Rightarrow> ('sku, 'props) storageAccountsCache \<Rightarrow> string \<Rightarrow>
   ('sku, 'props) storage_Account \<Rightarrow>
   error option \<times> ('sku, 'props) storageAccountsCache \<times> action list" where
  "AddToCache c cache accountName props =
    (case populateAccountDetails c accountName props of
       Inl err \<Rightarrow> (Some err, cache, [Lock accountsLock, Unlock accountsLock])
     | Inr account \<Rightarrow>
         (None, cache(accountName \<mapsto> account),
          [Lock accountsLock, CacheWrite accountName, Unlock accountsLock]))"

text \<open>\<open>RemoveAccountFromCache\<close>.\<close>

definition RemoveAccountFromCache ::
  "('sku, 'props) storageAccountsCache \<Rightarrow> string \<Rightarrow>
   ('sku, 'props) storageAccountsCache \<times> action list" where
  "RemoveAccountFromCache cache accountName =
    (cache(accountName := None),
     [Lock accountsLock, CacheDelete accountName, Unlock accountsLock])"

text \<open>
  \<open>FindAccount\<close>, lines 147 to 154: the loop over the pages. It gives the accounts of all
  pages, or the error of \<open>NextWithContext\<close>, and the steps made.
\<close>

fun collectPages ::
  "'a pager \<Rightarrow> 'a list \<Rightarrow> (error + 'a list) \<times> action list" where
  "collectPages Exhausted accounts = (Inr accounts, [])"
| "collectPages (Page vs rest) accounts =
     (if vs = [] then (Inr accounts, [])
      else (case collectPages rest (accounts @ vs) of
              (r, steps) \<Rightarrow> (r, Remote NextWithContext_call # steps)))"
| "collectPages (Broken vs err) accounts =
     (if vs = [] then (Inr accounts, [])
      else (Inl (Errorf ''retrieving next page of storage accounts: %+v'' [ArgError (Some err)]),
            [Remote NextWithContext_call]))"

text \<open>
  Lines 156 to 167: the loop that fills the cache. An account whose details cannot be
  built ends the loop with an error; the accounts before it stay in the cache.
\<close>

fun cacheAccounts ::
  "('sku, 'props) storage_Client \<Rightarrow> ('sku, 'props) storage_Account list \<Rightarrow>
   ('sku, 'props) storageAccountsCache \<Rightarrow>
   error option \<times> ('sku, 'props) storageAccountsCache \<times> action list" where
  "cacheAccounts c [] cache = (None, cache, [])"
| "cacheAccounts c (v # vs) cache =
     (case storage_Account.Name v of
        None \<Rightarrow> cacheAccounts c vs cache
      | Some n \<Rightarrow>
         (case populateAccountDetails c n v of
            Inl err \<Rightarrow> (Some err, cache, [])
          | Inr account \<Rightarrow>
             (case cacheAccounts c vs (cache(n \<mapsto> account)) of
                (r, cache', steps) \<Rightarrow> (r, cache', CacheWrite n # steps))))"

text \<open>
  \<open>FindAccount\<close>. The result is an error, or the account (\<open>None\<close> for the \<open>nil\<close> that is
  returned with a \<open>nil\<close> error when no account of that name is listed).
\<close>

definition FindAccount ::
  "('sku, 'props) storage_Client \<Rightarrow> ('sku, 'props) storageAccountsCache \<Rightarrow> string \<Rightarrow>
   (error + ('sku, 'props) accountDetails option) \<times> ('sku, 'props) storageAccountsCache \<times>
   action list" where
  "FindAccount c cache accountName =
    (case cache accountName of
       Some existing \<Rightarrow>
         (Inr (Some existing), cache,
          [Lock accountsLock, CacheRead accountName, Unlock accountsLock])
     | None \<Rightarrow>
        (case AccountsClient_List c of
           Inl err \<Rightarrow>
             (Inl (Errorf ''retrieving storage accounts: %+v'' [ArgError (Some err)]), cache,
              [Lock accountsLock, CacheRead accountName, Remote List_call, Unlock accountsLock])
         | Inr accountsPage \<Rightarrow>
            (case collectPages accountsPage [] of
               (Inl err, steps) \<Rightarrow>
                 (Inl err, cache,
                  [Lock accountsLock, CacheRead accountName, Remote List_call] @ steps @
                  [Unlock accountsLock])
             | (Inr accounts, steps) \<Rightarrow>
                (case cacheAccounts c accounts cache of
                   (Some err, cache', writes) \<Rightarrow>
                     (Inl err, cache',
                      [Lock accountsLock, CacheRead accountName, Remote List_call] @ steps @
                      writes @ [Unlock accountsLock])
                 | (None, cache', writes) \<Rightarrow>
                     (Inr (cache' accountName), cache',
                      [Lock accountsLock, CacheRead accountName, Remote List_call] @ steps @
                      writes @ [CacheRead accountName, Unlock accountsLock])))))"

subsection \<open>Lock discipline and interleaving\<close>

definition touchesCache :: "action \<Rightarrow> bool" where
  "touchesCache a =
    (case a of CacheRead _ \<Rightarrow> True | CacheWrite _ \<Rightarrow> True | CacheDelete _ \<Rightarrow> True | _ \<Rightarrow> False)"

definition changesCache :: "action \<Rightarrow> bool" where
  "changesCache a = (case a of CacheWrite _ \<Rightarrow> True | CacheDelete _ \<Rightarrow> True | _ \<Rightarrow> False)"

text \<open>
  \<open>guarded m held steps\<close>: along the steps, started with the locks \<open>held\<close>, the map is
  touched only while the lock \<open>m\<close> is held.
\<close>

fun guarded :: "mutex \<Rightarrow> mutex list \<Rightarrow> action list \<Rightarrow> bool" where
  "guarded m held [] = True"
| "guarded m held (Lock l # steps) = guarded m (l # held) steps"
| "guarded m held (Unlock l # steps) = guarded m (remove1 l held) steps"
| "guarded m held (Remote c # steps) = guarded m held steps"
| "guarded m held (a # steps) = (m \<in> set held \<and> guarded m held steps)"

text \<open>
  Two goroutines, each with the locks it holds and the steps it still has to make. A
  goroutine can make its next step unless that step takes a lock that the other one
  holds. A schedule says which goroutine moves (\<open>True\<close> for the first); \<open>run\<close> gives the
  configuration after the schedule, or \<open>None\<close> if the schedule asks a blocked or finished
  goroutine to move.
\<close>

type_synonym config = "mutex list \<times> mutex list \<times> action list \<times> action list"

fun enabled :: "mutex list \<Rightarrow> action list \<Rightarrow> bool" where
  "enabled other [] = False"
| "enabled other (Lock l # steps) = (l \<notin> set other)"
| "enabled other (a # steps) = True"

fun stepThread :: "mutex list \<Rightarrow> action list \<Rightarrow> mutex list \<times> action list" where
  "stepThread held [] = (held, [])"
| "stepThread held (Lock l # steps) = (l # held, steps)"
| "stepThread held (Unlock l # steps) = (remove1 l held, steps)"
| "stepThread held (a # steps) = (held, steps)"

fun run :: "bool list \<Rightarrow> config \<Rightarrow> config option" where
  "run [] cfg = Some cfg"
| "run (first # sched) (h1, h2, s1, s2) =
     (if first then
        (if enabled h2 s1
         then (case stepThread h1 s1 of (h1', s1') \<Rightarrow> run sched (h1', h2, s1', s2))
         else None)
      else
        (if enabled h1 s2
         then (case stepThread h2 s2 of (h2', s2') \<Rightarrow> run sched (h1, h2', s1, s2'))
         else None))"

text \<open>
  A data race on the map: the next step of each goroutine touches the map, and one of the
  two changes it.
\<close>

fun race :: "config \<Rightarrow> bool" where
  "race (h1, h2, a # s1, b # s2) =
     (touchesCache a \<and> touchesCache b \<and> (changesCache a \<or> changesCache b))"
| "race _ = False"

section \<open>Observing a handler run\<close>

text \<open>The events that a run from the world \<open>w\<close> to the world \<open>w'\<close> has added.\<close>

definition since :: "'r world \<Rightarrow> 'r world \<Rightarrow> event list" where
  "since w w' = drop (length (trace w)) (trace w')"

text \<open>
  The world after a run from the world \<open>w\<close> that made the calls \<open>evs\<close> and left the remote
  side in the state \<open>r\<close>.
\<close>

abbreviation logged :: "'r world \<Rightarrow> event list \<Rightarrow> 'r \<Rightarrow> 'r world" where
  "logged w evs r \<equiv> \<lparr>remote = r, trace = trace w @ evs\<rparr>"

text \<open>The calls that look the resource itself up.\<close>

definition isGet :: "sdk_call \<Rightarrow> bool" where
  "isGet c \<longleftrightarrow>
     c \<in> {SubscriptionsClient_Get, NamespacesClient_GetAuthorizationRule,
          TopicsClient_GetAuthorizationRule, KubernetesClustersClient_Get, WebAppsClient_Get}"

text \<open>
  \<open>errorsPassThrough res evs\<close>, for the result \<open>res\<close> of a handler and the events \<open>evs\<close> of
  its run: a call that returned an error is the last call of the run, and the handler
  returned an error made by \<open>fmt.Errorf\<close> from that error; but for a resource lookup that
  returned an error with a not-found response, which the handlers treat on their own.
\<close>

fun errorsPassThrough :: "ret \<Rightarrow> event list \<Rightarrow> bool" where
  "errorsPassThrough res [] = True"
| "errorsPassThrough res (Event c None nf # evs) = errorsPassThrough res evs"
| "errorsPassThrough res (Event c (Some e) nf # evs) =
     (if isGet c \<and> nf then errorsPassThrough res evs
      else evs = [] \<and> (case res of Return (Some e') \<Rightarrow> wraps e' e | _ \<Rightarrow> False))"

text \<open>The same, of a handler run on the resource data \<open>d\<close> in the world \<open>w\<close>.\<close>

definition errorsPassThroughIn :: "'r handler \<Rightarrow> ResourceData \<Rightarrow> 'r world \<Rightarrow> bool" where
  "errorsPassThroughIn h d w =
    (case h d w of (res, d', w') \<Rightarrow> errorsPassThrough res (since w w'))"

text \<open>
  \<open>everyErrorReturned res evs\<close>, without the exception for lookups: for every call that
  returned an error, the handler returned an error made by \<open>fmt.Errorf\<close> from it.
\<close>

fun everyErrorReturned :: "ret \<Rightarrow> event list \<Rightarrow> bool" where
  "everyErrorReturned res [] = True"
| "everyErrorReturned res (Event c None nf # evs) = everyErrorReturned res evs"
| "everyErrorReturned res (Event c (Some e) nf # evs) =
     ((case res of Return (Some e') \<Rightarrow> wraps e' e | _ \<Rightarrow> False) \<and> everyErrorReturned res evs)"

section \<open>A small remote side, for the instances of the statements\<close>

text \<open>
  The statements below hold for every SDK, parser and helper. To show them at work they
  are instantiated on this remote side: its state is whether the one resource exists; a
  lookup answers with the resource, or with an error and a not-found response; creating
  and deleting change the state; and every call listed in \<open>faults\<close> fails with an error
  that is not a not-found. These definitions are not part of the provider.
\<close>

definition demoLookup ::
  "sdk_call list \<Rightarrow> sdk_call \<Rightarrow> 'a \<Rightarrow> ('a, bool) sdk_op" where
  "demoLookup faults c body exists =
    (if c \<in> set faults
     then ((\<lparr>ResponseWasNotFound = False, Body = body\<rparr>, Some (SdkError ''500'')), exists)
     else if exists then ((\<lparr>ResponseWasNotFound = False, Body = body\<rparr>, None), exists)
     else ((\<lparr>ResponseWasNotFound = True, Body = body\<rparr>, Some (SdkError ''404'')), exists))"

definition demoCall ::
  "sdk_call list \<Rightarrow> sdk_call \<Rightarrow> 'a \<Rightarrow> bool option \<Rightarrow> ('a, bool) sdk_op" where
  "demoCall faults c body becomes exists =
    (if c \<in> set faults
     then ((\<lparr>ResponseWasNotFound = False, Body = body\<rparr>, Some (SdkError ''500'')), exists)
     else ((\<lparr>ResponseWasNotFound = False, Body = body\<rparr>, None),
           (case becomes of None \<Rightarrow> exists | Some b \<Rightarrow> b)))"

definition demoWait :: "sdk_call list \<Rightarrow> sdk_call \<Rightarrow> bool \<Rightarrow> error option \<times> bool" where
  "demoWait faults c exists =
    (if c \<in> set faults then (Some (SdkError ''timeout''), exists) else (None, exists))"

text \<open>IDs written as their components with slashes between them.\<close>

definition demoParse :: parse_pkg where
  "demoParse =
    \<lparr>parse_NamespaceID = (\<lambda>s. case Split s CHR ''/'' of
         [a, b, c] \<Rightarrow> Inr \<lparr>NamespaceId.SubscriptionId = a, NamespaceId.ResourceGroup = b,
                           NamespaceId.Name = c\<rparr>
       | _ \<Rightarrow> Inl (SdkError ''not a namespace ID'')),
     parse_TopicID = (\<lambda>s. case Split s CHR ''/'' of
         [a, b, c, e] \<Rightarrow> Inr \<lparr>TopicId.SubscriptionId = a, TopicId.ResourceGroup = b,
                              TopicId.NamespaceName = c, TopicId.Name = e\<rparr>
       | _ \<Rightarrow> Inl (SdkError ''not a topic ID'')),
     parse_SubscriptionID = (\<lambda>s. case Split s CHR ''/'' of
         [a, b, c, e, f] \<Rightarrow>
           Inr \<lparr>SubscriptionId.SubscriptionId = a, SubscriptionId.ResourceGroup = b,
                SubscriptionId.NamespaceName = c, SubscriptionId.TopicName = e,
                SubscriptionId.Name = f\<rparr>
       | _ \<Rightarrow> Inl (SdkError ''not a subscription ID'')),
     parse_NamespaceAuthorizationRuleID = (\<lambda>s. case Split s CHR ''/'' of
         [a, b, c, e] \<Rightarrow>
           Inr \<lparr>NamespaceAuthorizationRuleId.SubscriptionId = a,
                NamespaceAuthorizationRuleId.ResourceGroup = b,
                NamespaceAuthorizationRuleId.NamespaceName = c,
                NamespaceAuthorizationRuleId.AuthorizationRuleName = e\<rparr>
       | _ \<Rightarrow> Inl (SdkError ''not a namespace rule ID'')),
     parse_TopicAuthorizationRuleID = (\<lambda>s. case Split s CHR ''/'' of
         [a, b, c, e, f] \<Rightarrow>
           Inr \<lparr>TopicAuthorizationRuleId.SubscriptionId = a,
                TopicAuthorizationRuleId.ResourceGroup = b,
                TopicAuthorizationRuleId.NamespaceName = c,
                TopicAuthorizationRuleId.TopicName = e,
                TopicAuthorizationRuleId.AuthorizationRuleName = f\<rparr>
       | _ \<Rightarrow> Inl (SdkError ''not a topic rule ID'')),
     NewNamespaceID = (\<lambda>a b c.
       \<lparr>NamespaceId.SubscriptionId = a, NamespaceId.ResourceGroup = b, NamespaceId.Name = c\<rparr>),
     NewTopicID = (\<lambda>a b c e.
       \<lparr>TopicId.SubscriptionId = a, TopicId.ResourceGroup = b, TopicId.NamespaceName = c,
        TopicId.Name = e\<rparr>),
     NewSubscriptionID = (\<lambda>a b c e f.
       \<lparr>SubscriptionId.SubscriptionId = a, SubscriptionId.ResourceGroup = b,
        SubscriptionId.NamespaceName = c, SubscriptionId.TopicName = e,
        SubscriptionId.Name = f\<rparr>),
     NewNamespaceAuthorizationRuleID = (\<lambda>a b c e.
       \<lparr>NamespaceAuthorizationRuleId.SubscriptionId = a,
        NamespaceAuthorizationRuleId.ResourceGroup = b,
        NamespaceAuthorizationRuleId.NamespaceName = c,
        NamespaceAuthorizationRuleId.AuthorizationRuleName = e\<rparr>),
     NewTopicAuthorizationRuleID = (\<lambda>a b c e f.
       \<lparr>TopicAuthorizationRuleId.SubscriptionId = a, TopicAuthorizationRuleId.ResourceGroup = b,
        TopicAuthorizationRuleId.NamespaceName = c, TopicAuthorizationRuleId.TopicName = e,
        TopicAuthorizationRuleId.AuthorizationRuleName = f\<rparr>),
     NamespaceId_ID = (\<lambda>i. NamespaceId.SubscriptionId i @ ''/'' @ NamespaceId.ResourceGroup i @
       ''/'' @ NamespaceId.Name i),
     TopicId_ID = (\<lambda>i. TopicId.SubscriptionId i @ ''/'' @ TopicId.ResourceGroup i @ ''/'' @
       TopicId.NamespaceName i @ ''/'' @ TopicId.Name i),
     SubscriptionId_ID = (\<lambda>i. SubscriptionId.SubscriptionId i @ ''/'' @
       SubscriptionId.ResourceGroup i @ ''/'' @ SubscriptionId.NamespaceName i @ ''/'' @
       SubscriptionId.TopicName i @ ''/'' @ SubscriptionId.Name i),
     NamespaceAuthorizationRuleId_ID = (\<lambda>i. NamespaceAuthorizationRuleId.SubscriptionId i @
       ''/'' @ NamespaceAuthorizationRuleId.ResourceGroup i @ ''/'' @
       NamespaceAuthorizationRuleId.NamespaceName i @ ''/'' @
       NamespaceAuthorizationRuleId.AuthorizationRuleName i),
     TopicAuthorizationRuleId_ID = (\<lambda>i. TopicAuthorizationRuleId.SubscriptionId i @ ''/'' @
       TopicAuthorizationRuleId.ResourceGroup i @ ''/'' @
       TopicAuthorizationRuleId.NamespaceName i @ ''/'' @
       TopicAuthorizationRuleId.TopicName i @ ''/'' @
       TopicAuthorizationRuleId.AuthorizationRuleName i)\<rparr>"

definition demoSubscription :: SBSubscription where
  "demoSubscription = \<lparr>SBSubscriptionProperties = None\<rparr>"

definition demoRule :: SBAuthorizationRule where
  "demoRule = \<lparr>SBAuthorizationRule.Name = None,
               SBAuthorizationRule.SBAuthorizationRuleProperties = None\<rparr>"

definition demoKeys :: AccessKeys where
  "demoKeys = \<lparr>PrimaryKey = Some ''k1'', PrimaryConnectionString = None,
               SecondaryKey = Some ''k2'', SecondaryConnectionString = None,
               AliasPrimaryConnectionString = None, AliasSecondaryConnectionString = None\<rparr>"

definition demoServiceBus :: "sdk_call list \<Rightarrow> bool servicebus_meta" where
  "demoServiceBus faults =
    \<lparr>servicebus_meta.Account_SubscriptionId = ''s'',
     ThreePointOhBeta = True,
     Parse = demoParse,
     Subscriptions =
       \<lparr>SubscriptionsClient.Get =
          (\<lambda>rg ns t n. demoLookup faults SubscriptionsClient_Get demoSubscription),
        SubscriptionsClient.CreateOrUpdate =
          (\<lambda>rg ns t n p. demoCall faults SubscriptionsClient_CreateOrUpdate p (Some True)),
        SubscriptionsClient.Delete =
          (\<lambda>rg ns t n. demoCall faults SubscriptionsClient_Delete () (Some False))\<rparr>,
     Namespaces =
       \<lparr>NamespacesClient.GetAuthorizationRule =
          (\<lambda>rg ns n. demoLookup faults NamespacesClient_GetAuthorizationRule demoRule),
        NamespacesClient.CreateOrUpdateAuthorizationRule =
          (\<lambda>rg ns n p.
             demoCall faults NamespacesClient_CreateOrUpdateAuthorizationRule p (Some True)),
        NamespacesClient.ListKeys =
          (\<lambda>rg ns n. demoCall faults NamespacesClient_ListKeys demoKeys None),
        NamespacesClient.DeleteAuthorizationRule =
          (\<lambda>rg ns n. demoCall faults NamespacesClient_DeleteAuthorizationRule () (Some False))\<rparr>,
     Topics =
       \<lparr>TopicsClient.GetAuthorizationRule =
          (\<lambda>rg ns t n. demoLookup faults TopicsClient_GetAuthorizationRule demoRule),
        TopicsClient.CreateOrUpdateAuthorizationRule =
          (\<lambda>rg ns t n p.
             demoCall faults TopicsClient_CreateOrUpdateAuthorizationRule p (Some True)),
        TopicsClient.ListKeys =
          (\<lambda>rg ns t n. demoCall faults TopicsClient_ListKeys demoKeys None),
        TopicsClient.DeleteAuthorizationRule =
          (\<lambda>rg ns t n. demoCall faults TopicsClient_DeleteAuthorizationRule () (Some False))\<rparr>,
     waitForPairedNamespaceReplication =
       (\<lambda>rg ns timeout. demoWait faults WaitForPairedNamespaceReplication),
     expandAuthorizationRuleRights = (\<lambda>d. Some [''Listen'']),
     flattenAuthorizationRuleRights = (\<lambda>rights. (True, False, False))\<rparr>"

text \<open>Resource data with the given ID and attributes; \<open>IsNewResource\<close> as given.\<close>

definition demoData :: "string \<Rightarrow> bool \<Rightarrow> (string \<times> tfvalue) list \<Rightarrow> ResourceData" where
  "demoData rid isNew kvs =
    \<lparr>Id = rid, IsNewResource = isNew, attrs = map_of kvs,
     ResourceData.Timeout = (\<lambda>key. 30 * Minute), HasChange = (\<lambda>key. True), Partial = False\<rparr>"

definition demoWorld :: "bool \<Rightarrow> bool world" where
  "demoWorld exists = \<lparr>remote = exists, trace = []\<rparr>"

text \<open>The data source of the cluster on that remote side; the flattening does nothing.\<close>

definition demoContainers ::
  "sdk_call list \<Rightarrow> ((unit, unit) ManagedClusterProperties_scheme, unit, unit, bool) containers_meta"
  where
  "demoContainers faults =
    \<lparr>containers_meta.Account_SubscriptionId = ''s'',
     NewClusterID = (\<lambda>a b c.
       \<lparr>ClusterId.SubscriptionId = a, ClusterId.ResourceGroup = b,
        ClusterId.ManagedClusterName = c\<rparr>),
     ClusterId_ID = (\<lambda>i. ClusterId.SubscriptionId i @ ''/'' @ ClusterId.ResourceGroup i @
       ''/'' @ ClusterId.ManagedClusterName i),
     NormalizeLocation = (\<lambda>l. l),
     KubernetesClusters_Get = (\<lambda>rg n. demoLookup faults KubernetesClustersClient_Get
       \<lparr>ManagedCluster.Name = Some n, ManagedCluster.Location = None,
        ManagedCluster.ManagedClusterProperties = None, ManagedCluster.Identity = None,
        ManagedCluster.Tags = Map.empty\<rparr>),
     KubernetesClusters_GetAccessProfile = (\<lambda>rg n role.
       demoCall faults (KubernetesClustersClient_GetAccessProfile role) () None),
     setProperties = (\<lambda>d p. (None, d)),
     setKubeAdminConfig = (\<lambda>d p. (None, d)),
     setIdentity = (\<lambda>d i. (None, d)),
     setKubeConfig = (\<lambda>d p. (None, d)),
     tags_FlattenAndSet = (\<lambda>d t. (None, d))\<rparr>"

text \<open>The Function App on that remote side.\<close>

definition demoModel :: LinuxFunctionAppOnContainerModel where
  "demoModel =
    (newReadState ''app'' ''g'' ''s/g/env'' Map.empty)
      \<lparr>LinuxFunctionAppOnContainerModel.StorageAccountName := ''sa'',
       LinuxFunctionAppOnContainerModel.StorageAccountKey := ''key'',
       LinuxFunctionAppOnContainerModel.Registries :=
         [\<lparr>Server = ''docker.io'', UserName = [], Password = [], Identity = []\<rparr>],
       LinuxFunctionAppOnContainerModel.ContainerImage := ''img:latest'',
       LinuxFunctionAppOnContainerModel.SiteConfig :=
         [\<lparr>AppInsightsConnectionString = [], Use32BitWorker = False,
           SiteConfigLinuxFunctionAppOnContainer.FtpsState = ''Disabled''\<rparr>]\<rparr>"

definition demoSite :: Site where
  "demoSite =
    \<lparr>Site.Tags = Map.empty, Site.Location = Some ''westeurope'', Site.Kind = None,
     Site.SiteProperties = Some
       \<lparr>SiteProperties.SiteConfig = Some zeroSiteConfig,
        SiteProperties.ManagedEnvironmentID = Some ''s/g/env''\<rparr>\<rparr>"

definition demoAppService :: "sdk_call list \<Rightarrow> (unit, bool) appservice_meta" where
  "demoAppService faults =
    \<lparr>appservice_meta.Account_SubscriptionId = ''s'',
     Environment_Name = ''public'',
     Storage_DomainSuffix = Some ''core.windows.net'',
     Decode = (\<lambda>d. Inr demoModel),
     MarkAsGone = (\<lambda>i d. (None, SetId d [])),
     parse_FunctionAppID = (\<lambda>s. case Split s CHR ''/'' of
         [a, b, c] \<Rightarrow> Inr \<lparr>FunctionAppId.SubscriptionId = a, FunctionAppId.ResourceGroup = b,
                           FunctionAppId.SiteName = c\<rparr>
       | _ \<Rightarrow> Inl (SdkError ''not a function app ID'')),
     NewFunctionAppID = (\<lambda>a b c.
       \<lparr>FunctionAppId.SubscriptionId = a, FunctionAppId.ResourceGroup = b,
        FunctionAppId.SiteName = c\<rparr>),
     FunctionAppId_ID = (\<lambda>i. FunctionAppId.SubscriptionId i @ ''/'' @
       FunctionAppId.ResourceGroup i @ ''/'' @ FunctionAppId.SiteName i),
     ParseManagedEnvironmentID = (\<lambda>s. case Split s CHR ''/'' of
         [a, b, c] \<Rightarrow> Inr \<lparr>ManagedEnvironmentId.SubscriptionId = a,
                           ManagedEnvironmentId.ResourceGroupName = b,
                           ManagedEnvironmentId.ManagedEnvironmentName = c\<rparr>
       | _ \<Rightarrow> Inl (SdkError ''not an environment ID'')),
     WebApps =
       \<lparr>WebAppsClient.Get = (\<lambda>rg n. demoLookup faults WebAppsClient_Get demoSite),
        CheckNameAvailability = (\<lambda>req. demoCall faults WebAppsClient_CheckNameAvailability
          \<lparr>NameAvailable = Some True, Message = None\<rparr> None),
        WebAppsClient.CreateOrUpdate =
          (\<lambda>rg n site. demoCall faults WebAppsClient_CreateOrUpdate () (Some True)),
        WaitForCompletionRef = (\<lambda>fut. demoWait faults Future_WaitForCompletionRef),
        UpdateConfiguration =
          (\<lambda>rg n c. demoCall faults WebAppsClient_UpdateConfiguration () None),
        WebAppsClient.Delete =
          (\<lambda>rg n m f. demoCall faults WebAppsClient_Delete () (Some False)),
        ListApplicationSettings = (\<lambda>rg n. demoCall faults WebAppsClient_ListApplicationSettings
          \<lparr>StringDictionary.Properties = None\<rparr> None),
        GetConfiguration = (\<lambda>rg n. demoCall faults WebAppsClient_GetConfiguration
          (Some zeroSiteConfig) None)\<rparr>,
     ManagedEnvironments_Get = (\<lambda>i. demoCall faults ManagedEnvironmentClient_Get
       (Some \<lparr>ManagedEnvironment.Location = ''West Europe''\<rparr>) None),
     Sprintf_StorageStringFmtKV = (\<lambda>s. ''@Microsoft.KeyVault(SecretUri='' @ s @ '')''),
     Sprintf_StorageStringFmt = (\<lambda>n k s. ''AccountName='' @ n @ '';AccountKey='' @ k),
     updateOrAppendAppSettings = (\<lambda>as k v rm.
       as @ [\<lparr>NameValuePair.Name = Some k, NameValuePair.Value = Some v\<rparr>]),
     MergeUserAppSettings = (\<lambda>as user. as),
     tags_FromTypedObject = (\<lambda>t k. map_option Some (t k)),
     tags_ToTypedObject = (\<lambda>t k. case t k of Some (Some v) \<Rightarrow> Some v | _ \<Rightarrow> None),
     location_Normalize = (\<lambda>l. l),
     NormalizeNilableString = pointer_From,
     ParseWebJobsStorageString = (\<lambda>v. ([], []))\<rparr>"

text \<open>
  A storage client with one account, \<open>acct\<close>, on one page, and one key, \<open>k1\<close>; and the
  details of that account as \<open>FindAccount\<close> gives them, with no key yet.
\<close>

definition demoStorage :: "(unit, unit) storage_Client" where
  "demoStorage =
    \<lparr>AccountsClient_List = Inr (Page
        [\<lparr>storage_Account.ID = Some ''s/g/acct'', storage_Account.Name = Some ''acct'',
          storage_Account.Kind = ''StorageV2'', storage_Account.Sku = None,
          storage_Account.AccountProperties = None\<rparr>] Exhausted),
     AccountsClient_ListKeys = (\<lambda>rg n. Inr \<lparr>Keys = Some [\<lparr>Value = Some ''k1''\<rparr>]\<rparr>),
     ParseStorageAccountID = (\<lambda>s. case Split s CHR ''/'' of
         [a, b, c] \<Rightarrow> Inr b
       | _ \<Rightarrow> Inl (SdkError ''not a storage account ID''))\<rparr>"

definition demoAccount :: "(unit, unit) accountDetails" where
  "demoAccount =
    \<lparr>accountDetails.ID = ''s/g/acct'', accountDetails.Kind = ''StorageV2'',
     accountDetails.Sku = None, accountDetails.ResourceGroup = ''g'',
     accountDetails.Properties = None, accountDetails.accountKey = None,
     accountDetails.name = ''acct''\<rparr>"

section \<open>Facts about runs\<close>

lemma since_same [simp]: "since w w = []"
  by (simp add: since_def)

lemma since_app [simp]: "since w \<lparr>remote = r, trace = trace w @ evs\<rparr> = evs"
  by (simp add: since_def)

lemma errorsPassThrough_lookup [simp]:
  "isGet c \<Longrightarrow> errorsPassThrough res (Event c err True # evs) = errorsPassThrough res evs"
  by (cases err) simp_all

lemma isGet_simps [simp]:
  "isGet SubscriptionsClient_Get" "isGet NamespacesClient_GetAuthorizationRule"
  "isGet TopicsClient_GetAuthorizationRule" "isGet KubernetesClustersClient_Get"
  "isGet WebAppsClient_Get"
  "\<not> isGet SubscriptionsClient_CreateOrUpdate" "\<not> isGet SubscriptionsClient_Delete"
  "\<not> isGet NamespacesClient_CreateOrUpdateAuthorizationRule" "\<not> isGet NamespacesClient_ListKeys"
  "\<not> isGet NamespacesClient_DeleteAuthorizationRule"
  "\<not> isGet TopicsClient_CreateOrUpdateAuthorizationRule" "\<not> isGet TopicsClient_ListKeys"
  "\<not> isGet TopicsClient_DeleteAuthorizationRule" "\<not> isGet WaitForPairedNamespaceReplication"
  "\<not> isGet (KubernetesClustersClient_GetAccessProfile role)"
  "\<not> isGet WebAppsClient_CheckNameAvailability" "\<not> isGet WebAppsClient_CreateOrUpdate"
  "\<not> isGet Future_WaitForCompletionRef" "\<not> isGet WebAppsClient_UpdateConfiguration"
  "\<not> isGet WebAppsClient_Delete" "\<not> isGet WebAppsClient_ListApplicationSettings"
  "\<not> isGet WebAppsClient_GetConfiguration" "\<not> isGet ManagedEnvironmentClient_Get"
  by (simp_all add: isGet_def)

lemmas demo_defs =
  demoServiceBus_def demoParse_def demoData_def demoWorld_def demoLookup_def demoCall_def
  demoWait_def demoSubscription_def demoRule_def demoKeys_def perform_def performWait_def
  SetId_def

section \<open>Runs on the small remote side\<close>

lemmas demo_app_defs =
  demoAppService_def demoModel_def demoSite_def newReadState_def zeroSiteConfig_def
  storageStringOf_def ExpandSiteConfigLinuxFunctionAppOnContainer_def
  EncodeLinuxFunctionAppOnContainerLinuxFxVersion_def TrimPrefix_def HasPrefix_def
  argFunctionAppId_def ResourceType_def

lemma demo_create_function_app:
  "Create_Func (demoAppService []) (demoData [] True []) (demoWorld False)
   = (Return None, SetId (demoData [] True []) ''s/g/app'',
      \<lparr>remote = True,
       trace = [Event WebAppsClient_Get (Some (SdkError ''404'')) True,
                Event ManagedEnvironmentClient_Get None False,
                Event WebAppsClient_CheckNameAvailability None False,
                Event WebAppsClient_CreateOrUpdate None False,
                Event Future_WaitForCompletionRef None False]\<rparr>)"
  by (simp add: Create_Func_def Create_afterCheck_def Create_submit_def demo_defs demo_app_defs
        Let_def)

lemma demo_update_function_app:
  "Update_Func (demoAppService []) (demoData ''s/g/app'' False []) (demoWorld True)
   = (Return None, (demoData ''s/g/app'' False [])\<lparr>Partial := True\<rparr>,
      \<lparr>remote = True,
       trace = [Event WebAppsClient_Get None False,
                Event WebAppsClient_CreateOrUpdate None False,
                Event Future_WaitForCompletionRef None False,
                Event WebAppsClient_UpdateConfiguration None False]\<rparr>)"
  by (simp add: Update_Func_def Update_apply_def demo_defs demo_app_defs Let_def)

section \<open>What the handlers do on each answer of the SDK\<close>

text \<open>
  Each lemma takes the answers of the SDK to the calls of one path through a handler, each
  call applied to the state in which the call before it left the remote side, and gives the
  whole outcome of the handler: what it returns, the resource data, and the world, whose
  trace holds exactly the calls of that path.
\<close>

lemma Id_d_Set [simp]: "Id (d_Set d key v) = Id d"
  by (simp add: d_Set_def)

lemma Id_d_SetAll [simp]: "Id (d_SetAll d kvs) = Id d"
  unfolding d_SetAll_def by (induction kvs arbitrary: d) (simp_all add: split_beta)

subsection \<open>\<open>azurerm_servicebus_subscription\<close>\<close>

lemma SubscriptionRead_Get_fails:
  "parse_SubscriptionID (Parse meta) (Id d) = Inr rid \<Longrightarrow>
   SubscriptionsClient.Get (Subscriptions meta) (SubscriptionId.ResourceGroup rid)
     (SubscriptionId.NamespaceName rid) (SubscriptionId.TopicName rid)
     (SubscriptionId.Name rid) (remote w) = ((resp, Some e), r1) \<Longrightarrow>
   resourceServiceBusSubscriptionRead meta d w =
     (if ResponseWasNotFound resp
      then (Return None, SetId d [], logged w [Event SubscriptionsClient_Get (Some e) True] r1)
      else (Return (Some (Errorf ''retrieving %s: %+v''
                            [argSubscriptionId rid, ArgError (Some e)])),
            d, logged w [Event SubscriptionsClient_Get (Some e) False] r1))"
  by (simp add: resourceServiceBusSubscriptionRead_def perform_def)

lemma SubscriptionDelete_Delete_fails:
  "parse_SubscriptionID (Parse meta) (Id d) = Inr rid \<Longrightarrow>
   SubscriptionsClient.Delete (Subscriptions meta) (SubscriptionId.ResourceGroup rid)
     (SubscriptionId.NamespaceName rid) (SubscriptionId.TopicName rid)
     (SubscriptionId.Name rid) (remote w) = ((resp, Some e), r1) \<Longrightarrow>
   resourceServiceBusSubscriptionDelete meta d w =
     (Return (Some (Errorf ''deleting %s: %+v'' [argSubscriptionId rid, ArgError (Some e)])),
      d, logged w [Event SubscriptionsClient_Delete (Some e) (ResponseWasNotFound resp)] r1)"
  by (simp add: resourceServiceBusSubscriptionDelete_def perform_def)

lemma SubscriptionCreate_check_fails:
  "resourceServiceBusSubscription_resourceId meta d = Inr rid \<Longrightarrow> IsNewResource d \<Longrightarrow>
   SubscriptionsClient.Get (Subscriptions meta) (SubscriptionId.ResourceGroup rid)
     (SubscriptionId.NamespaceName rid) (SubscriptionId.TopicName rid)
     (SubscriptionId.Name rid) (remote w) = ((existing, Some e), r1) \<Longrightarrow>
   \<not> ResponseWasNotFound existing \<Longrightarrow>
   resourceServiceBusSubscriptionCreateUpdate meta d w =
     (Return (Some (Errorf ''checking for presence of existing %s: %+v''
                      [argSubscriptionId rid, ArgError (Some e)])),
      d, logged w [Event SubscriptionsClient_Get (Some e) False] r1)"
  by (simp add: resourceServiceBusSubscriptionCreateUpdate_def
        resourceServiceBusSubscription_checkExisting_def perform_def)

lemma SubscriptionCreate_exists:
  "resourceServiceBusSubscription_resourceId meta d = Inr rid \<Longrightarrow> IsNewResource d \<Longrightarrow>
   SubscriptionsClient.Get (Subscriptions meta) (SubscriptionId.ResourceGroup rid)
     (SubscriptionId.NamespaceName rid) (SubscriptionId.TopicName rid)
     (SubscriptionId.Name rid) (remote w) = ((existing, None), r1) \<Longrightarrow>
   \<not> ResponseWasNotFound existing \<Longrightarrow>
   resourceServiceBusSubscriptionCreateUpdate meta d w =
     (Return (Some (ImportAsExistsError ''azurerm_servicebus_subscription''
                      (SubscriptionId_ID (Parse meta) rid))),
      d, logged w [Event SubscriptionsClient_Get None False] r1)"
  by (simp add: resourceServiceBusSubscriptionCreateUpdate_def
        resourceServiceBusSubscription_checkExisting_def perform_def)

lemma SubscriptionCreate_CreateOrUpdate:
  "resourceServiceBusSubscription_resourceId meta d = Inr rid \<Longrightarrow>
   (IsNewResource d \<longrightarrow>
      SubscriptionsClient.Get (Subscriptions meta) (SubscriptionId.ResourceGroup rid)
        (SubscriptionId.NamespaceName rid) (SubscriptionId.TopicName rid)
        (SubscriptionId.Name rid) (remote w) = ((existing, err), r1)
      \<and> ResponseWasNotFound existing) \<Longrightarrow>
   w1 = (if IsNewResource d then logged w [Event SubscriptionsClient_Get err True] r1 else w) \<Longrightarrow>
   SubscriptionsClient.CreateOrUpdate (Subscriptions meta) (SubscriptionId.ResourceGroup rid)
     (SubscriptionId.NamespaceName rid) (SubscriptionId.TopicName rid)
     (SubscriptionId.Name rid) (resourceServiceBusSubscription_parameters d) (remote w1)
     = ((resp, err2), r2) \<Longrightarrow>
   resourceServiceBusSubscriptionCreateUpdate meta d w =
     (case err2 of
        Some e \<Rightarrow>
          (Return (Some (Errorf ''creating/updating %s: %v''
                           [argSubscriptionId rid, ArgError (Some e)])),
           d, logged w1 [Event SubscriptionsClient_CreateOrUpdate (Some e)
                           (ResponseWasNotFound resp)] r2)
      | None \<Rightarrow>
          resourceServiceBusSubscriptionRead meta
            (SetId d (SubscriptionId_ID (Parse meta) rid))
            (logged w1 [Event SubscriptionsClient_CreateOrUpdate None
                          (ResponseWasNotFound resp)] r2))"
  by (cases "IsNewResource d"; cases err2)
     (simp_all add: resourceServiceBusSubscriptionCreateUpdate_def
        resourceServiceBusSubscription_checkExisting_def perform_def)

subsection \<open>\<open>azurerm_servicebus_namespace_authorization_rule\<close>\<close>

lemma NamespaceRuleRead_Get_fails:
  "parse_NamespaceAuthorizationRuleID (Parse meta) (Id d) = Inr rid \<Longrightarrow>
   NamespacesClient.GetAuthorizationRule (Namespaces meta) (NamespaceAuthorizationRuleId.ResourceGroup rid)
     (NamespaceAuthorizationRuleId.NamespaceName rid)
     (NamespaceAuthorizationRuleId.AuthorizationRuleName rid) (remote w) = ((resp, Some e), r1) \<Longrightarrow>
   resourceServiceBusNamespaceAuthorizationRuleRead meta d w =
     (if ResponseWasNotFound resp
      then (Return None, SetId d [],
            logged w [Event NamespacesClient_GetAuthorizationRule (Some e) True] r1)
      else (Return (Some (Errorf ''retrieving %s: %+v''
                            [argNamespaceAuthorizationRuleId rid, ArgError (Some e)])),
            d, logged w [Event NamespacesClient_GetAuthorizationRule (Some e) False] r1))"
  by (simp add: resourceServiceBusNamespaceAuthorizationRuleRead_def perform_def)

lemma NamespaceRuleRead_ListKeys_fails:
  "parse_NamespaceAuthorizationRuleID (Parse meta) (Id d) = Inr rid \<Longrightarrow>
   NamespacesClient.GetAuthorizationRule (Namespaces meta) (NamespaceAuthorizationRuleId.ResourceGroup rid)
     (NamespaceAuthorizationRuleId.NamespaceName rid)
     (NamespaceAuthorizationRuleId.AuthorizationRuleName rid) (remote w) = ((resp, None), r1) \<Longrightarrow>
   NamespacesClient.ListKeys (Namespaces meta) (NamespaceAuthorizationRuleId.ResourceGroup rid)
     (NamespaceAuthorizationRuleId.NamespaceName rid)
     (NamespaceAuthorizationRuleId.AuthorizationRuleName rid) r1 = ((keysResp, Some e), r2) \<Longrightarrow>
   \<exists>d'. resourceServiceBusNamespaceAuthorizationRuleRead meta d w =
     (Return (Some (Errorf ''listing keys for %s: %+v''
                      [argNamespaceAuthorizationRuleId rid, ArgError (Some e)])),
      d', logged w [Event NamespacesClient_GetAuthorizationRule None (ResponseWasNotFound resp),
                    Event NamespacesClient_ListKeys (Some e) (ResponseWasNotFound keysResp)] r2)
     \<and> Id d' = Id d"
  by (simp add: resourceServiceBusNamespaceAuthorizationRuleRead_def perform_def Let_def
        split: option.splits prod.splits)

lemma NamespaceRuleDelete_Delete_fails:
  "parse_NamespaceAuthorizationRuleID (Parse meta) (Id d) = Inr rid \<Longrightarrow>
   NamespacesClient.DeleteAuthorizationRule (Namespaces meta) (NamespaceAuthorizationRuleId.ResourceGroup rid)
     (NamespaceAuthorizationRuleId.NamespaceName rid)
     (NamespaceAuthorizationRuleId.AuthorizationRuleName rid) (remote w)
     = ((resp, Some e), r1) \<Longrightarrow>
   resourceServiceBusNamespaceAuthorizationRuleDelete meta d w =
     (Return (Some (Errorf ''deleting %s: %+v''
                      [argNamespaceAuthorizationRuleId rid, ArgError (Some e)])),
      d, logged w [Event NamespacesClient_DeleteAuthorizationRule (Some e)
                     (ResponseWasNotFound resp)] r1)"
  by (simp add: resourceServiceBusNamespaceAuthorizationRuleDelete_def perform_def)

lemma NamespaceRuleDelete_wait_fails:
  "parse_NamespaceAuthorizationRuleID (Parse meta) (Id d) = Inr rid \<Longrightarrow>
   NamespacesClient.DeleteAuthorizationRule (Namespaces meta) (NamespaceAuthorizationRuleId.ResourceGroup rid)
     (NamespaceAuthorizationRuleId.NamespaceName rid)
     (NamespaceAuthorizationRuleId.AuthorizationRuleName rid) (remote w)
     = ((resp, None), r1) \<Longrightarrow>
   waitForPairedNamespaceReplication meta (NamespaceAuthorizationRuleId.ResourceGroup rid)
     (NamespaceAuthorizationRuleId.NamespaceName rid) (ResourceData.Timeout d ''update'') r1
     = (Some e, r2) \<Longrightarrow>
   resourceServiceBusNamespaceAuthorizationRuleDelete meta d w =
     (Return (Some (Errorf
        ''waiting for replication to complete for Service Bus Namespace Disaster Recovery Configs (Namespace %q / Resource Group %q): %s''
        [ArgString (NamespaceAuthorizationRuleId.NamespaceName rid),
         ArgString (NamespaceAuthorizationRuleId.ResourceGroup rid), ArgError (Some e)])),
      d, logged w [Event NamespacesClient_DeleteAuthorizationRule None (ResponseWasNotFound resp),
                   Event WaitForPairedNamespaceReplication (Some e) False] r2)"
  by (simp add: resourceServiceBusNamespaceAuthorizationRuleDelete_def perform_def performWait_def)

lemma NamespaceRuleCreate_check_fails:
  "resourceServiceBusNamespaceAuthorizationRule_resourceId meta d = Inr rid \<Longrightarrow> IsNewResource d \<Longrightarrow>
   NamespacesClient.GetAuthorizationRule (Namespaces meta) (NamespaceAuthorizationRuleId.ResourceGroup rid)
     (NamespaceAuthorizationRuleId.NamespaceName rid)
     (NamespaceAuthorizationRuleId.AuthorizationRuleName rid) (remote w)
     = ((existing, Some e), r1) \<Longrightarrow>
   \<not> ResponseWasNotFound existing \<Longrightarrow>
   resourceServiceBusNamespaceAuthorizationRuleCreateUpdate meta d w =
     (Return (Some (Errorf ''checking for presence of existing %s: %+v''
                      [argNamespaceAuthorizationRuleId rid, ArgError (Some e)])),
      d, logged w [Event NamespacesClient_GetAuthorizationRule (Some e) False] r1)"
  by (simp add: resourceServiceBusNamespaceAuthorizationRuleCreateUpdate_def
        resourceServiceBusNamespaceAuthorizationRule_checkExisting_def perform_def)

lemma NamespaceRuleCreate_exists:
  "resourceServiceBusNamespaceAuthorizationRule_resourceId meta d = Inr rid \<Longrightarrow> IsNewResource d \<Longrightarrow>
   NamespacesClient.GetAuthorizationRule (Namespaces meta) (NamespaceAuthorizationRuleId.ResourceGroup rid)
     (NamespaceAuthorizationRuleId.NamespaceName rid)
     (NamespaceAuthorizationRuleId.AuthorizationRuleName rid) (remote w)
     = ((existing, None), r1) \<Longrightarrow>
   \<not> ResponseWasNotFound existing \<Longrightarrow>
   resourceServiceBusNamespaceAuthorizationRuleCreateUpdate meta d w =
     (Return (Some (ImportAsExistsError ''azurerm_servicebus_namespace_authorization_rule''
                      (NamespaceAuthorizationRuleId_ID (Parse meta) rid))),
      d, logged w [Event NamespacesClient_GetAuthorizationRule None False] r1)"
  by (simp add: resourceServiceBusNamespaceAuthorizationRuleCreateUpdate_def
        resourceServiceBusNamespaceAuthorizationRule_checkExisting_def perform_def)

lemma NamespaceRuleCreate_CreateOrUpdate_fails:
  "resourceServiceBusNamespaceAuthorizationRule_resourceId meta d = Inr rid \<Longrightarrow>
   (IsNewResource d \<longrightarrow>
      NamespacesClient.GetAuthorizationRule (Namespaces meta) (NamespaceAuthorizationRuleId.ResourceGroup rid)
     (NamespaceAuthorizationRuleId.NamespaceName rid)
     (NamespaceAuthorizationRuleId.AuthorizationRuleName rid) (remote w)
        = ((existing, err), r1)
      \<and> ResponseWasNotFound existing) \<Longrightarrow>
   w1 = (if IsNewResource d
         then logged w [Event NamespacesClient_GetAuthorizationRule err True] r1 else w) \<Longrightarrow>
   NamespacesClient.CreateOrUpdateAuthorizationRule (Namespaces meta) (NamespaceAuthorizationRuleId.ResourceGroup rid)
     (NamespaceAuthorizationRuleId.NamespaceName rid)
     (NamespaceAuthorizationRuleId.AuthorizationRuleName rid)
     \<lparr>SBAuthorizationRule.Name = Some (NamespaceAuthorizationRuleId.AuthorizationRuleName rid),
      SBAuthorizationRule.SBAuthorizationRuleProperties =
        Some \<lparr>Rights = expandAuthorizationRuleRights meta d\<rparr>\<rparr> (remote w1)
     = ((resp, Some e), r2) \<Longrightarrow>
   resourceServiceBusNamespaceAuthorizationRuleCreateUpdate meta d w =
     (Return (Some (Errorf ''creating/updating %s: %+v''
                      [argNamespaceAuthorizationRuleId rid, ArgError (Some e)])),
      d, logged w1 [Event NamespacesClient_CreateOrUpdateAuthorizationRule (Some e)
                      (ResponseWasNotFound resp)] r2)"
  by (cases "IsNewResource d")
     (simp_all add: resourceServiceBusNamespaceAuthorizationRuleCreateUpdate_def
        resourceServiceBusNamespaceAuthorizationRule_checkExisting_def perform_def)

lemma NamespaceRuleCreate_wait:
  "resourceServiceBusNamespaceAuthorizationRule_resourceId meta d = Inr rid \<Longrightarrow>
   (IsNewResource d \<longrightarrow>
      NamespacesClient.GetAuthorizationRule (Namespaces meta) (NamespaceAuthorizationRuleId.ResourceGroup rid)
     (NamespaceAuthorizationRuleId.NamespaceName rid)
     (NamespaceAuthorizationRuleId.AuthorizationRuleName rid) (remote w)
        = ((existing, err), r1)
      \<and> ResponseWasNotFound existing) \<Longrightarrow>
   w1 = (if IsNewResource d
         then logged w [Event NamespacesClient_GetAuthorizationRule err True] r1 else w) \<Longrightarrow>
   NamespacesClient.CreateOrUpdateAuthorizationRule (Namespaces meta) (NamespaceAuthorizationRuleId.ResourceGroup rid)
     (NamespaceAuthorizationRuleId.NamespaceName rid)
     (NamespaceAuthorizationRuleId.AuthorizationRuleName rid)
     \<lparr>SBAuthorizationRule.Name = Some (NamespaceAuthorizationRuleId.AuthorizationRuleName rid),
      SBAuthorizationRule.SBAuthorizationRuleProperties =
        Some \<lparr>Rights = expandAuthorizationRuleRights meta d\<rparr>\<rparr> (remote w1)
     = ((resp, None), r2) \<Longrightarrow>
   waitForPairedNamespaceReplication meta (NamespaceAuthorizationRuleId.ResourceGroup rid)
     (NamespaceAuthorizationRuleId.NamespaceName rid) (ResourceData.Timeout d ''update'') r2
     = (err3, r3) \<Longrightarrow>
   w3 = logged w1 [Event NamespacesClient_CreateOrUpdateAuthorizationRule None
                     (ResponseWasNotFound resp),
                   Event WaitForPairedNamespaceReplication err3 False] r3 \<Longrightarrow>
   resourceServiceBusNamespaceAuthorizationRuleCreateUpdate meta d w =
     (case err3 of
        Some e \<Rightarrow>
          (Return (Some (Errorf
             ''waiting for replication to complete for Service Bus Namespace Disaster Recovery Configs (Namespace %q / Resource Group %q): %s''
             [ArgString (NamespaceAuthorizationRuleId.NamespaceName rid),
              ArgString (NamespaceAuthorizationRuleId.ResourceGroup rid), ArgError (Some e)])),
           SetId d (NamespaceAuthorizationRuleId_ID (Parse meta) rid), w3)
      | None \<Rightarrow>
          resourceServiceBusNamespaceAuthorizationRuleRead meta
            (SetId d (NamespaceAuthorizationRuleId_ID (Parse meta) rid)) w3)"
  by (cases "IsNewResource d"; cases err3)
     (simp_all add: resourceServiceBusNamespaceAuthorizationRuleCreateUpdate_def
        resourceServiceBusNamespaceAuthorizationRule_checkExisting_def perform_def performWait_def
        SetId_def)

subsection \<open>\<open>azurerm_servicebus_topic_authorization_rule\<close>\<close>

lemma TopicRuleRead_Get_fails:
  "parse_TopicAuthorizationRuleID (Parse meta) (Id d) = Inr rid \<Longrightarrow>
   TopicsClient.GetAuthorizationRule (Topics meta) (TopicAuthorizationRuleId.ResourceGroup rid)
     (TopicAuthorizationRuleId.NamespaceName rid)
     (TopicAuthorizationRuleId.TopicName rid)
     (TopicAuthorizationRuleId.AuthorizationRuleName rid) (remote w) = ((resp, Some e), r1) \<Longrightarrow>
   resourceServiceBusTopicAuthorizationRuleRead meta d w =
     (if ResponseWasNotFound resp
      then (Return None, SetId d [],
            logged w [Event TopicsClient_GetAuthorizationRule (Some e) True] r1)
      else (Return (Some (Errorf ''retrieving %s: %+v''
                            [argTopicAuthorizationRuleId rid, ArgError (Some e)])),
            d, logged w [Event TopicsClient_GetAuthorizationRule (Some e) False] r1))"
  by (simp add: resourceServiceBusTopicAuthorizationRuleRead_def perform_def)

lemma TopicRuleRead_ListKeys_fails:
  "parse_TopicAuthorizationRuleID (Parse meta) (Id d) = Inr rid \<Longrightarrow>
   TopicsClient.GetAuthorizationRule (Topics meta) (TopicAuthorizationRuleId.ResourceGroup rid)
     (TopicAuthorizationRuleId.NamespaceName rid)
     (TopicAuthorizationRuleId.TopicName rid)
     (TopicAuthorizationRuleId.AuthorizationRuleName rid) (remote w) = ((resp, None), r1) \<Longrightarrow>
   TopicsClient.ListKeys (Topics meta) (TopicAuthorizationRuleId.ResourceGroup rid)
     (TopicAuthorizationRuleId.NamespaceName rid)
     (TopicAuthorizationRuleId.TopicName rid)
     (TopicAuthorizationRuleId.AuthorizationRuleName rid) r1 = ((keysResp, Some e), r2) \<Longrightarrow>
   \<exists>d'. resourceServiceBusTopicAuthorizationRuleRead meta d w =
     (Return (Some (Errorf ''listing keys for %s: %+v''
                      [argTopicAuthorizationRuleId rid, ArgError (Some e)])),
      d', logged w [Event TopicsClient_GetAuthorizationRule None (ResponseWasNotFound resp),
                    Event TopicsClient_ListKeys (Some e) (ResponseWasNotFound keysResp)] r2)
     \<and> Id d' = Id d"
  by (simp add: resourceServiceBusTopicAuthorizationRuleRead_def perform_def Let_def
        split: option.splits prod.splits)

lemma TopicRuleDelete_Delete_fails:
  "parse_TopicAuthorizationRuleID (Parse meta) (Id d) = Inr rid \<Longrightarrow>
   TopicsClient.DeleteAuthorizationRule (Topics meta) (TopicAuthorizationRuleId.ResourceGroup rid)
     (TopicAuthorizationRuleId.NamespaceName rid)
     (TopicAuthorizationRuleId.TopicName rid)
     (TopicAuthorizationRuleId.AuthorizationRuleName rid) (remote w)
     = ((resp, Some e), r1) \<Longrightarrow>
   resourceServiceBusTopicAuthorizationRuleDelete meta d w =
     (Return (Some (Errorf ''deleting %s: %+v''
                      [argTopicAuthorizationRuleId rid, ArgError (Some e)])),
      d, logged w [Event TopicsClient_DeleteAuthorizationRule (Some e)
                     (ResponseWasNotFound resp)] r1)"
  by (simp add: resourceServiceBusTopicAuthorizationRuleDelete_def perform_def)

lemma TopicRuleDelete_wait_fails:
  "parse_TopicAuthorizationRuleID (Parse meta) (Id d) = Inr rid \<Longrightarrow>
   TopicsClient.DeleteAuthorizationRule (Topics meta) (TopicAuthorizationRuleId.ResourceGroup rid)
     (TopicAuthorizationRuleId.NamespaceName rid)
     (TopicAuthorizationRuleId.TopicName rid)
     (TopicAuthorizationRuleId.AuthorizationRuleName rid) (remote w)
     = ((resp, None), r1) \<Longrightarrow>
   waitForPairedNamespaceReplication meta (TopicAuthorizationRuleId.ResourceGroup rid)
     (TopicAuthorizationRuleId.NamespaceName rid) (ResourceData.Timeout d ''update'') r1
     = (Some e, r2) \<Longrightarrow>
   resourceServiceBusTopicAuthorizationRuleDelete meta d w =
     (Return (Some (Errorf
        ''waiting for replication to complete for Service Bus Namespace Disaster Recovery Configs (Namespace %q / Resource Group %q): %s''
        [ArgString (TopicAuthorizationRuleId.NamespaceName rid),
         ArgString (TopicAuthorizationRuleId.ResourceGroup rid), ArgError (Some e)])),
      d, logged w [Event TopicsClient_DeleteAuthorizationRule None (ResponseWasNotFound resp),
                   Event WaitForPairedNamespaceReplication (Some e) False] r2)"
  by (simp add: resourceServiceBusTopicAuthorizationRuleDelete_def perform_def performWait_def)

lemma TopicRuleCreate_check_fails:
  "resourceServiceBusTopicAuthorizationRule_resourceId meta d = Inr rid \<Longrightarrow> IsNewResource d \<Longrightarrow>
   TopicsClient.GetAuthorizationRule (Topics meta) (TopicAuthorizationRuleId.ResourceGroup rid)
     (TopicAuthorizationRuleId.NamespaceName rid)
     (TopicAuthorizationRuleId.TopicName rid)
     (TopicAuthorizationRuleId.AuthorizationRuleName rid) (remote w)
     = ((existing, Some e), r1) \<Longrightarrow>
   \<not> ResponseWasNotFound existing \<Longrightarrow>
   resourceServiceBusTopicAuthorizationRuleCreateUpdate meta d w =
     (Return (Some (Errorf ''checking for presence of existing %s: %+v''
                      [argTopicAuthorizationRuleId rid, ArgError (Some e)])),
      d, logged w [Event TopicsClient_GetAuthorizationRule (Some e) False] r1)"
  by (simp add: resourceServiceBusTopicAuthorizationRuleCreateUpdate_def
        resourceServiceBusTopicAuthorizationRule_checkExisting_def perform_def)

lemma TopicRuleCreate_exists:
  "resourceServiceBusTopicAuthorizationRule_resourceId meta d = Inr rid \<Longrightarrow> IsNewResource d \<Longrightarrow>
   TopicsClient.GetAuthorizationRule (Topics meta) (TopicAuthorizationRuleId.ResourceGroup rid)
     (TopicAuthorizationRuleId.NamespaceName rid)
     (TopicAuthorizationRuleId.TopicName rid)
     (TopicAuthorizationRuleId.AuthorizationRuleName rid) (remote w)
     = ((existing, None), r1) \<Longrightarrow>
   \<not> ResponseWasNotFound existing \<Longrightarrow>
   resourceServiceBusTopicAuthorizationRuleCreateUpdate meta d w =
     (Return (Some (ImportAsExistsError ''azurerm_servicebus_topic_authorization_rule''
                      (TopicAuthorizationRuleId_ID (Parse meta) rid))),
      d, logged w [Event TopicsClient_GetAuthorizationRule None False] r1)"
  by (simp add: resourceServiceBusTopicAuthorizationRuleCreateUpdate_def
        resourceServiceBusTopicAuthorizationRule_checkExisting_def perform_def)

lemma TopicRuleCreate_CreateOrUpdate_fails:
  "resourceServiceBusTopicAuthorizationRule_resourceId meta d = Inr rid \<Longrightarrow>
   (IsNewResource d \<longrightarrow>
      TopicsClient.GetAuthorizationRule (Topics meta) (TopicAuthorizationRuleId.ResourceGroup rid)
     (TopicAuthorizationRuleId.NamespaceName rid)
     (TopicAuthorizationRuleId.TopicName rid)
     (TopicAuthorizationRuleId.AuthorizationRuleName rid) (remote w)
        = ((existing, err), r1)
      \<and> ResponseWasNotFound existing) \<Longrightarrow>
   w1 = (if IsNewResource d
         then logged w [Event TopicsClient_GetAuthorizationRule err True] r1 else w) \<Longrightarrow>
   TopicsClient.CreateOrUpdateAuthorizationRule (Topics meta) (TopicAuthorizationRuleId.ResourceGroup rid)
     (TopicAuthorizationRuleId.NamespaceName rid)
     (TopicAuthorizationRuleId.TopicName rid)
     (TopicAuthorizationRuleId.AuthorizationRuleName rid)
     \<lparr>SBAuthorizationRule.Name = Some (TopicAuthorizationRuleId.AuthorizationRuleName rid),
      SBAuthorizationRule.SBAuthorizationRuleProperties =
        Some \<lparr>Rights = expandAuthorizationRuleRights meta d\<rparr>\<rparr> (remote w1)
     = ((resp, Some e), r2) \<Longrightarrow>
   resourceServiceBusTopicAuthorizationRuleCreateUpdate meta d w =
     (Return (Some (Errorf ''creating/updating %s: %+v''
                      [argTopicAuthorizationRuleId rid, ArgError (Some e)])),
      d, logged w1 [Event TopicsClient_CreateOrUpdateAuthorizationRule (Some e)
                      (ResponseWasNotFound resp)] r2)"
  by (cases "IsNewResource d")
     (simp_all add: resourceServiceBusTopicAuthorizationRuleCreateUpdate_def
        resourceServiceBusTopicAuthorizationRule_checkExisting_def perform_def)

lemma TopicRuleCreate_wait:
  "resourceServiceBusTopicAuthorizationRule_resourceId meta d = Inr rid \<Longrightarrow>
   (IsNewResource d \<longrightarrow>
      TopicsClient.GetAuthorizationRule (Topics meta) (TopicAuthorizationRuleId.ResourceGroup rid)
     (TopicAuthorizationRuleId.NamespaceName rid)
     (TopicAuthorizationRuleId.TopicName rid)
     (TopicAuthorizationRuleId.AuthorizationRuleName rid) (remote w)
        = ((existing, err), r1)
      \<and> ResponseWasNotFound existing) \<Longrightarrow>
   w1 = (if IsNewResource d
         then logged w [Event TopicsClient_GetAuthorizationRule err True] r1 else w) \<Longrightarrow>
   TopicsClient.CreateOrUpdateAuthorizationRule (Topics meta) (TopicAuthorizationRuleId.ResourceGroup rid)
     (TopicAuthorizationRuleId.NamespaceName rid)
     (TopicAuthorizationRuleId.TopicName rid)
     (TopicAuthorizationRuleId.AuthorizationRuleName rid)
     \<lparr>SBAuthorizationRule.Name = Some (TopicAuthorizationRuleId.AuthorizationRuleName rid),
      SBAuthorizationRule.SBAuthorizationRuleProperties =
        Some \<lparr>Rights = expandAuthorizationRuleRights meta d\<rparr>\<rparr> (remote w1)
     = ((resp, None), r2) \<Longrightarrow>
   waitForPairedNamespaceReplication meta (TopicAuthorizationRuleId.ResourceGroup rid)
     (TopicAuthorizationRuleId.NamespaceName rid) (ResourceData.Timeout d ''update'') r2
     = (err3, r3) \<Longrightarrow>
   w3 = logged w1 [Event TopicsClient_CreateOrUpdateAuthorizationRule None
                     (ResponseWasNotFound resp),
                   Event WaitForPairedNamespaceReplication err3 False] r3 \<Longrightarrow>
   resourceServiceBusTopicAuthorizationRuleCreateUpdate meta d w =
     (case err3 of
        Some e \<Rightarrow>
          (Return (Some (Errorf
             ''waiting for replication to complete for Service Bus Namespace Disaster Recovery Configs (Namespace %q / Resource Group %q): %s''
             [ArgString (TopicAuthorizationRuleId.NamespaceName rid),
              ArgString (TopicAuthorizationRuleId.ResourceGroup rid), ArgError (Some e)])),
           SetId d (TopicAuthorizationRuleId_ID (Parse meta) rid), w3)
      | None \<Rightarrow>
          resourceServiceBusTopicAuthorizationRuleRead meta
            (SetId d (TopicAuthorizationRuleId_ID (Parse meta) rid)) w3)"
  by (cases "IsNewResource d"; cases err3)
     (simp_all add: resourceServiceBusTopicAuthorizationRuleCreateUpdate_def
        resourceServiceBusTopicAuthorizationRule_checkExisting_def perform_def performWait_def
        SetId_def)


subsection \<open>The data source \<open>azurerm_kubernetes_cluster\<close>\<close>

lemma KubernetesRead_Get_fails:
  "rid = NewClusterID cm (containers_meta.Account_SubscriptionId cm)
           (GetString d ''resource_group_name'') (GetString d ''name'') \<Longrightarrow>
   KubernetesClusters_Get cm (ClusterId.ResourceGroup rid) (ClusterId.ManagedClusterName rid)
     (remote w) = ((resp, Some e), r1) \<Longrightarrow>
   dataSourceKubernetesClusterRead cm d w =
     (if ResponseWasNotFound resp
      then (Return (Some (Errorf ''%s was not found'' [argClusterId rid])),
            d, logged w [Event KubernetesClustersClient_Get (Some e) True] r1)
      else (Return (Some (Errorf ''retrieving %s: %+v'' [argClusterId rid, ArgError (Some e)])),
            d, logged w [Event KubernetesClustersClient_Get (Some e) False] r1))"
  by (simp add: dataSourceKubernetesClusterRead_def perform_def Let_def)

lemma KubernetesRead_GetAccessProfile_fails:
  "rid = NewClusterID cm (containers_meta.Account_SubscriptionId cm)
           (GetString d ''resource_group_name'') (GetString d ''name'') \<Longrightarrow>
   KubernetesClusters_Get cm (ClusterId.ResourceGroup rid) (ClusterId.ManagedClusterName rid)
     (remote w) = ((resp, None), r1) \<Longrightarrow>
   KubernetesClusters_GetAccessProfile cm (ClusterId.ResourceGroup rid)
     (ClusterId.ManagedClusterName rid) ''clusterUser'' r1 = ((profile, Some e), r2) \<Longrightarrow>
   dataSourceKubernetesClusterRead cm d w =
     (Return (Some (Errorf ''retrieving Access Profile for %s: %+v''
                      [argClusterId rid, ArgError (Some e)])),
      d, logged w [Event KubernetesClustersClient_Get None (ResponseWasNotFound resp),
                   Event (KubernetesClustersClient_GetAccessProfile ''clusterUser'') (Some e)
                     (ResponseWasNotFound profile)] r2)"
  by (simp add: dataSourceKubernetesClusterRead_def perform_def Let_def)

lemma KubernetesRead_admin_GetAccessProfile_fails:
  "rid = NewClusterID cm (containers_meta.Account_SubscriptionId cm)
           (GetString d ''resource_group_name'') (GetString d ''name'') \<Longrightarrow>
   KubernetesClusters_Get cm (ClusterId.ResourceGroup rid) (ClusterId.ManagedClusterName rid)
     (remote w) = ((resp, None), r1) \<Longrightarrow>
   KubernetesClusters_GetAccessProfile cm (ClusterId.ResourceGroup rid)
     (ClusterId.ManagedClusterName rid) ''clusterUser'' r1 = ((profile, None), r2) \<Longrightarrow>
   ManagedClusterProperties (Body resp) = Some props \<Longrightarrow>
   d2 = d_SetAll (SetId d (ClusterId_ID cm rid))
          [(''name'', VStringPtr (ManagedCluster.Name (Body resp))),
           (''resource_group_name'', VString (ClusterId.ResourceGroup rid))] \<Longrightarrow>
   d3 = (case ManagedCluster.Location (Body resp) of
           None \<Rightarrow> d2
         | Some location \<Rightarrow> d_Set d2 ''location'' (VString (NormalizeLocation cm location))) \<Longrightarrow>
   setProperties cm d3 props = (None, d4) \<Longrightarrow>
   AadProfile props \<noteq> None \<Longrightarrow>
   DisableLocalAccounts props = None \<or> DisableLocalAccounts props = Some False \<Longrightarrow>
   KubernetesClusters_GetAccessProfile cm (ClusterId.ResourceGroup rid)
     (ClusterId.ManagedClusterName rid) ''clusterAdmin'' r2 = ((adminProfile, Some e), r3) \<Longrightarrow>
   dataSourceKubernetesClusterRead cm d w =
     (Return (Some (Errorf ''retrieving Admin Access Profile for %s: %+v''
                      [argClusterId rid, ArgError (Some e)])),
      d4, logged w [Event KubernetesClustersClient_Get None (ResponseWasNotFound resp),
                    Event (KubernetesClustersClient_GetAccessProfile ''clusterUser'') None
                      (ResponseWasNotFound profile),
                    Event (KubernetesClustersClient_GetAccessProfile ''clusterAdmin'') (Some e)
                      (ResponseWasNotFound adminProfile)] r3)"
  by (auto simp: dataSourceKubernetesClusterRead_def perform_def Let_def)

subsection \<open>\<open>azurerm_linux_function_app_on_container\<close>\<close>

lemma FunctionAppRead_Get_fails:
  "parse_FunctionAppID am (Id d) = Inr rid \<Longrightarrow>
   WebAppsClient.Get (WebApps am) (FunctionAppId.ResourceGroup rid) (FunctionAppId.SiteName rid)
     (remote w) = ((resp, Some e), r1) \<Longrightarrow>
   Read_Func am d w =
     (if ResponseWasNotFound resp
      then (case MarkAsGone am rid d of
              (e0, d0) \<Rightarrow> (Return e0, d0, logged w [Event WebAppsClient_Get (Some e) True] r1))
      else (Return (Some (Errorf ''reading Linux %s: %+v''
                            [argFunctionAppId rid, ArgError (Some e)])),
            d, logged w [Event WebAppsClient_Get (Some e) False] r1))"
  by (simp add: Read_Func_def perform_def)

lemma FunctionAppCreate_exists:
  "Storage_DomainSuffix am = Some sfx \<Longrightarrow> Decode am d = Inr model \<Longrightarrow>
   rid = NewFunctionAppID am (appservice_meta.Account_SubscriptionId am)
           (LinuxFunctionAppOnContainerModel.ResourceGroup model)
           (LinuxFunctionAppOnContainerModel.Name model) \<Longrightarrow>
   WebAppsClient.Get (WebApps am) (FunctionAppId.ResourceGroup rid) (FunctionAppId.SiteName rid)
     (remote w) = ((existing, None), r1) \<Longrightarrow>
   \<not> ResponseWasNotFound existing \<Longrightarrow>
   Create_Func am d w =
     (Return (Some (ResourceRequiresImport ''azurerm_linux_function_app_on_container''
                      [FunctionAppId.SubscriptionId rid, FunctionAppId.ResourceGroup rid,
                       FunctionAppId.SiteName rid])),
      d, logged w [Event WebAppsClient_Get None False] r1)"
  by (simp add: Create_Func_def perform_def Let_def ResourceType_def)

section \<open>Errors of the SDK\<close>

lemma SubscriptionRead_errors:
  "resourceServiceBusSubscriptionRead meta d w = (res, d', w') \<Longrightarrow>
   errorsPassThrough res (since w w')"
  by (auto simp: resourceServiceBusSubscriptionRead_def perform_def Let_def
           split: sum.splits prod.splits option.splits if_splits)

lemma SubscriptionCreateUpdate_errors:
  "resourceServiceBusSubscriptionCreateUpdate meta d w = (res, d', w') \<Longrightarrow>
   errorsPassThrough res (since w w')"
  by (auto simp: resourceServiceBusSubscriptionCreateUpdate_def
         resourceServiceBusSubscription_checkExisting_def
         resourceServiceBusSubscriptionRead_def perform_def Let_def
           split: sum.splits prod.splits option.splits if_splits)

lemma SubscriptionDelete_errors:
  "resourceServiceBusSubscriptionDelete meta d w = (res, d', w') \<Longrightarrow>
   errorsPassThrough res (since w w')"
  by (auto simp: resourceServiceBusSubscriptionDelete_def perform_def
           split: sum.splits prod.splits option.splits if_splits)

lemma NamespaceRuleRead_errors:
  "resourceServiceBusNamespaceAuthorizationRuleRead meta d w = (res, d', w') \<Longrightarrow>
   errorsPassThrough res (since w w')"
  by (auto simp: resourceServiceBusNamespaceAuthorizationRuleRead_def perform_def Let_def
           split: sum.splits prod.splits option.splits if_splits)

lemma NamespaceRuleCreateUpdate_errors:
  "resourceServiceBusNamespaceAuthorizationRuleCreateUpdate meta d w = (res, d', w') \<Longrightarrow>
   errorsPassThrough res (since w w')"
  by (auto simp: resourceServiceBusNamespaceAuthorizationRuleCreateUpdate_def
         resourceServiceBusNamespaceAuthorizationRule_checkExisting_def
         resourceServiceBusNamespaceAuthorizationRuleRead_def perform_def performWait_def Let_def
           split: sum.splits prod.splits option.splits if_splits)

lemma NamespaceRuleDelete_errors:
  "resourceServiceBusNamespaceAuthorizationRuleDelete meta d w = (res, d', w') \<Longrightarrow>
   errorsPassThrough res (since w w')"
  by (auto simp: resourceServiceBusNamespaceAuthorizationRuleDelete_def perform_def
         performWait_def
           split: sum.splits prod.splits option.splits if_splits)

lemma TopicRuleRead_errors:
  "resourceServiceBusTopicAuthorizationRuleRead meta d w = (res, d', w') \<Longrightarrow>
   errorsPassThrough res (since w w')"
  by (auto simp: resourceServiceBusTopicAuthorizationRuleRead_def perform_def Let_def
           split: sum.splits prod.splits option.splits if_splits)

lemma TopicRuleCreateUpdate_errors:
  "resourceServiceBusTopicAuthorizationRuleCreateUpdate meta d w = (res, d', w') \<Longrightarrow>
   errorsPassThrough res (since w w')"
  by (auto simp: resourceServiceBusTopicAuthorizationRuleCreateUpdate_def
         resourceServiceBusTopicAuthorizationRule_checkExisting_def
         resourceServiceBusTopicAuthorizationRuleRead_def perform_def performWait_def Let_def
           split: sum.splits prod.splits option.splits if_splits)

lemma TopicRuleDelete_errors:
  "resourceServiceBusTopicAuthorizationRuleDelete meta d w = (res, d', w') \<Longrightarrow>
   errorsPassThrough res (since w w')"
  by (auto simp: resourceServiceBusTopicAuthorizationRuleDelete_def perform_def
         performWait_def
           split: sum.splits prod.splits option.splits if_splits)

lemma KubernetesRead_errors:
  "dataSourceKubernetesClusterRead meta d w = (res, d', w') \<Longrightarrow>
   errorsPassThrough res (since w w')"
  by (auto simp: dataSourceKubernetesClusterRead_def dataSourceKubernetesClusterRead_finish_def
         perform_def Let_def
           split: sum.splits prod.splits option.splits if_splits)

lemma errorsPassThroughInI:
  "(\<And>res d' w'. h d w = (res, d', w') \<Longrightarrow> errorsPassThrough res (since w w')) \<Longrightarrow>
   errorsPassThroughIn h d w"
  by (cases "h d w") (simp add: errorsPassThroughIn_def)

text \<open>
  Claim C1, as the code has it, for the create, read, update and delete handlers of the
  three ServiceBus resources and the read of the Kubernetes cluster data source.

  First, of every run: an SDK call that returns an error is the last call of the run
  (nothing is retried and nothing else is tried), and the handler returns an error made by
  \<open>fmt.Errorf\<close> from that error, unless the call is the lookup of the resource itself and
  its response is a not-found.

  Then, call by call, what each handler does when the SDK answers with an error, the
  calls before it having succeeded; each call is applied to the state in which the call
  before it left the remote side, and the outcome is the whole result of the handler.
  A failed lookup in \<open>Read\<close>: with a not-found response the handler returns \<open>nil\<close> with the
  ID cleared (the data source returns a new \<open>%s was not found\<close> error, which does not hold
  the SDK's error, and leaves the resource data as it was); otherwise it returns the error
  inside \<open>retrieving %s: %+v\<close>. A failed \<open>Delete\<close>, \<open>ListKeys\<close>, \<open>GetAccessProfile\<close>,
  \<open>CreateOrUpdate\<close> or wait for the replication: the handler returns the error inside its
  message. The existence check of a create on a new resource: an error with a response
  that is not a not-found is returned inside \<open>checking for presence of existing %s: %+v\<close>;
  with a not-found response, whatever the error, the handler goes on to \<open>CreateOrUpdate\<close>.
  In every case the trace holds the calls of that path and no other, so the failed call is
  made once and is the last. After the last call of a create or update has succeeded the
  handler is \<open>Read\<close> on the resource data with the new ID, so the cases of \<open>Read\<close> apply
  to it.
\<close>

theorem sdk_errors_pass_through:
  "(errorsPassThroughIn (resourceServiceBusSubscriptionCreateUpdate meta) d w
    \<and> errorsPassThroughIn (resourceServiceBusSubscriptionRead meta) d w
    \<and> errorsPassThroughIn (resourceServiceBusSubscriptionDelete meta) d w
    \<and> errorsPassThroughIn (resourceServiceBusNamespaceAuthorizationRuleCreateUpdate meta) d w
    \<and> errorsPassThroughIn (resourceServiceBusNamespaceAuthorizationRuleRead meta) d w
    \<and> errorsPassThroughIn (resourceServiceBusNamespaceAuthorizationRuleDelete meta) d w
    \<and> errorsPassThroughIn (resourceServiceBusTopicAuthorizationRuleCreateUpdate meta) d w
    \<and> errorsPassThroughIn (resourceServiceBusTopicAuthorizationRuleRead meta) d w
    \<and> errorsPassThroughIn (resourceServiceBusTopicAuthorizationRuleDelete meta) d w
    \<and> errorsPassThroughIn (dataSourceKubernetesClusterRead cm) d w)
   \<and> (\<forall>rid resp e r1.
      parse_SubscriptionID (Parse meta) (Id d) = Inr rid
      \<and> SubscriptionsClient.Get (Subscriptions meta) (SubscriptionId.ResourceGroup rid)
          (SubscriptionId.NamespaceName rid) (SubscriptionId.TopicName rid)
          (SubscriptionId.Name rid) (remote w) = ((resp, Some e), r1) \<longrightarrow>
      resourceServiceBusSubscriptionRead meta d w =
        (if ResponseWasNotFound resp
         then (Return None, SetId d [], logged w [Event SubscriptionsClient_Get (Some e) True] r1)
         else (Return (Some (Errorf ''retrieving %s: %+v''
                               [argSubscriptionId rid, ArgError (Some e)])),
               d, logged w [Event SubscriptionsClient_Get (Some e) False] r1)))
   \<and> (\<forall>rid resp e r1.
      parse_SubscriptionID (Parse meta) (Id d) = Inr rid
      \<and> SubscriptionsClient.Delete (Subscriptions meta) (SubscriptionId.ResourceGroup rid)
          (SubscriptionId.NamespaceName rid) (SubscriptionId.TopicName rid)
          (SubscriptionId.Name rid) (remote w) = ((resp, Some e), r1) \<longrightarrow>
      resourceServiceBusSubscriptionDelete meta d w =
        (Return (Some (Errorf ''deleting %s: %+v'' [argSubscriptionId rid, ArgError (Some e)])),
         d, logged w [Event SubscriptionsClient_Delete (Some e) (ResponseWasNotFound resp)] r1))
   \<and> (\<forall>rid existing e r1.
      resourceServiceBusSubscription_resourceId meta d = Inr rid
      \<and> IsNewResource d
      \<and> SubscriptionsClient.Get (Subscriptions meta) (SubscriptionId.ResourceGroup rid)
          (SubscriptionId.NamespaceName rid) (SubscriptionId.TopicName rid)
          (SubscriptionId.Name rid) (remote w) = ((existing, Some e), r1)
      \<and> \<not> ResponseWasNotFound existing \<longrightarrow>
      resourceServiceBusSubscriptionCreateUpdate meta d w =
        (Return (Some (Errorf ''checking for presence of existing %s: %+v''
                         [argSubscriptionId rid, ArgError (Some e)])),
         d, logged w [Event SubscriptionsClient_Get (Some e) False] r1))
   \<and> (\<forall>rid existing err r1 w1 resp err2 r2.
      resourceServiceBusSubscription_resourceId meta d = Inr rid
      \<and> (IsNewResource d \<longrightarrow>
           SubscriptionsClient.Get (Subscriptions meta) (SubscriptionId.ResourceGroup rid)
             (SubscriptionId.NamespaceName rid) (SubscriptionId.TopicName rid)
             (SubscriptionId.Name rid) (remote w) = ((existing, err), r1)
           \<and> ResponseWasNotFound existing)
      \<and> w1 = (if IsNewResource d then logged w [Event SubscriptionsClient_Get err True] r1 else w)
      \<and> SubscriptionsClient.CreateOrUpdate (Subscriptions meta) (SubscriptionId.ResourceGroup rid)
          (SubscriptionId.NamespaceName rid) (SubscriptionId.TopicName rid)
          (SubscriptionId.Name rid) (resourceServiceBusSubscription_parameters d) (remote w1)
          = ((resp, err2), r2) \<longrightarrow>
      resourceServiceBusSubscriptionCreateUpdate meta d w =
        (case err2 of
           Some e \<Rightarrow>
             (Return (Some (Errorf ''creating/updating %s: %v''
                              [argSubscriptionId rid, ArgError (Some e)])),
              d, logged w1 [Event SubscriptionsClient_CreateOrUpdate (Some e)
                              (ResponseWasNotFound resp)] r2)
         | None \<Rightarrow>
             resourceServiceBusSubscriptionRead meta
               (SetId d (SubscriptionId_ID (Parse meta) rid))
               (logged w1 [Event SubscriptionsClient_CreateOrUpdate None
                             (ResponseWasNotFound resp)] r2)))
   \<and> (\<forall>rid resp e r1.
      parse_NamespaceAuthorizationRuleID (Parse meta) (Id d) = Inr rid
      \<and> NamespacesClient.GetAuthorizationRule (Namespaces meta) (NamespaceAuthorizationRuleId.ResourceGroup rid)
          (NamespaceAuthorizationRuleId.NamespaceName rid)
          (NamespaceAuthorizationRuleId.AuthorizationRuleName rid) (remote w) = ((resp, Some e), r1) \<longrightarrow>
      resourceServiceBusNamespaceAuthorizationRuleRead meta d w =
        (if ResponseWasNotFound resp
         then (Return None, SetId d [],
               logged w [Event NamespacesClient_GetAuthorizationRule (Some e) True] r1)
         else (Return (Some (Errorf ''retrieving %s: %+v''
                               [argNamespaceAuthorizationRuleId rid, ArgError (Some e)])),
               d, logged w [Event NamespacesClient_GetAuthorizationRule (Some e) False] r1)))
   \<and> (\<forall>rid resp r1 keysResp e r2.
      parse_NamespaceAuthorizationRuleID (Parse meta) (Id d) = Inr rid
      \<and> NamespacesClient.GetAuthorizationRule (Namespaces meta) (NamespaceAuthorizationRuleId.ResourceGroup rid)
          (NamespaceAuthorizationRuleId.NamespaceName rid)
          (NamespaceAuthorizationRuleId.AuthorizationRuleName rid) (remote w) = ((resp, None), r1)
      \<and> NamespacesClient.ListKeys (Namespaces meta) (NamespaceAuthorizationRuleId.ResourceGroup rid)
          (NamespaceAuthorizationRuleId.NamespaceName rid)
          (NamespaceAuthorizationRuleId.AuthorizationRuleName rid) r1 = ((keysResp, Some e), r2) \<longrightarrow>
      (\<exists>d'. resourceServiceBusNamespaceAuthorizationRuleRead meta d w =
        (Return (Some (Errorf ''listing keys for %s: %+v''
                         [argNamespaceAuthorizationRuleId rid, ArgError (Some e)])),
         d', logged w [Event NamespacesClient_GetAuthorizationRule None (ResponseWasNotFound resp),
                       Event NamespacesClient_ListKeys (Some e) (ResponseWasNotFound keysResp)] r2)
        \<and> Id d' = Id d))
   \<and> (\<forall>rid resp e r1.
      parse_NamespaceAuthorizationRuleID (Parse meta) (Id d) = Inr rid
      \<and> NamespacesClient.DeleteAuthorizationRule (Namespaces meta) (NamespaceAuthorizationRuleId.ResourceGroup rid)
          (NamespaceAuthorizationRuleId.NamespaceName rid)
          (NamespaceAuthorizationRuleId.AuthorizationRuleName rid) (remote w)
          = ((resp, Some e), r1) \<longrightarrow>
      resourceServiceBusNamespaceAuthorizationRuleDelete meta d w =
        (Return (Some (Errorf ''deleting %s: %+v''
                         [argNamespaceAuthorizationRuleId rid, ArgError (Some e)])),
         d, logged w [Event NamespacesClient_DeleteAuthorizationRule (Some e)
                        (ResponseWasNotFound resp)] r1))
   \<and> (\<forall>rid resp r1 e r2.
      parse_NamespaceAuthorizationRuleID (Parse meta) (Id d) = Inr rid
      \<and> NamespacesClient.DeleteAuthorizationRule (Namespaces meta) (NamespaceAuthorizationRuleId.ResourceGroup rid)
          (NamespaceAuthorizationRuleId.NamespaceName rid)
          (NamespaceAuthorizationRuleId.AuthorizationRuleName rid) (remote w)
          = ((resp, None), r1)
      \<and> waitForPairedNamespaceReplication meta (NamespaceAuthorizationRuleId.ResourceGroup rid)
          (NamespaceAuthorizationRuleId.NamespaceName rid) (ResourceData.Timeout d ''update'') r1
          = (Some e, r2) \<longrightarrow>
      resourceServiceBusNamespaceAuthorizationRuleDelete meta d w =
        (Return (Some (Errorf
           ''waiting for replication to complete for Service Bus Namespace Disaster Recovery Configs (Namespace %q / Resource Group %q): %s''
           [ArgString (NamespaceAuthorizationRuleId.NamespaceName rid),
            ArgString (NamespaceAuthorizationRuleId.ResourceGroup rid), ArgError (Some e)])),
         d, logged w [Event NamespacesClient_DeleteAuthorizationRule None (ResponseWasNotFound resp),
                      Event WaitForPairedNamespaceReplication (Some e) False] r2))
   \<and> (\<forall>rid existing e r1.
      resourceServiceBusNamespaceAuthorizationRule_resourceId meta d = Inr rid
      \<and> IsNewResource d
      \<and> NamespacesClient.GetAuthorizationRule (Namespaces meta) (NamespaceAuthorizationRuleId.ResourceGroup rid)
          (NamespaceAuthorizationRuleId.NamespaceName rid)
          (NamespaceAuthorizationRuleId.AuthorizationRuleName rid) (remote w)
          = ((existing, Some e), r1)
      \<and> \<not> ResponseWasNotFound existing \<longrightarrow>
      resourceServiceBusNamespaceAuthorizationRuleCreateUpdate meta d w =
        (Return (Some (Errorf ''checking for presence of existing %s: %+v''
                         [argNamespaceAuthorizationRuleId rid, ArgError (Some e)])),
         d, logged w [Event NamespacesClient_GetAuthorizationRule (Some e) False] r1))
   \<and> (\<forall>rid existing err r1 w1 resp e r2.
      resourceServiceBusNamespaceAuthorizationRule_resourceId meta d = Inr rid
      \<and> (IsNewResource d \<longrightarrow>
           NamespacesClient.GetAuthorizationRule (Namespaces meta) (NamespaceAuthorizationRuleId.ResourceGroup rid)
          (NamespaceAuthorizationRuleId.NamespaceName rid)
          (NamespaceAuthorizationRuleId.AuthorizationRuleName rid) (remote w)
             = ((existing, err), r1)
           \<and> ResponseWasNotFound existing)
      \<and> w1 = (if IsNewResource d
              then logged w [Event NamespacesClient_GetAuthorizationRule err True] r1 else w)
      \<and> NamespacesClient.CreateOrUpdateAuthorizationRule (Namespaces meta) (NamespaceAuthorizationRuleId.ResourceGroup rid)
          (NamespaceAuthorizationRuleId.NamespaceName rid)
          (NamespaceAuthorizationRuleId.AuthorizationRuleName rid)
          \<lparr>SBAuthorizationRule.Name = Some (NamespaceAuthorizationRuleId.AuthorizationRuleName rid),
           SBAuthorizationRule.SBAuthorizationRuleProperties =
             Some \<lparr>Rights = expandAuthorizationRuleRights meta d\<rparr>\<rparr> (remote w1)
          = ((resp, Some e), r2) \<longrightarrow>
      resourceServiceBusNamespaceAuthorizationRuleCreateUpdate meta d w =
        (Return (Some (Errorf ''creating/updating %s: %+v''
                         [argNamespaceAuthorizationRuleId rid, ArgError (Some e)])),
         d, logged w1 [Event NamespacesClient_CreateOrUpdateAuthorizationRule (Some e)
                         (ResponseWasNotFound resp)] r2))
   \<and> (\<forall>rid existing err r1 w1 resp r2 err3 r3 w3.
      resourceServiceBusNamespaceAuthorizationRule_resourceId meta d = Inr rid
      \<and> (IsNewResource d \<longrightarrow>
           NamespacesClient.GetAuthorizationRule (Namespaces meta) (NamespaceAuthorizationRuleId.ResourceGroup rid)
          (NamespaceAuthorizationRuleId.NamespaceName rid)
          (NamespaceAuthorizationRuleId.AuthorizationRuleName rid) (remote w)
             = ((existing, err), r1)
           \<and> ResponseWasNotFound existing)
      \<and> w1 = (if IsNewResource d
              then logged w [Event NamespacesClient_GetAuthorizationRule err True] r1 else w)
      \<and> NamespacesClient.CreateOrUpdateAuthorizationRule (Namespaces meta) (NamespaceAuthorizationRuleId.ResourceGroup rid)
          (NamespaceAuthorizationRuleId.NamespaceName rid)
          (NamespaceAuthorizationRuleId.AuthorizationRuleName rid)
          \<lparr>SBAuthorizationRule.Name = Some (NamespaceAuthorizationRuleId.AuthorizationRuleName rid),
           SBAuthorizationRule.SBAuthorizationRuleProperties =
             Some \<lparr>Rights = expandAuthorizationRuleRights meta d\<rparr>\<rparr> (remote w1)
          = ((resp, None), r2)
      \<and> waitForPairedNamespaceReplication meta (NamespaceAuthorizationRuleId.ResourceGroup rid)
          (NamespaceAuthorizationRuleId.NamespaceName rid) (ResourceData.Timeout d ''update'') r2
          = (err3, r3)
      \<and> w3 = logged w1 [Event NamespacesClient_CreateOrUpdateAuthorizationRule None
                          (ResponseWasNotFound resp),
                        Event WaitForPairedNamespaceReplication err3 False] r3 \<longrightarrow>
      resourceServiceBusNamespaceAuthorizationRuleCreateUpdate meta d w =
        (case err3 of
           Some e \<Rightarrow>
             (Return (Some (Errorf
                ''waiting for replication to complete for Service Bus Namespace Disaster Recovery Configs (Namespace %q / Resource Group %q): %s''
                [ArgString (NamespaceAuthorizationRuleId.NamespaceName rid),
                 ArgString (NamespaceAuthorizationRuleId.ResourceGroup rid), ArgError (Some e)])),
              SetId d (NamespaceAuthorizationRuleId_ID (Parse meta) rid), w3)
         | None \<Rightarrow>
             resourceServiceBusNamespaceAuthorizationRuleRead meta
               (SetId d (NamespaceAuthorizationRuleId_ID (Parse meta) rid)) w3))
   \<and> (\<forall>rid resp e r1.
      parse_TopicAuthorizationRuleID (Parse meta) (Id d) = Inr rid
      \<and> TopicsClient.GetAuthorizationRule (Topics meta) (TopicAuthorizationRuleId.ResourceGroup rid)
          (TopicAuthorizationRuleId.NamespaceName rid)
          (TopicAuthorizationRuleId.TopicName rid)
          (TopicAuthorizationRuleId.AuthorizationRuleName rid) (remote w) = ((resp, Some e), r1) \<longrightarrow>
      resourceServiceBusTopicAuthorizationRuleRead meta d w =
        (if ResponseWasNotFound resp
         then (Return None, SetId d [],
               logged w [Event TopicsClient_GetAuthorizationRule (Some e) True] r1)
         else (Return (Some (Errorf ''retrieving %s: %+v''
                               [argTopicAuthorizationRuleId rid, ArgError (Some e)])),
               d, logged w [Event TopicsClient_GetAuthorizationRule (Some e) False] r1)))
   \<and> (\<forall>rid resp r1 keysResp e r2.
      parse_TopicAuthorizationRuleID (Parse meta) (Id d) = Inr rid
      \<and> TopicsClient.GetAuthorizationRule (Topics meta) (TopicAuthorizationRuleId.ResourceGroup rid)
          (TopicAuthorizationRuleId.NamespaceName rid)
          (TopicAuthorizationRuleId.TopicName rid)
          (TopicAuthorizationRuleId.AuthorizationRuleName rid) (remote w) = ((resp, None), r1)
      \<and> TopicsClient.ListKeys (Topics meta) (TopicAuthorizationRuleId.ResourceGroup rid)
          (TopicAuthorizationRuleId.NamespaceName rid)
          (TopicAuthorizationRuleId.TopicName rid)
          (TopicAuthorizationRuleId.AuthorizationRuleName rid) r1 = ((keysResp, Some e), r2) \<longrightarrow>
      (\<exists>d'. resourceServiceBusTopicAuthorizationRuleRead meta d w =
        (Return (Some (Errorf ''listing keys for %s: %+v''
                         [argTopicAuthorizationRuleId rid, ArgError (Some e)])),
         d', logged w [Event TopicsClient_GetAuthorizationRule None (ResponseWasNotFound resp),
                       Event TopicsClient_ListKeys (Some e) (ResponseWasNotFound keysResp)] r2)
        \<and> Id d' = Id d))
   \<and> (\<forall>rid resp e r1.
      parse_TopicAuthorizationRuleID (Parse meta) (Id d) = Inr rid
      \<and> TopicsClient.DeleteAuthorizationRule (Topics meta) (TopicAuthorizationRuleId.ResourceGroup rid)
          (TopicAuthorizationRuleId.NamespaceName rid)
          (TopicAuthorizationRuleId.TopicName rid)
          (TopicAuthorizationRuleId.AuthorizationRuleName rid) (remote w)
          = ((resp, Some e), r1) \<longrightarrow>
      resourceServiceBusTopicAuthorizationRuleDelete meta d w =
        (Return (Some (Errorf ''deleting %s: %+v''
                         [argTopicAuthorizationRuleId rid, ArgError (Some e)])),
         d, logged w [Event TopicsClient_DeleteAuthorizationRule (Some e)
                        (ResponseWasNotFound resp)] r1))
   \<and> (\<forall>rid resp r1 e r2.
      parse_TopicAuthorizationRuleID (Parse meta) (Id d) = Inr rid
      \<and> TopicsClient.DeleteAuthorizationRule (Topics meta) (TopicAuthorizationRuleId.ResourceGroup rid)
          (TopicAuthorizationRuleId.NamespaceName rid)
          (TopicAuthorizationRuleId.TopicName rid)
          (TopicAuthorizationRuleId.AuthorizationRuleName rid) (remote w)
          = ((resp, None), r1)
      \<and> waitForPairedNamespaceReplication meta (TopicAuthorizationRuleId.ResourceGroup rid)
          (TopicAuthorizationRuleId.NamespaceName rid) (ResourceData.Timeout d ''update'') r1
          = (Some e, r2) \<longrightarrow>
      resourceServiceBusTopicAuthorizationRuleDelete meta d w =
        (Return (Some (Errorf
           ''waiting for replication to complete for Service Bus Namespace Disaster Recovery Configs (Namespace %q / Resource Group %q): %s''
           [ArgString (TopicAuthorizationRuleId.NamespaceName rid),
            ArgString (TopicAuthorizationRuleId.ResourceGroup rid), ArgError (Some e)])),
         d, logged w [Event TopicsClient_DeleteAuthorizationRule None (ResponseWasNotFound resp),
                      Event WaitForPairedNamespaceReplication (Some e) False] r2))
   \<and> (\<forall>rid existing e r1.
      resourceServiceBusTopicAuthorizationRule_resourceId meta d = Inr rid
      \<and> IsNewResource d
      \<and> TopicsClient.GetAuthorizationRule (Topics meta) (TopicAuthorizationRuleId.ResourceGroup rid)
          (TopicAuthorizationRuleId.NamespaceName rid)
          (TopicAuthorizationRuleId.TopicName rid)
          (TopicAuthorizationRuleId.AuthorizationRuleName rid) (remote w)
          = ((existing, Some e), r1)
      \<and> \<not> ResponseWasNotFound existing \<longrightarrow>
      resourceServiceBusTopicAuthorizationRuleCreateUpdate meta d w =
        (Return (Some (Errorf ''checking for presence of existing %s: %+v''
                         [argTopicAuthorizationRuleId rid, ArgError (Some e)])),
         d, logged w [Event TopicsClient_GetAuthorizationRule (Some e) False] r1))
   \<and> (\<forall>rid existing err r1 w1 resp e r2.
      resourceServiceBusTopicAuthorizationRule_resourceId meta d = Inr rid
      \<and> (IsNewResource d \<longrightarrow>
           TopicsClient.GetAuthorizationRule (Topics meta) (TopicAuthorizationRuleId.ResourceGroup rid)
          (TopicAuthorizationRuleId.NamespaceName rid)
          (TopicAuthorizationRuleId.TopicName rid)
          (TopicAuthorizationRuleId.AuthorizationRuleName rid) (remote w)
             = ((existing, err), r1)
           \<and> ResponseWasNotFound existing)
      \<and> w1 = (if IsNewResource d
              then logged w [Event TopicsClient_GetAuthorizationRule err True] r1 else w)
      \<and> TopicsClient.CreateOrUpdateAuthorizationRule (Topics meta) (TopicAuthorizationRuleId.ResourceGroup rid)
          (TopicAuthorizationRuleId.NamespaceName rid)
          (TopicAuthorizationRuleId.TopicName rid)
          (TopicAuthorizationRuleId.AuthorizationRuleName rid)
          \<lparr>SBAuthorizationRule.Name = Some (TopicAuthorizationRuleId.AuthorizationRuleName rid),
           SBAuthorizationRule.SBAuthorizationRuleProperties =
             Some \<lparr>Rights = expandAuthorizationRuleRights meta d\<rparr>\<rparr> (remote w1)
          = ((resp, Some e), r2) \<longrightarrow>
      resourceServiceBusTopicAuthorizationRuleCreateUpdate meta d w =
        (Return (Some (Errorf ''creating/updating %s: %+v''
                         [argTopicAuthorizationRuleId rid, ArgError (Some e)])),
         d, logged w1 [Event TopicsClient_CreateOrUpdateAuthorizationRule (Some e)
                         (ResponseWasNotFound resp)] r2))
   \<and> (\<forall>rid existing err r1 w1 resp r2 err3 r3 w3.
      resourceServiceBusTopicAuthorizationRule_resourceId meta d = Inr rid
      \<and> (IsNewResource d \<longrightarrow>
           TopicsClient.GetAuthorizationRule (Topics meta) (TopicAuthorizationRuleId.ResourceGroup rid)
          (TopicAuthorizationRuleId.NamespaceName rid)
          (TopicAuthorizationRuleId.TopicName rid)
          (TopicAuthorizationRuleId.AuthorizationRuleName rid) (remote w)
             = ((existing, err), r1)
           \<and> ResponseWasNotFound existing)
      \<and> w1 = (if IsNewResource d
              then logged w [Event TopicsClient_GetAuthorizationRule err True] r1 else w)
      \<and> TopicsClient.CreateOrUpdateAuthorizationRule (Topics meta) (TopicAuthorizationRuleId.ResourceGroup rid)
          (TopicAuthorizationRuleId.NamespaceName rid)
          (TopicAuthorizationRuleId.TopicName rid)
          (TopicAuthorizationRuleId.AuthorizationRuleName rid)
          \<lparr>SBAuthorizationRule.Name = Some (TopicAuthorizationRuleId.AuthorizationRuleName rid),
           SBAuthorizationRule.SBAuthorizationRuleProperties =
             Some \<lparr>Rights = expandAuthorizationRuleRights meta d\<rparr>\<rparr> (remote w1)
          = ((resp, None), r2)
      \<and> waitForPairedNamespaceReplication meta (TopicAuthorizationRuleId.ResourceGroup rid)
          (TopicAuthorizationRuleId.NamespaceName rid) (ResourceData.Timeout d ''update'') r2
          = (err3, r3)
      \<and> w3 = logged w1 [Event TopicsClient_CreateOrUpdateAuthorizationRule None
                          (ResponseWasNotFound resp),
                        Event WaitForPairedNamespaceReplication err3 False] r3 \<longrightarrow>
      resourceServiceBusTopicAuthorizationRuleCreateUpdate meta d w =
        (case err3 of
           Some e \<Rightarrow>
             (Return (Some (Errorf
                ''waiting for replication to complete for Service Bus Namespace Disaster Recovery Configs (Namespace %q / Resource Group %q): %s''
                [ArgString (TopicAuthorizationRuleId.NamespaceName rid),
                 ArgString (TopicAuthorizationRuleId.ResourceGroup rid), ArgError (Some e)])),
              SetId d (TopicAuthorizationRuleId_ID (Parse meta) rid), w3)
         | None \<Rightarrow>
             resourceServiceBusTopicAuthorizationRuleRead meta
               (SetId d (TopicAuthorizationRuleId_ID (Parse meta) rid)) w3))
   \<and> (\<forall>rid resp e r1.
      rid = NewClusterID cm (containers_meta.Account_SubscriptionId cm)
                (GetString d ''resource_group_name'') (GetString d ''name'')
      \<and> KubernetesClusters_Get cm (ClusterId.ResourceGroup rid) (ClusterId.ManagedClusterName rid)
          (remote w) = ((resp, Some e), r1) \<longrightarrow>
      dataSourceKubernetesClusterRead cm d w =
        (if ResponseWasNotFound resp
         then (Return (Some (Errorf ''%s was not found'' [argClusterId rid])),
               d, logged w [Event KubernetesClustersClient_Get (Some e) True] r1)
         else (Return (Some (Errorf ''retrieving %s: %+v'' [argClusterId rid, ArgError (Some e)])),
               d, logged w [Event KubernetesClustersClient_Get (Some e) False] r1)))
   \<and> (\<forall>rid resp r1 profile e r2.
      rid = NewClusterID cm (containers_meta.Account_SubscriptionId cm)
                (GetString d ''resource_group_name'') (GetString d ''name'')
      \<and> KubernetesClusters_Get cm (ClusterId.ResourceGroup rid) (ClusterId.ManagedClusterName rid)
          (remote w) = ((resp, None), r1)
      \<and> KubernetesClusters_GetAccessProfile cm (ClusterId.ResourceGroup rid)
          (ClusterId.ManagedClusterName rid) ''clusterUser'' r1 = ((profile, Some e), r2) \<longrightarrow>
      dataSourceKubernetesClusterRead cm d w =
        (Return (Some (Errorf ''retrieving Access Profile for %s: %+v''
                         [argClusterId rid, ArgError (Some e)])),
         d, logged w [Event KubernetesClustersClient_Get None (ResponseWasNotFound resp),
                      Event (KubernetesClustersClient_GetAccessProfile ''clusterUser'') (Some e)
                        (ResponseWasNotFound profile)] r2))
   \<and> (\<forall>rid resp r1 profile r2 props d2 d3 d4 adminProfile e r3.
      rid = NewClusterID cm (containers_meta.Account_SubscriptionId cm)
                (GetString d ''resource_group_name'') (GetString d ''name'')
      \<and> KubernetesClusters_Get cm (ClusterId.ResourceGroup rid) (ClusterId.ManagedClusterName rid)
          (remote w) = ((resp, None), r1)
      \<and> KubernetesClusters_GetAccessProfile cm (ClusterId.ResourceGroup rid)
          (ClusterId.ManagedClusterName rid) ''clusterUser'' r1 = ((profile, None), r2)
      \<and> ManagedClusterProperties (Body resp) = Some props
      \<and> d2 = d_SetAll (SetId d (ClusterId_ID cm rid))
               [(''name'', VStringPtr (ManagedCluster.Name (Body resp))),
                (''resource_group_name'', VString (ClusterId.ResourceGroup rid))]
      \<and> d3 = (case ManagedCluster.Location (Body resp) of
                None \<Rightarrow> d2
              | Some location \<Rightarrow> d_Set d2 ''location'' (VString (NormalizeLocation cm location)))
      \<and> setProperties cm d3 props = (None, d4)
      \<and> AadProfile props \<noteq> None
      \<and> (DisableLocalAccounts props = None \<or> DisableLocalAccounts props = Some False)
      \<and> KubernetesClusters_GetAccessProfile cm (ClusterId.ResourceGroup rid)
          (ClusterId.ManagedClusterName rid) ''clusterAdmin'' r2 = ((adminProfile, Some e), r3) \<longrightarrow>
      dataSourceKubernetesClusterRead cm d w =
        (Return (Some (Errorf ''retrieving Admin Access Profile for %s: %+v''
                         [argClusterId rid, ArgError (Some e)])),
         d4, logged w [Event KubernetesClustersClient_Get None (ResponseWasNotFound resp),
                       Event (KubernetesClustersClient_GetAccessProfile ''clusterUser'') None
                         (ResponseWasNotFound profile),
                       Event (KubernetesClustersClient_GetAccessProfile ''clusterAdmin'') (Some e)
                         (ResponseWasNotFound adminProfile)] r3))"
  apply (intro conjI allI impI errorsPassThroughInI; (elim conjE)?)
  apply (erule SubscriptionCreateUpdate_errors)
  apply (erule SubscriptionRead_errors)
  apply (erule SubscriptionDelete_errors)
  apply (erule NamespaceRuleCreateUpdate_errors)
  apply (erule NamespaceRuleRead_errors)
  apply (erule NamespaceRuleDelete_errors)
  apply (erule TopicRuleCreateUpdate_errors)
  apply (erule TopicRuleRead_errors)
  apply (erule TopicRuleDelete_errors)
  apply (erule KubernetesRead_errors)
  apply (rule SubscriptionRead_Get_fails; assumption)
  apply (rule SubscriptionDelete_Delete_fails; assumption)
  apply (rule SubscriptionCreate_check_fails; assumption)
  apply (rule SubscriptionCreate_CreateOrUpdate; assumption)
  apply (rule NamespaceRuleRead_Get_fails; assumption)
  apply (rule NamespaceRuleRead_ListKeys_fails; assumption)
  apply (rule NamespaceRuleDelete_Delete_fails; assumption)
  apply (rule NamespaceRuleDelete_wait_fails; assumption)
  apply (rule NamespaceRuleCreate_check_fails; assumption)
  apply (rule NamespaceRuleCreate_CreateOrUpdate_fails; assumption)
  apply (rule NamespaceRuleCreate_wait; assumption)
  apply (rule TopicRuleRead_Get_fails; assumption)
  apply (rule TopicRuleRead_ListKeys_fails; assumption)
  apply (rule TopicRuleDelete_Delete_fails; assumption)
  apply (rule TopicRuleDelete_wait_fails; assumption)
  apply (rule TopicRuleCreate_check_fails; assumption)
  apply (rule TopicRuleCreate_CreateOrUpdate_fails; assumption)
  apply (rule TopicRuleCreate_wait; assumption)
  apply (rule KubernetesRead_Get_fails; assumption)
  apply (rule KubernetesRead_GetAccessProfile_fails; assumption)
  apply (rule KubernetesRead_admin_GetAccessProfile_fails; assumption)
  done

text \<open>
  Claim C1 as it is stated fails: on the small remote side, where the subscription does
  not exist, the lookup of \<open>Read\<close> returns an error with a not-found response, and \<open>Read\<close>
  clears the ID and returns \<open>nil\<close>.
\<close>

theorem read_suppresses_not_found_error:
  "resourceServiceBusSubscriptionRead (demoServiceBus []) (demoData ''s/g/n/t/x'' False [])
     (demoWorld False)
   = (Return None, SetId (demoData ''s/g/n/t/x'' False []) [],
      \<lparr>remote = False,
       trace = [Event SubscriptionsClient_Get (Some (SdkError ''404'')) True]\<rparr>)
   \<and> \<not> everyErrorReturned (Return None)
         [Event SubscriptionsClient_Get (Some (SdkError ''404'')) True]"
  by (simp add: resourceServiceBusSubscriptionRead_def demo_defs)

text \<open>
  The theorem on the small remote side: where the lookup of \<open>Read\<close> fails with an error
  that is not a not-found, \<open>Read\<close> makes that one call and returns the error inside
  \<open>retrieving %s: %+v\<close>; where the subscription does not exist, a create on a new resource
  goes on after the not-found, and when \<open>CreateOrUpdate\<close> then fails, that error is returned
  and nothing more is called.
\<close>

theorem sdk_errors_pass_through_witness:
  "resourceServiceBusSubscriptionRead (demoServiceBus [SubscriptionsClient_Get])
       (demoData ''s/g/n/t/x'' False []) (demoWorld True)
     = (Return (Some (Errorf ''retrieving %s: %+v''
                        [ArgId [''s'', ''g'', ''n'', ''t'', ''x''],
                         ArgError (Some (SdkError ''500''))])),
        demoData ''s/g/n/t/x'' False [],
        \<lparr>remote = True,
         trace = [Event SubscriptionsClient_Get (Some (SdkError ''500'')) False]\<rparr>)
   \<and> resourceServiceBusSubscriptionCreateUpdate
       (demoServiceBus [SubscriptionsClient_CreateOrUpdate])
       (demoData [] True [(''topic_id'', VString ''s/g/n/t''), (''name'', VString ''x'')])
       (demoWorld False)
     = (Return (Some (Errorf ''creating/updating %s: %v''
                        [ArgId [''s'', ''g'', ''n'', ''t'', ''x''],
                         ArgError (Some (SdkError ''500''))])),
        demoData [] True [(''topic_id'', VString ''s/g/n/t''), (''name'', VString ''x'')],
        \<lparr>remote = False,
         trace = [Event SubscriptionsClient_Get (Some (SdkError ''404'')) True,
                  Event SubscriptionsClient_CreateOrUpdate (Some (SdkError ''500'')) False]\<rparr>)
   \<and> errorsPassThroughIn
       (resourceServiceBusSubscriptionRead (demoServiceBus [SubscriptionsClient_Get]))
       (demoData ''s/g/n/t/x'' False []) (demoWorld True)"
proof -
  let ?rid = "\<lparr>SubscriptionId.SubscriptionId = ''s'', SubscriptionId.ResourceGroup = ''g'',
            SubscriptionId.NamespaceName = ''n'', SubscriptionId.TopicName = ''t'',
            SubscriptionId.Name = ''x''\<rparr>"
  let ?dc = "demoData [] True [(''topic_id'', VString ''s/g/n/t''), (''name'', VString ''x'')]"
  note t1 = sdk_errors_pass_through
      [where meta = "demoServiceBus [SubscriptionsClient_Get]"
         and d = "demoData ''s/g/n/t/x'' False []" and w = "demoWorld True"
         and cm = "demoContainers []", THEN conjunct2, THEN conjunct1, rule_format,
       of ?rid "\<lparr>ResponseWasNotFound = False, Body = demoSubscription\<rparr>" "SdkError ''500''"
          True]
  note t2 = sdk_errors_pass_through
      [where meta = "demoServiceBus [SubscriptionsClient_CreateOrUpdate]"
         and d = ?dc and w = "demoWorld False"
         and cm = "demoContainers []",
       THEN conjunct2, THEN conjunct2, THEN conjunct2, THEN conjunct2, THEN conjunct1,
       rule_format,
       of ?rid "\<lparr>ResponseWasNotFound = True, Body = demoSubscription\<rparr>"
          "Some (SdkError ''404'')" False
          "\<lparr>remote = False,
            trace = [Event SubscriptionsClient_Get (Some (SdkError ''404'')) True]\<rparr>"
          "\<lparr>ResponseWasNotFound = False,
            Body = resourceServiceBusSubscription_parameters ?dc\<rparr>"
          "Some (SdkError ''500'')" False]
  have c1: "resourceServiceBusSubscriptionRead (demoServiceBus [SubscriptionsClient_Get])
       (demoData ''s/g/n/t/x'' False []) (demoWorld True)
     = (Return (Some (Errorf ''retrieving %s: %+v''
                        [ArgId [''s'', ''g'', ''n'', ''t'', ''x''],
                         ArgError (Some (SdkError ''500''))])),
        demoData ''s/g/n/t/x'' False [],
        \<lparr>remote = True,
         trace = [Event SubscriptionsClient_Get (Some (SdkError ''500'')) False]\<rparr>)"
    by (rule t1[THEN trans]) (simp_all add: demo_defs argSubscriptionId_def)
  have c2: "resourceServiceBusSubscriptionCreateUpdate
       (demoServiceBus [SubscriptionsClient_CreateOrUpdate]) ?dc (demoWorld False)
     = (Return (Some (Errorf ''creating/updating %s: %v''
                        [ArgId [''s'', ''g'', ''n'', ''t'', ''x''],
                         ArgError (Some (SdkError ''500''))])),
        ?dc,
        \<lparr>remote = False,
         trace = [Event SubscriptionsClient_Get (Some (SdkError ''404'')) True,
                  Event SubscriptionsClient_CreateOrUpdate (Some (SdkError ''500'')) False]\<rparr>)"
    by (rule t2[THEN trans])
       (simp_all add: resourceServiceBusSubscription_resourceId_def demo_defs GetString_def
          argSubscriptionId_def)
  have c3: "errorsPassThroughIn
      (resourceServiceBusSubscriptionRead (demoServiceBus [SubscriptionsClient_Get]))
      (demoData ''s/g/n/t/x'' False []) (demoWorld True)"
    by (rule sdk_errors_pass_through
          [where meta = "demoServiceBus [SubscriptionsClient_Get]"
             and d = "demoData ''s/g/n/t/x'' False []" and w = "demoWorld True"
             and cm = "demoContainers []", THEN conjunct1, THEN conjunct2, THEN conjunct1])
  from c1 c2 c3 show ?thesis by (intro conjI)
qed

section \<open>Registration: importers and timeouts\<close>

text \<open>
  Claim C4. Each of the three ServiceBus resources registers an importer whose validation
  function accepts an ID exactly when the \<open>parse\<close> function of the resource returns no error
  on it; and that is the function with which \<open>Read\<close> and \<open>Delete\<close> start: on an ID that the
  importer rejects, both return the importer's error, with the resource data and the world
  as they were (no SDK call is made).
\<close>

theorem importer_accepts_iff_parser_accepts:
  "(\<exists>validate.
      Resource.Importer (resourceServiceBusSubscription meta) = Some validate
      \<and> (validate v = None \<longleftrightarrow> (\<exists>rid. parse_SubscriptionID (Parse meta) v = Inr rid))
      \<and> (\<forall>err d w. validate (Id d) = Some err \<longrightarrow>
            the (Resource.Read (resourceServiceBusSubscription meta)) d w = (Return (Some err), d, w)
          \<and> the (Resource.Delete (resourceServiceBusSubscription meta)) d w
               = (Return (Some err), d, w)))
   \<and> (\<exists>validate.
      Resource.Importer (resourceServiceBusNamespaceAuthorizationRule meta) = Some validate
      \<and> (validate v = None \<longleftrightarrow>
            (\<exists>rid. parse_NamespaceAuthorizationRuleID (Parse meta) v = Inr rid))
      \<and> (\<forall>err d w. validate (Id d) = Some err \<longrightarrow>
            the (Resource.Read (resourceServiceBusNamespaceAuthorizationRule meta)) d w
              = (Return (Some err), d, w)
          \<and> the (Resource.Delete (resourceServiceBusNamespaceAuthorizationRule meta)) d w
              = (Return (Some err), d, w)))
   \<and> (\<exists>validate.
      Resource.Importer (resourceServiceBusTopicAuthorizationRule meta) = Some validate
      \<and> (validate v = None \<longleftrightarrow>
            (\<exists>rid. parse_TopicAuthorizationRuleID (Parse meta) v = Inr rid))
      \<and> (\<forall>err d w. validate (Id d) = Some err \<longrightarrow>
            the (Resource.Read (resourceServiceBusTopicAuthorizationRule meta)) d w
              = (Return (Some err), d, w)
          \<and> the (Resource.Delete (resourceServiceBusTopicAuthorizationRule meta)) d w
              = (Return (Some err), d, w)))"
proof (intro conjI)
  show "\<exists>validate.
      Resource.Importer (resourceServiceBusSubscription meta) = Some validate
      \<and> (validate v = None \<longleftrightarrow> (\<exists>rid. parse_SubscriptionID (Parse meta) v = Inr rid))
      \<and> (\<forall>err d w. validate (Id d) = Some err \<longrightarrow>
            the (Resource.Read (resourceServiceBusSubscription meta)) d w = (Return (Some err), d, w)
          \<and> the (Resource.Delete (resourceServiceBusSubscription meta)) d w
               = (Return (Some err), d, w))"
    by (auto simp: resourceServiceBusSubscription_def resourceServiceBusSubscriptionRead_def
          resourceServiceBusSubscriptionDelete_def split: sum.splits)
  show "\<exists>validate.
      Resource.Importer (resourceServiceBusNamespaceAuthorizationRule meta) = Some validate
      \<and> (validate v = None \<longleftrightarrow>
            (\<exists>rid. parse_NamespaceAuthorizationRuleID (Parse meta) v = Inr rid))
      \<and> (\<forall>err d w. validate (Id d) = Some err \<longrightarrow>
            the (Resource.Read (resourceServiceBusNamespaceAuthorizationRule meta)) d w
              = (Return (Some err), d, w)
          \<and> the (Resource.Delete (resourceServiceBusNamespaceAuthorizationRule meta)) d w
              = (Return (Some err), d, w))"
    by (auto simp: resourceServiceBusNamespaceAuthorizationRule_def
          resourceServiceBusNamespaceAuthorizationRuleRead_def
          resourceServiceBusNamespaceAuthorizationRuleDelete_def split: sum.splits)
  show "\<exists>validate.
      Resource.Importer (resourceServiceBusTopicAuthorizationRule meta) = Some validate
      \<and> (validate v = None \<longleftrightarrow>
            (\<exists>rid. parse_TopicAuthorizationRuleID (Parse meta) v = Inr rid))
      \<and> (\<forall>err d w. validate (Id d) = Some err \<longrightarrow>
            the (Resource.Read (resourceServiceBusTopicAuthorizationRule meta)) d w
              = (Return (Some err), d, w)
          \<and> the (Resource.Delete (resourceServiceBusTopicAuthorizationRule meta)) d w
              = (Return (Some err), d, w))"
    by (auto simp: resourceServiceBusTopicAuthorizationRule_def
          resourceServiceBusTopicAuthorizationRuleRead_def
          resourceServiceBusTopicAuthorizationRuleDelete_def split: sum.splits)
qed

text \<open>
  The theorem on the small remote side: the importer of the subscription resource rejects
  \<open>not-an-id\<close>, as the parser does, and \<open>Read\<close> on a state with that ID returns the same
  error; it accepts \<open>s/g/n/t/x\<close>.
\<close>

theorem importer_accepts_iff_parser_accepts_witness:
  "(\<exists>validate.
      Resource.Importer (resourceServiceBusSubscription (demoServiceBus [])) = Some validate
      \<and> validate ''not-an-id'' = Some (SdkError ''not a subscription ID'')
      \<and> validate ''s/g/n/t/x'' = None
      \<and> the (Resource.Read (resourceServiceBusSubscription (demoServiceBus [])))
           (demoData ''not-an-id'' False []) (demoWorld True)
         = (Return (Some (SdkError ''not a subscription ID'')),
            demoData ''not-an-id'' False [], demoWorld True))"
proof -
  let ?m = "demoServiceBus []"
  have "\<exists>validate.
      Resource.Importer (resourceServiceBusSubscription ?m) = Some validate
      \<and> (validate ''s/g/n/t/x'' = None \<longleftrightarrow>
            (\<exists>rid. parse_SubscriptionID (Parse ?m) ''s/g/n/t/x'' = Inr rid))
      \<and> (\<forall>err d w. validate (Id d) = Some err \<longrightarrow>
            the (Resource.Read (resourceServiceBusSubscription ?m)) d w = (Return (Some err), d, w)
          \<and> the (Resource.Delete (resourceServiceBusSubscription ?m)) d w
               = (Return (Some err), d, w))"
    using importer_accepts_iff_parser_accepts[of ?m "''s/g/n/t/x''"] by (rule conjunct1)
  then obtain validate where
    v: "Resource.Importer (resourceServiceBusSubscription ?m) = Some validate"
    and ok: "validate ''s/g/n/t/x'' = None \<longleftrightarrow>
               (\<exists>rid. parse_SubscriptionID (Parse ?m) ''s/g/n/t/x'' = Inr rid)"
    and rd: "\<forall>err d w. validate (Id d) = Some err \<longrightarrow>
            the (Resource.Read (resourceServiceBusSubscription ?m)) d w = (Return (Some err), d, w)
          \<and> the (Resource.Delete (resourceServiceBusSubscription ?m)) d w
               = (Return (Some err), d, w)"
    by (elim exE conjE)
  have p1: "\<exists>rid. parse_SubscriptionID (Parse ?m) ''s/g/n/t/x'' = Inr rid"
    by (simp add: demoServiceBus_def demoParse_def)
  have bad: "validate ''not-an-id'' = Some (SdkError ''not a subscription ID'')"
    using v by (auto simp: resourceServiceBusSubscription_def demoServiceBus_def demoParse_def)
  have "Id (demoData ''not-an-id'' False []) = ''not-an-id''"
    by (simp add: demoData_def)
  with rd bad have "the (Resource.Read (resourceServiceBusSubscription ?m))
           (demoData ''not-an-id'' False []) (demoWorld True)
         = (Return (Some (SdkError ''not a subscription ID'')),
            demoData ''not-an-id'' False [], demoWorld True)"
    by metis
  with v ok p1 bad show ?thesis by blast
qed

text \<open>
  Claim C5. The three ServiceBus resources and the containerized Linux Function App register
  the same default timeouts: 30 minutes for create, 5 for read, 30 for update and 30 for
  delete; for the Function App these are the defaults that its documentation states. (The
  data source of the Kubernetes cluster is not a resource: it registers a read timeout
  only, of 5 minutes.)
\<close>

theorem default_timeouts:
  "Resource.Timeouts (resourceServiceBusSubscription meta) =
     \<lparr>ResourceTimeout.Create = Some (30 * Minute), ResourceTimeout.Read = Some (5 * Minute),
      ResourceTimeout.Update = Some (30 * Minute), ResourceTimeout.Delete = Some (30 * Minute)\<rparr>
   \<and> Resource.Timeouts (resourceServiceBusNamespaceAuthorizationRule meta) =
     \<lparr>ResourceTimeout.Create = Some (30 * Minute), ResourceTimeout.Read = Some (5 * Minute),
      ResourceTimeout.Update = Some (30 * Minute), ResourceTimeout.Delete = Some (30 * Minute)\<rparr>
   \<and> Resource.Timeouts (resourceServiceBusTopicAuthorizationRule meta) =
     \<lparr>ResourceTimeout.Create = Some (30 * Minute), ResourceTimeout.Read = Some (5 * Minute),
      ResourceTimeout.Update = Some (30 * Minute), ResourceTimeout.Delete = Some (30 * Minute)\<rparr>
   \<and> ResourceFunc.Timeout (LinuxFunctionAppOnContainerResource_Create am) = 30 * Minute
   \<and> ResourceFunc.Timeout (LinuxFunctionAppOnContainerResource_Read am) = 5 * Minute
   \<and> ResourceFunc.Timeout (LinuxFunctionAppOnContainerResource_Update am) = 30 * Minute
   \<and> ResourceFunc.Timeout (LinuxFunctionAppOnContainerResource_Delete am) = 30 * Minute
   \<and> map_option (\<lambda>m. m * Minute) (documentedTimeoutMinutes ''create'') =
       Some (ResourceFunc.Timeout (LinuxFunctionAppOnContainerResource_Create am))
   \<and> map_option (\<lambda>m. m * Minute) (documentedTimeoutMinutes ''read'') =
       Some (ResourceFunc.Timeout (LinuxFunctionAppOnContainerResource_Read am))
   \<and> map_option (\<lambda>m. m * Minute) (documentedTimeoutMinutes ''update'') =
       Some (ResourceFunc.Timeout (LinuxFunctionAppOnContainerResource_Update am))
   \<and> map_option (\<lambda>m. m * Minute) (documentedTimeoutMinutes ''delete'') =
       Some (ResourceFunc.Timeout (LinuxFunctionAppOnContainerResource_Delete am))
   \<and> Resource.Timeouts (dataSourceKubernetesCluster cm) =
     \<lparr>ResourceTimeout.Create = None, ResourceTimeout.Read = Some (5 * Minute),
      ResourceTimeout.Update = None, ResourceTimeout.Delete = None\<rparr>
   \<and> 30 * Minute = 1800000000000 \<and> 5 * Minute = 300000000000"
  by (simp add: resourceServiceBusSubscription_def
        resourceServiceBusNamespaceAuthorizationRule_def
        resourceServiceBusTopicAuthorizationRule_def
        LinuxFunctionAppOnContainerResource_Create_def
        LinuxFunctionAppOnContainerResource_Read_def
        LinuxFunctionAppOnContainerResource_Update_def
        LinuxFunctionAppOnContainerResource_Delete_def
        dataSourceKubernetesCluster_def documentedTimeoutMinutes_def DefaultTimeout_def
        Minute_def)

section \<open>The ID stored by a create\<close>

text \<open>
  \<open>CreateUpdate\<close> ends in \<open>Read\<close>, which parses the ID that was just stored and returns
  the error of the parser. So a create that returns \<open>nil\<close> has stored an ID that the parser
  of \<open>Read\<close> and \<open>Delete\<close> accepts. What the parser gives for it is decided by the
  package \<open>parse\<close>.
\<close>

lemma SubscriptionCreate_stored_id_parses:
  "resourceServiceBusSubscriptionCreateUpdate meta d w = (Return None, d', w') \<Longrightarrow>
   \<exists>resourceId rid. resourceServiceBusSubscription_resourceId meta d = Inr resourceId
      \<and> parse_SubscriptionID (Parse meta) (SubscriptionId_ID (Parse meta) resourceId) = Inr rid"
  by (auto simp: resourceServiceBusSubscriptionCreateUpdate_def
         resourceServiceBusSubscriptionRead_def SetId_def
           split: sum.splits prod.splits option.splits)

lemma NamespaceRuleCreate_stored_id_parses:
  "resourceServiceBusNamespaceAuthorizationRuleCreateUpdate meta d w = (Return None, d', w') \<Longrightarrow>
   \<exists>resourceId rid. resourceServiceBusNamespaceAuthorizationRule_resourceId meta d = Inr resourceId
      \<and> parse_NamespaceAuthorizationRuleID (Parse meta)
           (NamespaceAuthorizationRuleId_ID (Parse meta) resourceId) = Inr rid"
  by (auto simp: resourceServiceBusNamespaceAuthorizationRuleCreateUpdate_def
         resourceServiceBusNamespaceAuthorizationRuleRead_def SetId_def Let_def
           split: sum.splits prod.splits option.splits)

lemma TopicRuleCreate_stored_id_parses:
  "resourceServiceBusTopicAuthorizationRuleCreateUpdate meta d w = (Return None, d', w') \<Longrightarrow>
   \<exists>resourceId rid. resourceServiceBusTopicAuthorizationRule_resourceId meta d = Inr resourceId
      \<and> parse_TopicAuthorizationRuleID (Parse meta)
           (TopicAuthorizationRuleId_ID (Parse meta) resourceId) = Inr rid"
  by (auto simp: resourceServiceBusTopicAuthorizationRuleCreateUpdate_def
         resourceServiceBusTopicAuthorizationRuleRead_def SetId_def Let_def
           split: sum.splits prod.splits option.splits)

section \<open>Waiting for long-running operations\<close>

lemma Create_Func_waits:
  "Create_Func am d w = (res, d', w') \<Longrightarrow>
   (res = Return None \<longrightarrow> Event Future_WaitForCompletionRef None False \<in> set (since w w'))
   \<and> (\<forall>e. Event Future_WaitForCompletionRef (Some e) False \<in> set (since w w') \<longrightarrow>
         (\<exists>e'. res = Return (Some e') \<and> wraps e' e))"
  by (auto simp: Create_Func_def Create_afterCheck_def Create_submit_def perform_def
        performWait_def Let_def
      split: sum.splits prod.splits option.splits if_splits list.splits)

lemma Update_Func_waits:
  "Update_Func am d w = (res, d', w') \<Longrightarrow>
   (res = Return None \<longrightarrow> Event Future_WaitForCompletionRef None False \<in> set (since w w'))
   \<and> (\<forall>e. Event Future_WaitForCompletionRef (Some e) False \<in> set (since w w') \<longrightarrow>
         (\<exists>e'. res = Return (Some e') \<and> wraps e' e))"
  by (auto simp: Update_Func_def Update_apply_def perform_def performWait_def Let_def
      split: sum.splits prod.splits option.splits if_splits list.splits)

lemma NamespaceRuleCreateUpdate_waits:
  "resourceServiceBusNamespaceAuthorizationRuleCreateUpdate meta d w = (res, d', w') \<Longrightarrow>
   (res = Return None \<longrightarrow> Event WaitForPairedNamespaceReplication None False \<in> set (since w w'))
   \<and> (\<forall>e. Event WaitForPairedNamespaceReplication (Some e) False \<in> set (since w w') \<longrightarrow>
         (\<exists>e'. res = Return (Some e') \<and> wraps e' e))"
  by (auto simp: resourceServiceBusNamespaceAuthorizationRuleCreateUpdate_def
         resourceServiceBusNamespaceAuthorizationRule_checkExisting_def
         resourceServiceBusNamespaceAuthorizationRuleRead_def perform_def performWait_def Let_def
           split: sum.splits prod.splits option.splits if_splits)

lemma NamespaceRuleDelete_waits:
  "resourceServiceBusNamespaceAuthorizationRuleDelete meta d w = (res, d', w') \<Longrightarrow>
   (res = Return None \<longrightarrow> Event WaitForPairedNamespaceReplication None False \<in> set (since w w'))
   \<and> (\<forall>e. Event WaitForPairedNamespaceReplication (Some e) False \<in> set (since w w') \<longrightarrow>
         (\<exists>e'. res = Return (Some e') \<and> wraps e' e))"
  by (auto simp: resourceServiceBusNamespaceAuthorizationRuleDelete_def perform_def
         performWait_def
           split: sum.splits prod.splits option.splits if_splits)

lemma TopicRuleCreateUpdate_waits:
  "resourceServiceBusTopicAuthorizationRuleCreateUpdate meta d w = (res, d', w') \<Longrightarrow>
   (res = Return None \<longrightarrow> Event WaitForPairedNamespaceReplication None False \<in> set (since w w'))
   \<and> (\<forall>e. Event WaitForPairedNamespaceReplication (Some e) False \<in> set (since w w') \<longrightarrow>
         (\<exists>e'. res = Return (Some e') \<and> wraps e' e))"
  by (auto simp: resourceServiceBusTopicAuthorizationRuleCreateUpdate_def
         resourceServiceBusTopicAuthorizationRule_checkExisting_def
         resourceServiceBusTopicAuthorizationRuleRead_def perform_def performWait_def Let_def
           split: sum.splits prod.splits option.splits if_splits)

lemma TopicRuleDelete_waits:
  "resourceServiceBusTopicAuthorizationRuleDelete meta d w = (res, d', w') \<Longrightarrow>
   (res = Return None \<longrightarrow> Event WaitForPairedNamespaceReplication None False \<in> set (since w w'))
   \<and> (\<forall>e. Event WaitForPairedNamespaceReplication (Some e) False \<in> set (since w w') \<longrightarrow>
         (\<exists>e'. res = Return (Some e') \<and> wraps e' e))"
  by (auto simp: resourceServiceBusTopicAuthorizationRuleDelete_def perform_def
         performWait_def
           split: sum.splits prod.splits option.splits if_splits)

text \<open>
  Claim C7. The create and the update function of the containerized Linux Function App
  return \<open>nil\<close> only in runs in which \<open>WaitForCompletionRef\<close> of the future was called and
  returned \<open>nil\<close>; the create/update and the delete handler of the namespace and of the topic
  authorization rule return \<open>nil\<close> only in runs in which
  \<open>waitForPairedNamespaceReplication\<close> was called and returned \<open>nil\<close>. In a run in which the
  wait returned an error, the handler returns an error made by \<open>fmt.Errorf\<close> from it.
\<close>

theorem success_only_after_wait:
  "(Create_Func am d w = (res, d', w') \<longrightarrow>
      (res = Return None \<longrightarrow> Event Future_WaitForCompletionRef None False \<in> set (since w w'))
      \<and> (\<forall>e. Event Future_WaitForCompletionRef (Some e) False \<in> set (since w w') \<longrightarrow>
            (\<exists>e'. res = Return (Some e') \<and> wraps e' e)))
   \<and> (Update_Func am d w = (res, d', w') \<longrightarrow>
      (res = Return None \<longrightarrow> Event Future_WaitForCompletionRef None False \<in> set (since w w'))
      \<and> (\<forall>e. Event Future_WaitForCompletionRef (Some e) False \<in> set (since w w') \<longrightarrow>
            (\<exists>e'. res = Return (Some e') \<and> wraps e' e)))
   \<and> (resourceServiceBusNamespaceAuthorizationRuleCreateUpdate meta d w = (res, d', w') \<longrightarrow>
      (res = Return None \<longrightarrow>
         Event WaitForPairedNamespaceReplication None False \<in> set (since w w'))
      \<and> (\<forall>e. Event WaitForPairedNamespaceReplication (Some e) False \<in> set (since w w') \<longrightarrow>
            (\<exists>e'. res = Return (Some e') \<and> wraps e' e)))
   \<and> (resourceServiceBusNamespaceAuthorizationRuleDelete meta d w = (res, d', w') \<longrightarrow>
      (res = Return None \<longrightarrow>
         Event WaitForPairedNamespaceReplication None False \<in> set (since w w'))
      \<and> (\<forall>e. Event WaitForPairedNamespaceReplication (Some e) False \<in> set (since w w') \<longrightarrow>
            (\<exists>e'. res = Return (Some e') \<and> wraps e' e)))
   \<and> (resourceServiceBusTopicAuthorizationRuleCreateUpdate meta d w = (res, d', w') \<longrightarrow>
      (res = Return None \<longrightarrow>
         Event WaitForPairedNamespaceReplication None False \<in> set (since w w'))
      \<and> (\<forall>e. Event WaitForPairedNamespaceReplication (Some e) False \<in> set (since w w') \<longrightarrow>
            (\<exists>e'. res = Return (Some e') \<and> wraps e' e)))
   \<and> (resourceServiceBusTopicAuthorizationRuleDelete meta d w = (res, d', w') \<longrightarrow>
      (res = Return None \<longrightarrow>
         Event WaitForPairedNamespaceReplication None False \<in> set (since w w'))
      \<and> (\<forall>e. Event WaitForPairedNamespaceReplication (Some e) False \<in> set (since w w') \<longrightarrow>
            (\<exists>e'. res = Return (Some e') \<and> wraps e' e)))"
  using Create_Func_waits[of am d w res d' w'] Update_Func_waits[of am d w res d' w']
    NamespaceRuleCreateUpdate_waits[of meta d w res d' w']
    NamespaceRuleDelete_waits[of meta d w res d' w']
    TopicRuleCreateUpdate_waits[of meta d w res d' w']
    TopicRuleDelete_waits[of meta d w res d' w']
  by blast

lemma demo_namespace_delete_wait_fails:
  "resourceServiceBusNamespaceAuthorizationRuleDelete
     (demoServiceBus [WaitForPairedNamespaceReplication]) (demoData ''s/g/n/r'' False [])
     (demoWorld True)
   = (Return (Some (Errorf
        ''waiting for replication to complete for Service Bus Namespace Disaster Recovery Configs (Namespace %q / Resource Group %q): %s''
        [ArgString ''n'', ArgString ''g'', ArgError (Some (SdkError ''timeout''))])),
      demoData ''s/g/n/r'' False [],
      \<lparr>remote = False,
       trace = [Event NamespacesClient_DeleteAuthorizationRule None False,
                Event WaitForPairedNamespaceReplication (Some (SdkError ''timeout'')) False]\<rparr>)"
  by (simp add: resourceServiceBusNamespaceAuthorizationRuleDelete_def demo_defs)

lemma demo_namespace_delete_succeeds:
  "resourceServiceBusNamespaceAuthorizationRuleDelete (demoServiceBus [])
     (demoData ''s/g/n/r'' False []) (demoWorld True)
   = (Return None, demoData ''s/g/n/r'' False [],
      \<lparr>remote = False,
       trace = [Event NamespacesClient_DeleteAuthorizationRule None False,
                Event WaitForPairedNamespaceReplication None False]\<rparr>)"
  by (simp add: resourceServiceBusNamespaceAuthorizationRuleDelete_def demo_defs)

text \<open>
  The theorem on the small remote side: the delete handler of the namespace rule and the
  create function of the Function App return \<open>nil\<close> in runs that have waited, and the
  delete handler returns the error of a wait that fails.
\<close>

theorem success_only_after_wait_witness:
  "(\<exists>d' w'. resourceServiceBusNamespaceAuthorizationRuleDelete (demoServiceBus [])
       (demoData ''s/g/n/r'' False []) (demoWorld True) = (Return None, d', w')
     \<and> Event WaitForPairedNamespaceReplication None False \<in> set (since (demoWorld True) w'))
   \<and> (\<exists>res d' w'. resourceServiceBusNamespaceAuthorizationRuleDelete
       (demoServiceBus [WaitForPairedNamespaceReplication])
       (demoData ''s/g/n/r'' False []) (demoWorld True) = (res, d', w')
     \<and> Event WaitForPairedNamespaceReplication (Some (SdkError ''timeout'')) False
          \<in> set (since (demoWorld True) w')
     \<and> (\<exists>e'. res = Return (Some e') \<and> wraps e' (SdkError ''timeout'')))
   \<and> (\<exists>d' w'. Create_Func (demoAppService []) (demoData [] True []) (demoWorld False)
         = (Return None, d', w')
     \<and> Event Future_WaitForCompletionRef None False \<in> set (since (demoWorld False) w'))"
proof -
  obtain d1 w1 where r1: "resourceServiceBusNamespaceAuthorizationRuleDelete (demoServiceBus [])
       (demoData ''s/g/n/r'' False []) (demoWorld True) = (Return None, d1, w1)"
    using demo_namespace_delete_succeeds by blast
  obtain res2 d2 w2 where r2: "resourceServiceBusNamespaceAuthorizationRuleDelete
       (demoServiceBus [WaitForPairedNamespaceReplication])
       (demoData ''s/g/n/r'' False []) (demoWorld True) = (res2, d2, w2)"
    and ev2: "Event WaitForPairedNamespaceReplication (Some (SdkError ''timeout'')) False
          \<in> set (since (demoWorld True) w2)"
    using demo_namespace_delete_wait_fails by (simp add: since_def demoWorld_def)
  obtain d3 w3 where r3: "Create_Func (demoAppService []) (demoData [] True [])
       (demoWorld False) = (Return None, d3, w3)"
    using demo_create_function_app by blast
  note t1 = success_only_after_wait
      [where meta = "demoServiceBus []" and d = "demoData ''s/g/n/r'' False []"
         and w = "demoWorld True" and res = "Return None" and d' = d1 and w' = w1
         and am = "demoAppService []",
       THEN conjunct2, THEN conjunct2, THEN conjunct2, THEN conjunct1]
  note t2 = success_only_after_wait
      [where meta = "demoServiceBus [WaitForPairedNamespaceReplication]"
         and d = "demoData ''s/g/n/r'' False []"
         and w = "demoWorld True" and res = res2 and d' = d2 and w' = w2
         and am = "demoAppService []",
       THEN conjunct2, THEN conjunct2, THEN conjunct2, THEN conjunct1]
  note t3 = success_only_after_wait
      [where meta = "demoServiceBus []" and d = "demoData [] True []"
         and w = "demoWorld False" and res = "Return None" and d' = d3 and w' = w3
         and am = "demoAppService []", THEN conjunct1]
  from t1 r1 have "Event WaitForPairedNamespaceReplication None False
      \<in> set (since (demoWorld True) w1)" by blast
  moreover from t2 r2 ev2 have "\<exists>e'. res2 = Return (Some e') \<and> wraps e' (SdkError ''timeout'')"
    by blast
  moreover from t3 r3 have "Event Future_WaitForCompletionRef None False
      \<in> set (since (demoWorld False) w3)" by blast
  ultimately show ?thesis using r1 r2 ev2 r3 by blast
qed

section \<open>A lookup answered with not-found\<close>

text \<open>
  Claim C8. Let the lookup of a \<open>Read\<close>, called for the ID of the state, return an error.
  If its response is a not-found, the \<open>Read\<close> of each of the three ServiceBus resources
  returns \<open>nil\<close> with the ID of the state cleared (\<open>d.SetId("")\<close>) and nothing else changed,
  whereas the read of the Kubernetes cluster data source returns the error
  \<open>%s was not found\<close> and leaves the resource data as it was, with no ID set. If the
  response is not a not-found, each of them returns the error inside \<open>retrieving %s: %+v\<close>
  and leaves the resource data, and so the stored ID, as it was. In each case the lookup is
  the only call of the run. The \<open>Read\<close> of the Function App does the same for the other
  errors; on not-found it returns what \<open>metadata.MarkAsGone\<close> returns.
\<close>

theorem not_found_on_read:
  "(\<forall>rid resp e r1.
      parse_SubscriptionID (Parse meta) (Id d) = Inr rid
      \<and> SubscriptionsClient.Get (Subscriptions meta) (SubscriptionId.ResourceGroup rid)
          (SubscriptionId.NamespaceName rid) (SubscriptionId.TopicName rid)
          (SubscriptionId.Name rid) (remote w) = ((resp, Some e), r1) \<longrightarrow>
      resourceServiceBusSubscriptionRead meta d w =
        (if ResponseWasNotFound resp
         then (Return None, SetId d [],
               logged w [Event SubscriptionsClient_Get (Some e) True] r1)
         else (Return (Some (Errorf ''retrieving %s: %+v''
                               [argSubscriptionId rid, ArgError (Some e)])),
               d, logged w [Event SubscriptionsClient_Get (Some e) False] r1)))
   \<and> (\<forall>rid resp e r1.
      parse_NamespaceAuthorizationRuleID (Parse meta) (Id d) = Inr rid
      \<and> NamespacesClient.GetAuthorizationRule (Namespaces meta)
          (NamespaceAuthorizationRuleId.ResourceGroup rid)
          (NamespaceAuthorizationRuleId.NamespaceName rid)
          (NamespaceAuthorizationRuleId.AuthorizationRuleName rid) (remote w)
          = ((resp, Some e), r1) \<longrightarrow>
      resourceServiceBusNamespaceAuthorizationRuleRead meta d w =
        (if ResponseWasNotFound resp
         then (Return None, SetId d [],
               logged w [Event NamespacesClient_GetAuthorizationRule (Some e) True] r1)
         else (Return (Some (Errorf ''retrieving %s: %+v''
                               [argNamespaceAuthorizationRuleId rid, ArgError (Some e)])),
               d, logged w [Event NamespacesClient_GetAuthorizationRule (Some e) False] r1)))
   \<and> (\<forall>rid resp e r1.
      parse_TopicAuthorizationRuleID (Parse meta) (Id d) = Inr rid
      \<and> TopicsClient.GetAuthorizationRule (Topics meta)
          (TopicAuthorizationRuleId.ResourceGroup rid)
          (TopicAuthorizationRuleId.NamespaceName rid)
          (TopicAuthorizationRuleId.TopicName rid)
          (TopicAuthorizationRuleId.AuthorizationRuleName rid) (remote w)
          = ((resp, Some e), r1) \<longrightarrow>
      resourceServiceBusTopicAuthorizationRuleRead meta d w =
        (if ResponseWasNotFound resp
         then (Return None, SetId d [],
               logged w [Event TopicsClient_GetAuthorizationRule (Some e) True] r1)
         else (Return (Some (Errorf ''retrieving %s: %+v''
                               [argTopicAuthorizationRuleId rid, ArgError (Some e)])),
               d, logged w [Event TopicsClient_GetAuthorizationRule (Some e) False] r1)))
   \<and> (\<forall>rid resp e r1.
      rid = NewClusterID cm (containers_meta.Account_SubscriptionId cm)
              (GetString d ''resource_group_name'') (GetString d ''name'')
      \<and> KubernetesClusters_Get cm (ClusterId.ResourceGroup rid)
          (ClusterId.ManagedClusterName rid) (remote w) = ((resp, Some e), r1) \<longrightarrow>
      dataSourceKubernetesClusterRead cm d w =
        (if ResponseWasNotFound resp
         then (Return (Some (Errorf ''%s was not found'' [argClusterId rid])),
               d, logged w [Event KubernetesClustersClient_Get (Some e) True] r1)
         else (Return (Some (Errorf ''retrieving %s: %+v''
                               [argClusterId rid, ArgError (Some e)])),
               d, logged w [Event KubernetesClustersClient_Get (Some e) False] r1)))
   \<and> (\<forall>rid resp e r1.
      parse_FunctionAppID am (Id d) = Inr rid
      \<and> WebAppsClient.Get (WebApps am) (FunctionAppId.ResourceGroup rid)
          (FunctionAppId.SiteName rid) (remote w) = ((resp, Some e), r1) \<longrightarrow>
      Read_Func am d w =
        (if ResponseWasNotFound resp
         then (case MarkAsGone am rid d of
                 (e0, d0) \<Rightarrow>
                   (Return e0, d0, logged w [Event WebAppsClient_Get (Some e) True] r1))
         else (Return (Some (Errorf ''reading Linux %s: %+v''
                               [argFunctionAppId rid, ArgError (Some e)])),
               d, logged w [Event WebAppsClient_Get (Some e) False] r1)))"
proof (intro conjI allI impI; elim conjE)
  fix rid resp e r1
  assume "parse_SubscriptionID (Parse meta) (Id d) = Inr rid"
    and "SubscriptionsClient.Get (Subscriptions meta) (SubscriptionId.ResourceGroup rid)
          (SubscriptionId.NamespaceName rid) (SubscriptionId.TopicName rid)
          (SubscriptionId.Name rid) (remote w) = ((resp, Some e), r1)"
  then show "resourceServiceBusSubscriptionRead meta d w =
        (if ResponseWasNotFound resp
         then (Return None, SetId d [],
               logged w [Event SubscriptionsClient_Get (Some e) True] r1)
         else (Return (Some (Errorf ''retrieving %s: %+v''
                               [argSubscriptionId rid, ArgError (Some e)])),
               d, logged w [Event SubscriptionsClient_Get (Some e) False] r1))"
    by (rule SubscriptionRead_Get_fails)
qed (erule (1) NamespaceRuleRead_Get_fails TopicRuleRead_Get_fails KubernetesRead_Get_fails
       FunctionAppRead_Get_fails)+

text \<open>
  The theorem on the small remote side: the topic rule that does not exist, the topic rule
  whose lookup fails, and the cluster that does not exist.
\<close>

theorem not_found_on_read_witness:
  "resourceServiceBusTopicAuthorizationRuleRead (demoServiceBus [])
     (demoData ''s/g/n/t/r'' False []) (demoWorld False)
   = (Return None, demoData [] False [],
      \<lparr>remote = False,
       trace = [Event TopicsClient_GetAuthorizationRule (Some (SdkError ''404'')) True]\<rparr>)
   \<and> resourceServiceBusTopicAuthorizationRuleRead
       (demoServiceBus [TopicsClient_GetAuthorizationRule])
       (demoData ''s/g/n/t/r'' False []) (demoWorld True)
     = (Return (Some (Errorf ''retrieving %s: %+v''
                        [ArgId [''s'', ''g'', ''n'', ''t'', ''r''],
                         ArgError (Some (SdkError ''500''))])),
        demoData ''s/g/n/t/r'' False [],
        \<lparr>remote = True,
         trace = [Event TopicsClient_GetAuthorizationRule (Some (SdkError ''500'')) False]\<rparr>)
   \<and> dataSourceKubernetesClusterRead (demoContainers [])
       (demoData [] False [(''name'', VString ''c''), (''resource_group_name'', VString ''g'')])
       (demoWorld False)
     = (Return (Some (Errorf ''%s was not found'' [ArgId [''s'', ''g'', ''c'']])),
        demoData [] False [(''name'', VString ''c''), (''resource_group_name'', VString ''g'')],
        \<lparr>remote = False,
         trace = [Event KubernetesClustersClient_Get (Some (SdkError ''404'')) True]\<rparr>)"
proof -
  let ?dk = "demoData [] False [(''name'', VString ''c''), (''resource_group_name'', VString ''g'')]"
  let ?rid = "\<lparr>TopicAuthorizationRuleId.SubscriptionId = ''s'',
          TopicAuthorizationRuleId.ResourceGroup = ''g'',
          TopicAuthorizationRuleId.NamespaceName = ''n'',
          TopicAuthorizationRuleId.TopicName = ''t'',
          TopicAuthorizationRuleId.AuthorizationRuleName = ''r''\<rparr>"
  let ?cid = "\<lparr>ClusterId.SubscriptionId = ''s'', ClusterId.ResourceGroup = ''g'',
          ClusterId.ManagedClusterName = ''c''\<rparr>"
  note t1 = not_found_on_read
      [where meta = "demoServiceBus []" and d = "demoData ''s/g/n/t/r'' False []"
         and w = "demoWorld False" and cm = "demoContainers []" and am = "demoAppService []",
       THEN conjunct2, THEN conjunct2, THEN conjunct1, rule_format,
       of ?rid "\<lparr>ResponseWasNotFound = True, Body = demoRule\<rparr>" "SdkError ''404''" False]
  note t2 = not_found_on_read
      [where meta = "demoServiceBus [TopicsClient_GetAuthorizationRule]"
         and d = "demoData ''s/g/n/t/r'' False []"
         and w = "demoWorld True" and cm = "demoContainers []" and am = "demoAppService []",
       THEN conjunct2, THEN conjunct2, THEN conjunct1, rule_format,
       of ?rid "\<lparr>ResponseWasNotFound = False, Body = demoRule\<rparr>" "SdkError ''500''" True]
  note t3 = not_found_on_read
      [where meta = "demoServiceBus []" and d = ?dk
         and w = "demoWorld False" and cm = "demoContainers []" and am = "demoAppService []",
       THEN conjunct2, THEN conjunct2, THEN conjunct2, THEN conjunct1, rule_format,
       of ?cid "\<lparr>ResponseWasNotFound = True,
        Body = \<lparr>ManagedCluster.Name = Some ''c'', ManagedCluster.Location = None,
                 ManagedCluster.ManagedClusterProperties = None,
                 ManagedCluster.Identity = None, ManagedCluster.Tags = Map.empty\<rparr>\<rparr>"
          "SdkError ''404''" False]
  have c1: "resourceServiceBusTopicAuthorizationRuleRead (demoServiceBus [])
     (demoData ''s/g/n/t/r'' False []) (demoWorld False)
   = (Return None, demoData [] False [],
      \<lparr>remote = False,
       trace = [Event TopicsClient_GetAuthorizationRule (Some (SdkError ''404'')) True]\<rparr>)"
    by (rule t1[THEN trans]) (simp_all add: demo_defs)
  have c2: "resourceServiceBusTopicAuthorizationRuleRead
       (demoServiceBus [TopicsClient_GetAuthorizationRule])
       (demoData ''s/g/n/t/r'' False []) (demoWorld True)
     = (Return (Some (Errorf ''retrieving %s: %+v''
                        [ArgId [''s'', ''g'', ''n'', ''t'', ''r''],
                         ArgError (Some (SdkError ''500''))])),
        demoData ''s/g/n/t/r'' False [],
        \<lparr>remote = True,
         trace = [Event TopicsClient_GetAuthorizationRule (Some (SdkError ''500'')) False]\<rparr>)"
    by (rule t2[THEN trans]) (simp_all add: demo_defs argTopicAuthorizationRuleId_def)
  have c3: "dataSourceKubernetesClusterRead (demoContainers []) ?dk (demoWorld False)
     = (Return (Some (Errorf ''%s was not found'' [ArgId [''s'', ''g'', ''c'']])), ?dk,
        \<lparr>remote = False,
         trace = [Event KubernetesClustersClient_Get (Some (SdkError ''404'')) True]\<rparr>)"
    by (rule t3[THEN trans])
       (simp_all add: demoContainers_def demo_defs argClusterId_def GetString_def)
  from c1 c2 c3 show ?thesis by (intro conjI)
qed

section \<open>Creating a resource that exists\<close>

text \<open>
  Claim C9. Let a create handler run on a new resource (\<open>d.IsNewResource()\<close> for the three
  ServiceBus resources; every run of \<open>Create\<close> of the Function App), and let the lookup,
  called with the components of the computed ID on the remote side as the handler finds
  it, return no error and a response that is not a not-found. Then the handler returns the
  import-as-exists error (\<open>tf.ImportAsExistsError\<close>, or \<open>metadata.ResourceRequiresImport\<close>
  for the Function App) for the computed ID; the resource data is as it was, so no ID is
  set; and the lookup is the only call of the run: the trace has grown by that one event
  and the remote side is in the state in which the lookup left it, so \<open>CreateOrUpdate\<close>
  was not called.
\<close>

theorem create_guarded_by_lookup:
  "(\<forall>rid existing r1.
      resourceServiceBusSubscription_resourceId meta d = Inr rid \<and> IsNewResource d
      \<and> SubscriptionsClient.Get (Subscriptions meta) (SubscriptionId.ResourceGroup rid)
          (SubscriptionId.NamespaceName rid) (SubscriptionId.TopicName rid)
          (SubscriptionId.Name rid) (remote w) = ((existing, None), r1)
      \<and> \<not> ResponseWasNotFound existing \<longrightarrow>
      resourceServiceBusSubscriptionCreateUpdate meta d w =
        (Return (Some (ImportAsExistsError ''azurerm_servicebus_subscription''
                         (SubscriptionId_ID (Parse meta) rid))),
         d, logged w [Event SubscriptionsClient_Get None False] r1))
   \<and> (\<forall>rid existing r1.
      resourceServiceBusNamespaceAuthorizationRule_resourceId meta d = Inr rid
      \<and> IsNewResource d
      \<and> NamespacesClient.GetAuthorizationRule (Namespaces meta)
          (NamespaceAuthorizationRuleId.ResourceGroup rid)
          (NamespaceAuthorizationRuleId.NamespaceName rid)
          (NamespaceAuthorizationRuleId.AuthorizationRuleName rid) (remote w)
          = ((existing, None), r1)
      \<and> \<not> ResponseWasNotFound existing \<longrightarrow>
      resourceServiceBusNamespaceAuthorizationRuleCreateUpdate meta d w =
        (Return (Some (ImportAsExistsError ''azurerm_servicebus_namespace_authorization_rule''
                         (NamespaceAuthorizationRuleId_ID (Parse meta) rid))),
         d, logged w [Event NamespacesClient_GetAuthorizationRule None False] r1))
   \<and> (\<forall>rid existing r1.
      resourceServiceBusTopicAuthorizationRule_resourceId meta d = Inr rid
      \<and> IsNewResource d
      \<and> TopicsClient.GetAuthorizationRule (Topics meta)
          (TopicAuthorizationRuleId.ResourceGroup rid)
          (TopicAuthorizationRuleId.NamespaceName rid)
          (TopicAuthorizationRuleId.TopicName rid)
          (TopicAuthorizationRuleId.AuthorizationRuleName rid) (remote w)
          = ((existing, None), r1)
      \<and> \<not> ResponseWasNotFound existing \<longrightarrow>
      resourceServiceBusTopicAuthorizationRuleCreateUpdate meta d w =
        (Return (Some (ImportAsExistsError ''azurerm_servicebus_topic_authorization_rule''
                         (TopicAuthorizationRuleId_ID (Parse meta) rid))),
         d, logged w [Event TopicsClient_GetAuthorizationRule None False] r1))
   \<and> (\<forall>sfx model rid existing r1.
      Storage_DomainSuffix am = Some sfx \<and> Decode am d = Inr model
      \<and> rid = NewFunctionAppID am (appservice_meta.Account_SubscriptionId am)
                (LinuxFunctionAppOnContainerModel.ResourceGroup model)
                (LinuxFunctionAppOnContainerModel.Name model)
      \<and> WebAppsClient.Get (WebApps am) (FunctionAppId.ResourceGroup rid)
          (FunctionAppId.SiteName rid) (remote w) = ((existing, None), r1)
      \<and> \<not> ResponseWasNotFound existing \<longrightarrow>
      Create_Func am d w =
        (Return (Some (ResourceRequiresImport ''azurerm_linux_function_app_on_container''
                         [FunctionAppId.SubscriptionId rid, FunctionAppId.ResourceGroup rid,
                          FunctionAppId.SiteName rid])),
         d, logged w [Event WebAppsClient_Get None False] r1))"
  by (intro conjI allI impI; elim conjE)
     (erule (3) SubscriptionCreate_exists NamespaceRuleCreate_exists TopicRuleCreate_exists
        | erule (4) FunctionAppCreate_exists)+

text \<open>
  The theorem on the small remote side, where the subscription and the Function App
  exist: one lookup, the import error, the resource data unchanged, the remote side
  untouched.
\<close>

theorem create_guarded_by_lookup_witness:
  "resourceServiceBusSubscriptionCreateUpdate (demoServiceBus [])
     (demoData [] True [(''topic_id'', VString ''s/g/n/t''), (''name'', VString ''x'')])
     (demoWorld True)
   = (Return (Some (ImportAsExistsError ''azurerm_servicebus_subscription'' ''s/g/n/t/x'')),
      demoData [] True [(''topic_id'', VString ''s/g/n/t''), (''name'', VString ''x'')],
      \<lparr>remote = True, trace = [Event SubscriptionsClient_Get None False]\<rparr>)
   \<and> Create_Func (demoAppService []) (demoData [] True []) (demoWorld True)
     = (Return (Some (ResourceRequiresImport ''azurerm_linux_function_app_on_container''
                        [''s'', ''g'', ''app''])),
        demoData [] True [],
        \<lparr>remote = True, trace = [Event WebAppsClient_Get None False]\<rparr>)"
proof -
  let ?d = "demoData [] True [(''topic_id'', VString ''s/g/n/t''), (''name'', VString ''x'')]"
  note t1 = create_guarded_by_lookup
      [where meta = "demoServiceBus []" and d = ?d and w = "demoWorld True"
         and am = "demoAppService []", THEN conjunct1, rule_format,
       of "\<lparr>SubscriptionId.SubscriptionId = ''s'', SubscriptionId.ResourceGroup = ''g'',
            SubscriptionId.NamespaceName = ''n'', SubscriptionId.TopicName = ''t'',
            SubscriptionId.Name = ''x''\<rparr>"
          "\<lparr>ResponseWasNotFound = False, Body = demoSubscription\<rparr>" True]
  note t2 = create_guarded_by_lookup
      [where meta = "demoServiceBus []" and d = "demoData [] True []" and w = "demoWorld True"
         and am = "demoAppService []",
       THEN conjunct2, THEN conjunct2, THEN conjunct2, rule_format,
       of "''core.windows.net''" demoModel
          "\<lparr>FunctionAppId.SubscriptionId = ''s'', FunctionAppId.ResourceGroup = ''g'',
            FunctionAppId.SiteName = ''app''\<rparr>"
          "\<lparr>ResponseWasNotFound = False, Body = demoSite\<rparr>" True]
  have c1: "resourceServiceBusSubscriptionCreateUpdate (demoServiceBus []) ?d (demoWorld True)
   = (Return (Some (ImportAsExistsError ''azurerm_servicebus_subscription'' ''s/g/n/t/x'')),
      ?d, \<lparr>remote = True, trace = [Event SubscriptionsClient_Get None False]\<rparr>)"
    by (rule t1[THEN trans])
       (simp_all add: resourceServiceBusSubscription_resourceId_def demo_defs GetString_def)
  have c2: "Create_Func (demoAppService []) (demoData [] True []) (demoWorld True)
     = (Return (Some (ResourceRequiresImport ''azurerm_linux_function_app_on_container''
                        [''s'', ''g'', ''app''])),
        demoData [] True [],
        \<lparr>remote = True, trace = [Event WebAppsClient_Get None False]\<rparr>)"
    by (rule t2[THEN trans])
       (simp_all add: demoAppService_def demoModel_def newReadState_def demo_defs)
  from c1 c2 show ?thesis by (rule conjI)
qed

section \<open>The cache of storage accounts\<close>

text \<open>Three runs on the storage client with one account.\<close>

lemma demo_find_account:
  "FindAccount demoStorage Map.empty ''acct'' =
     (Inr (Some demoAccount), [''acct'' \<mapsto> demoAccount],
      [Lock accountsLock, CacheRead ''acct'', Remote List_call, Remote NextWithContext_call,
       CacheWrite ''acct'', CacheRead ''acct'', Unlock accountsLock])"
  by (simp add: FindAccount_def demoStorage_def demoAccount_def populateAccountDetails_def)

lemma demo_account_key:
  "AccountKey demoStorage [''acct'' \<mapsto> demoAccount] demoAccount =
     (Inr ''k1'', demoAccount\<lparr>accountKey := Some ''k1''\<rparr>,
      [''acct'' \<mapsto> demoAccount\<lparr>accountKey := Some ''k1''\<rparr>],
      [Lock credentialsLock, Remote ListKeys_call, CacheWrite ''acct'', Unlock credentialsLock])"
  by (simp add: AccountKey_def demoStorage_def demoAccount_def Let_def)

lemma demo_find_account_cached:
  "FindAccount demoStorage [''acct'' \<mapsto> demoAccount] ''acct'' =
     (Inr (Some demoAccount), [''acct'' \<mapsto> demoAccount],
      [Lock accountsLock, CacheRead ''acct'', Unlock accountsLock])"
  by (simp add: FindAccount_def)


section \<open>Lookups and the cache of storage accounts\<close>

lemma FindAccount_hit:
  "cache n = Some a \<Longrightarrow>
   FindAccount c cache n =
     (Inr (Some a), cache, [Lock accountsLock, CacheRead n, Unlock accountsLock])"
  by (simp add: FindAccount_def)

lemma FindAccount_stores:
  "FindAccount c cache n = (Inr (Some a), cache', steps) \<Longrightarrow> cache' n = Some a"
  by (auto simp: FindAccount_def split: option.splits sum.splits prod.splits)

lemma AccountKey_again:
  "AccountKey c cache ad = (Inr k, ad', cache', steps) \<Longrightarrow>
   accountKey ad' = Some k
   \<and> (Remote ListKeys_call \<in> set steps \<longrightarrow> cache' (name ad) = Some ad')"
  by (auto simp: AccountKey_def Let_def split: option.splits sum.splits list.splits)

lemma AccountKey_hit:
  "accountKey ad = Some k \<Longrightarrow>
   AccountKey c cache ad = (Inr k, ad, cache, [Lock credentialsLock, Unlock credentialsLock])"
  by (simp add: AccountKey_def)

text \<open>
  Claim C6. \<open>FindAccount\<close> returns the cached entry, with no call to the SDK, when the name
  is in the cache. After a \<open>FindAccount\<close> that returns an account, whether it came from the
  cache or from a listing, the account is in the cache under that name, so a second
  \<open>FindAccount\<close> with that name, with any client, returns the same account and makes no
  call. After an \<open>AccountKey\<close> that returns a key, a second \<open>AccountKey\<close> on the receiver
  returns the same key and makes no call; and if the first one made the lookup, the receiver
  with its key is in the cache under its name, so a \<open>FindAccount\<close> for that name gives it
  back, with the key, without a call.
\<close>

theorem lookups_are_cached:
  "(cache n = Some a \<longrightarrow>
      FindAccount c cache n =
        (Inr (Some a), cache, [Lock accountsLock, CacheRead n, Unlock accountsLock]))
   \<and> (FindAccount c cache n = (Inr (Some a), cache', steps) \<longrightarrow>
        cache' n = Some a
      \<and> FindAccount c' cache' n =
          (Inr (Some a), cache', [Lock accountsLock, CacheRead n, Unlock accountsLock]))
   \<and> (AccountKey c cache ad = (Inr k, ad', cache', steps) \<longrightarrow>
        AccountKey c' m ad' =
          (Inr k, ad', m, [Lock credentialsLock, Unlock credentialsLock])
      \<and> (Remote ListKeys_call \<in> set steps \<longrightarrow>
            cache' (name ad) = Some ad' \<and> accountKey ad' = Some k
          \<and> FindAccount c' cache' (name ad) =
              (Inr (Some ad'), cache',
               [Lock accountsLock, CacheRead (name ad), Unlock accountsLock])))"
  using FindAccount_hit[of cache n a c] FindAccount_stores[of c cache n a cache' steps]
    FindAccount_hit[of cache' n a c'] AccountKey_again[of c cache ad k ad' cache' steps]
    AccountKey_hit[of ad' k c' m] FindAccount_hit[of cache' "name ad" ad' c']
  by blast

text \<open>
  The theorem on the storage client with one account: the first \<open>FindAccount\<close> lists the
  accounts, the second one does not; the first \<open>AccountKey\<close> lists the keys, the second one
  does not, and the cache then gives the account with its key.
\<close>

theorem lookups_are_cached_witness:
  "(\<exists>cache' steps. FindAccount demoStorage Map.empty ''acct''
        = (Inr (Some demoAccount), cache', steps)
      \<and> Remote List_call \<in> set steps
      \<and> FindAccount demoStorage cache' ''acct''
          = (Inr (Some demoAccount), cache',
             [Lock accountsLock, CacheRead ''acct'', Unlock accountsLock]))
   \<and> (\<exists>ad' cache' steps. AccountKey demoStorage [''acct'' \<mapsto> demoAccount] demoAccount
        = (Inr ''k1'', ad', cache', steps)
      \<and> Remote ListKeys_call \<in> set steps
      \<and> AccountKey demoStorage cache' ad'
          = (Inr ''k1'', ad', cache', [Lock credentialsLock, Unlock credentialsLock])
      \<and> FindAccount demoStorage cache' ''acct''
          = (Inr (Some ad'), cache',
             [Lock accountsLock, CacheRead ''acct'', Unlock accountsLock]))"
proof -
  obtain cache1 steps1 where f1: "FindAccount demoStorage Map.empty ''acct''
        = (Inr (Some demoAccount), cache1, steps1)" and l1: "Remote List_call \<in> set steps1"
    using demo_find_account by simp
  obtain ad2 cache2 steps2 where k1: "AccountKey demoStorage [''acct'' \<mapsto> demoAccount] demoAccount
        = (Inr ''k1'', ad2, cache2, steps2)" and l2: "Remote ListKeys_call \<in> set steps2"
    using demo_account_key by simp
  have nm: "name demoAccount = ''acct''" by (simp add: demoAccount_def)
  note t1 = lookups_are_cached
      [where c = demoStorage and cache = Map.empty and n = "''acct''" and a = demoAccount
         and cache' = cache1 and steps = steps1 and c' = demoStorage and ad = demoAccount,
       THEN conjunct2, THEN conjunct1]
  note t2 = lookups_are_cached
      [where c = demoStorage and cache = "[''acct'' \<mapsto> demoAccount]" and ad = demoAccount
         and k = "''k1''" and ad' = ad2 and cache' = cache2 and steps = steps2
         and c' = demoStorage and m = cache2 and n = "''acct''",
       THEN conjunct2, THEN conjunct2]
  from t1 f1 have c1: "FindAccount demoStorage cache1 ''acct''
          = (Inr (Some demoAccount), cache1,
             [Lock accountsLock, CacheRead ''acct'', Unlock accountsLock])" by blast
  from t2 k1 l2 nm have c2: "AccountKey demoStorage cache2 ad2
          = (Inr ''k1'', ad2, cache2, [Lock credentialsLock, Unlock credentialsLock])
      \<and> FindAccount demoStorage cache2 ''acct''
          = (Inr (Some ad2), cache2,
             [Lock accountsLock, CacheRead ''acct'', Unlock accountsLock])" by simp
  from f1 l1 c1 k1 l2 c2 show ?thesis by blast
qed

section \<open>The locks of the cache of storage accounts\<close>

lemma collectPages_guarded:
  "collectPages p accounts = (r, steps) \<Longrightarrow>
   guarded m held (steps @ rest) = guarded m held rest"
proof (induction p arbitrary: accounts r steps)
  case Exhausted
  then show ?case by simp
next
  case (Page vs p)
  then show ?case by (auto split: if_splits prod.splits)
next
  case (Broken vs err)
  then show ?case by (auto split: if_splits)
qed

lemma cacheAccounts_guarded:
  "cacheAccounts c vs cache = (r, cache', writes) \<Longrightarrow> m \<in> set held \<Longrightarrow>
   guarded m held (writes @ rest) = guarded m held rest"
proof (induction vs arbitrary: cache r cache' writes)
  case Nil
  then show ?case by simp
next
  case (Cons v vs)
  then show ?case by (auto split: option.splits sum.splits prod.splits)
qed

lemma FindAccount_guarded:
  "guarded accountsLock [] (snd (snd (FindAccount c cache n)))"
proof (cases "cache n")
  case (Some a)
  then show ?thesis by (simp add: FindAccount_def)
next
  case None
  show ?thesis
  proof (cases "AccountsClient_List c")
    case (Inl err)
    with None show ?thesis by (simp add: FindAccount_def)
  next
    case (Inr page)
    obtain r steps where p: "collectPages page [] = (r, steps)"
      by (cases "collectPages page []")
    note g = collectPages_guarded[OF p, of accountsLock "[accountsLock]"]
    show ?thesis
    proof (cases r)
      case (Inl err)
      with None Inr p g show ?thesis by (simp add: FindAccount_def)
    next
      case accounts: (Inr accounts)
      obtain e cache' writes where w: "cacheAccounts c accounts cache = (e, cache', writes)"
        by (cases "cacheAccounts c accounts cache")
      have h: "accountsLock \<in> set [accountsLock]" by simp
      note k = cacheAccounts_guarded[OF w h]
      from None Inr p accounts w g k show ?thesis
        by (cases e) (simp_all add: FindAccount_def)
    qed
  qed
qed

lemma AddToCache_guarded:
  "guarded accountsLock [] (snd (snd (AddToCache c cache n props)))"
  by (simp add: AddToCache_def split: sum.splits)

lemma RemoveAccountFromCache_guarded:
  "guarded accountsLock [] (snd (RemoveAccountFromCache cache n))"
  by (simp add: RemoveAccountFromCache_def)

text \<open>
  Claim C2. \<open>FindAccount\<close>, \<open>AddToCache\<close> and \<open>RemoveAccountFromCache\<close> touch the map
  \<open>storageAccountsCache\<close> only while they hold \<open>accountsLock\<close>, on every input.
  \<open>AccountKey\<close> does not: on an account whose key is not known yet it takes
  \<open>credentialsLock\<close>, lists the keys and stores the receiver into the map, and
  \<open>accountsLock\<close> is never taken. So no one mutex is held at every access: the steps of
  \<open>AccountKey\<close> are guarded by \<open>credentialsLock\<close> only and those of \<open>FindAccount\<close> by
  \<open>accountsLock\<close> only. With \<open>AccountKey\<close> in one goroutine and a \<open>FindAccount\<close> for the
  same account in another, after the first has taken its lock and listed the keys and the
  second has taken its own lock, the next step of the first writes the map and the next step
  of the second reads it.
\<close>

theorem AccountKey_writes_cache_without_accountsLock:
  "guarded accountsLock [] (snd (snd (FindAccount c cache n)))
   \<and> guarded accountsLock [] (snd (snd (AddToCache c cache n props)))
   \<and> guarded accountsLock [] (snd (RemoveAccountFromCache cache n))
   \<and> snd (snd (snd (AccountKey demoStorage [''acct'' \<mapsto> demoAccount] demoAccount))) =
       [Lock credentialsLock, Remote ListKeys_call, CacheWrite ''acct'', Unlock credentialsLock]
   \<and> \<not> guarded accountsLock []
         (snd (snd (snd (AccountKey demoStorage [''acct'' \<mapsto> demoAccount] demoAccount))))
   \<and> guarded credentialsLock []
         (snd (snd (snd (AccountKey demoStorage [''acct'' \<mapsto> demoAccount] demoAccount))))
   \<and> \<not> guarded credentialsLock []
         (snd (snd (FindAccount demoStorage [''acct'' \<mapsto> demoAccount] ''acct'')))
   \<and> run [True, True, False]
        ([], [],
         snd (snd (snd (AccountKey demoStorage [''acct'' \<mapsto> demoAccount] demoAccount))),
         snd (snd (FindAccount demoStorage [''acct'' \<mapsto> demoAccount] ''acct'')))
       = Some ([credentialsLock], [accountsLock],
               [CacheWrite ''acct'', Unlock credentialsLock],
               [CacheRead ''acct'', Unlock accountsLock])
   \<and> race ([credentialsLock], [accountsLock],
            [CacheWrite ''acct'', Unlock credentialsLock],
            [CacheRead ''acct'', Unlock accountsLock])"
  unfolding demo_account_key demo_find_account_cached
  using FindAccount_guarded[of c cache n] AddToCache_guarded[of c cache n props]
    RemoveAccountFromCache_guarded[of cache n]
  by (simp add: touchesCache_def changesCache_def)

section \<open>App settings of the containerized Linux Function App\<close>

lemma unpackEntry_FEV:
  "unpackEntry nn pw (''FUNCTIONS_EXTENSION_VERSION'', v) (as, ds, m) =
     Inr (as, ds, m\<lparr>LinuxFunctionAppOnContainerModel.FunctionExtensionsVersion := pointer_From v\<rparr>)"
  by (simp add: unpackEntry_def)

lemma unpackEntry_URL:
  "unpackEntry nn pw (''DOCKER_REGISTRY_SERVER_URL'', v) (as, ds, m) =
     Inr (as, ds\<lparr>Server := pointer_From v\<rparr>, m)"
  by (simp add: unpackEntry_def)

lemma unpackEntry_USERNAME:
  "unpackEntry nn pw (''DOCKER_REGISTRY_SERVER_USERNAME'', v) (as, ds, m) =
     Inr (as, ds\<lparr>UserName := nn v\<rparr>, m)"
  by (simp add: unpackEntry_def)

lemma unpackEntry_PASSWORD:
  "unpackEntry nn pw (''DOCKER_REGISTRY_SERVER_PASSWORD'', v) (as, ds, m) =
     Inr (as, ds\<lparr>Password := nn v\<rparr>, m)"
  by (simp add: unpackEntry_def)

lemma unpackEntry_APPINSIGHTS:
  "unpackEntry nn pw (''APPLICATIONINSIGHTS_CONNECTION_STRING'', v) (as, ds, m) =
     (case LinuxFunctionAppOnContainerModel.SiteConfig m of
        [] \<Rightarrow> Inl IndexOutOfRange
      | sc # rest \<Rightarrow>
          Inr (as, ds, m\<lparr>LinuxFunctionAppOnContainerModel.SiteConfig := sc\<lparr>AppInsightsConnectionString := nn v\<rparr> # rest\<rparr>))"
  by (simp add: unpackEntry_def)

lemma unpackEntry_STORAGE:
  "unpackEntry nn pw (''AzureWebJobsStorage'', v) (as, ds, m) =
     (if v \<noteq> None \<and> HasPrefix (the v) ''@Microsoft.KeyVault''
      then Inr (as, ds, m\<lparr>LinuxFunctionAppOnContainerModel.StorageKeyVaultSecretID :=
                 TrimPrefix (TrimSuffix (the v) '')'') ''@Microsoft.KeyVault(SecretUri=''\<rparr>)
      else Inr (as, ds, m\<lparr>LinuxFunctionAppOnContainerModel.StorageAccountName := fst (pw v), LinuxFunctionAppOnContainerModel.StorageAccountKey := snd (pw v)\<rparr>))"
  by (simp add: unpackEntry_def Let_def split_beta)

lemma unpackEntry_default:
  "k \<notin> set reservedKeys \<Longrightarrow>
   unpackEntry nn pw (k, v) (as, ds, m) = Inr (as(k \<mapsto> nn v), ds, m)"
  by (simp add: unpackEntry_def reservedKeys_def)

lemma reservedKeys_cases:
  obtains "k = ''FUNCTIONS_EXTENSION_VERSION''" | "k = ''DOCKER_REGISTRY_SERVER_URL''"
  | "k = ''DOCKER_REGISTRY_SERVER_USERNAME''" | "k = ''DOCKER_REGISTRY_SERVER_PASSWORD''"
  | "k = ''APPLICATIONINSIGHTS_CONNECTION_STRING''" | "k = ''AzureWebJobsStorage''"
  | "k \<notin> set reservedKeys"
  unfolding reservedKeys_def by auto

lemma unpackEntry_step:
  assumes "LinuxFunctionAppOnContainerModel.SiteConfig m \<noteq> [] \<or> k \<noteq> ''APPLICATIONINSIGHTS_CONNECTION_STRING''"
  obtains as' ds' m' where "unpackEntry nn pw (k, v) (as, ds, m) = Inr (as', ds', m')"
    and "LinuxFunctionAppOnContainerModel.SiteConfig m' = [] \<longleftrightarrow> LinuxFunctionAppOnContainerModel.SiteConfig m = []"
    and "LinuxFunctionAppOnContainerModel.BuiltinLogging m' = LinuxFunctionAppOnContainerModel.BuiltinLogging m"
    and "as' = (if k \<in> set reservedKeys then as else as(k \<mapsto> nn v))"
    and "m' =
    (if k = ''FUNCTIONS_EXTENSION_VERSION'' then m\<lparr>LinuxFunctionAppOnContainerModel.FunctionExtensionsVersion := pointer_From v\<rparr>
     else if k = ''APPLICATIONINSIGHTS_CONNECTION_STRING'' then
       m\<lparr>LinuxFunctionAppOnContainerModel.SiteConfig := (hd (LinuxFunctionAppOnContainerModel.SiteConfig m))\<lparr>AppInsightsConnectionString := nn v\<rparr> # tl (LinuxFunctionAppOnContainerModel.SiteConfig m)\<rparr>
     else if k = ''AzureWebJobsStorage'' then
       (if v \<noteq> None \<and> HasPrefix (the v) ''@Microsoft.KeyVault''
        then m\<lparr>LinuxFunctionAppOnContainerModel.StorageKeyVaultSecretID :=
                 TrimPrefix (TrimSuffix (the v) '')'') ''@Microsoft.KeyVault(SecretUri=''\<rparr>
        else m\<lparr>LinuxFunctionAppOnContainerModel.StorageAccountName := fst (pw v), LinuxFunctionAppOnContainerModel.StorageAccountKey := snd (pw v)\<rparr>)
     else m)"
proof (cases k rule: reservedKeys_cases)
  case 1
  then show ?thesis using that by (simp add: unpackEntry_FEV reservedKeys_def)
next
  case 2
  then show ?thesis using that by (simp add: unpackEntry_URL reservedKeys_def)
next
  case 3
  then show ?thesis using that by (simp add: unpackEntry_USERNAME reservedKeys_def)
next
  case 4
  then show ?thesis using that by (simp add: unpackEntry_PASSWORD reservedKeys_def)
next
  case 5
  with assms have "LinuxFunctionAppOnContainerModel.SiteConfig m \<noteq> []" by simp
  with 5 show ?thesis using that
    by (cases "LinuxFunctionAppOnContainerModel.SiteConfig m") (simp_all add: unpackEntry_APPINSIGHTS reservedKeys_def)
next
  case 6
  show ?thesis
    by (rule that[of as ds
          "if v \<noteq> None \<and> HasPrefix (the v) ''@Microsoft.KeyVault''
           then m\<lparr>LinuxFunctionAppOnContainerModel.StorageKeyVaultSecretID :=
                 TrimPrefix (TrimSuffix (the v) '')'') ''@Microsoft.KeyVault(SecretUri=''\<rparr>
           else m\<lparr>LinuxFunctionAppOnContainerModel.StorageAccountName := fst (pw v), LinuxFunctionAppOnContainerModel.StorageAccountKey := snd (pw v)\<rparr>"])
       (use 6 in \<open>auto simp: unpackEntry_STORAGE reservedKeys_def\<close>)
next
  case 7
  then have "k \<noteq> ''FUNCTIONS_EXTENSION_VERSION''" "k \<noteq> ''APPLICATIONINSIGHTS_CONNECTION_STRING''"
    "k \<noteq> ''AzureWebJobsStorage''" by (auto simp: reservedKeys_def)
  with 7 show ?thesis using that by (simp add: unpackEntry_default)
qed



lemma unpackLoop_BuiltinLogging:
  "LinuxFunctionAppOnContainerModel.SiteConfig m \<noteq> [] \<or> ''APPLICATIONINSIGHTS_CONNECTION_STRING'' \<notin> fst ` set kvs \<Longrightarrow>
   unpackLoop nn pw kvs (as, ds, m) = Inr (as', ds', m') \<Longrightarrow>
   LinuxFunctionAppOnContainerModel.BuiltinLogging m' = LinuxFunctionAppOnContainerModel.BuiltinLogging m"
proof (induction kvs arbitrary: as ds m)
  case Nil
  then show ?case by simp
next
  case (Cons kv kvs)
  obtain k v where kv: "kv = (k, v)" by (cases kv)
  from Cons.prems(1) kv
  have p: "LinuxFunctionAppOnContainerModel.SiteConfig m \<noteq> [] \<or> k \<noteq> ''APPLICATIONINSIGHTS_CONNECTION_STRING''" by auto
  from p obtain as1 ds1 m1
    where st: "unpackEntry nn pw (k, v) (as, ds, m) = Inr (as1, ds1, m1)"
      and sc: "LinuxFunctionAppOnContainerModel.SiteConfig m1 = [] \<longleftrightarrow> LinuxFunctionAppOnContainerModel.SiteConfig m = []"
      and bl: "LinuxFunctionAppOnContainerModel.BuiltinLogging m1 = LinuxFunctionAppOnContainerModel.BuiltinLogging m"
    by (rule unpackEntry_step)
  from Cons.prems(1) sc have q:
    "LinuxFunctionAppOnContainerModel.SiteConfig m1 \<noteq> [] \<or> ''APPLICATIONINSIGHTS_CONNECTION_STRING'' \<notin> fst ` set kvs"
    by auto
  from Cons.prems(2) have "unpackLoop nn pw kvs (as1, ds1, m1) = Inr (as', ds', m')"
    by (simp add: kv st)
  from Cons.IH[OF q this] bl show ?case by simp
qed








end
